theory Spec2Isabelle
  imports Main "HOL-Library.Word"
begin

unbundle bit_operations_syntax

section \<open>The MDL decompiler (mdl\_reverse\_engineer.c) as HOL functions\<close>

text \<open>
  The program reads one Quake MDL file sequentially and writes one LBM raster per skin and
  one Alias .tri mesh per frame.  The embedding below follows the C source function by
  function.  What the C text leaves to its environment is fixed as follows.
  \<^item> \<open>int\<close> is 32 bits wide, \<open>size_t\<close> 64 bits, the host is little-endian (the source
    says so itself in its comment on the byte-order helpers).
  \<^item> A \<open>float\<close> is kept as its 32-bit memory image: \<open>ReadLittleFloat\<close> and
    \<open>WriteBigFloat\<close> move that image through a union and never inspect it.  The three
    arithmetic operations the program applies to floats (conversion of an unsigned byte,
    multiplication, addition) are a parameter of the model, \<open>float_arith\<close>.
  \<^item> \<open>Error\<close> prints and calls \<open>exit (1)\<close>: a computation returns \<open>Inl e\<close> together with
    the state of the world at that moment, and nothing runs after it.
  \<^item> Undefined behaviour of C (signed overflow, an access outside an allocated object,
    a read of memory that was never written) is the error \<open>UndefinedBehaviour\<close>.
  \<^item> \<open>malloc\<close> returns NULL exactly for requests above \<open>PTRDIFF_MAX\<close>; opening and
    writing an output file succeeds.  Diagnostic \<open>printf\<close> output is not modelled.
  \<^item> Output paths are derived from the input path by \<open>sprintf\<close>; the model keeps what
    distinguishes them (the kind of file and the indices printed into the name).
\<close>

subsection \<open>Bytes, floats, the world\<close>

type_synonym byte = "8 word"
type_synonym float32 = "32 word"
type_synonym vec3_t = "float32 \<times> float32 \<times> float32"

record float_arith =
  of_byte :: "byte \<Rightarrow> float32"
  fmul :: "float32 \<Rightarrow> float32 \<Rightarrow> float32"
  fadd :: "float32 \<Rightarrow> float32 \<Rightarrow> float32"

datatype out_name = SkinLbm int | FrameTri int | SubFrameTri int int

datatype error =
    FileReadFailure int nat nat
  | InvalidMDL int int
  | SuspiciousSubframes int
  | UnknownFrameType int
  | AllocFailure
  | UndefinedBehaviour

text \<open>
  The input FILE is read strictly forwards (the program never seeks), so it is the list of
  bytes not yet read together with the position \<open>ftell\<close> reports.  \<open>files\<close> is the
  output directory: the contents of every file written so far.
\<close>

record world =
  unread :: "byte list"
  fpos :: nat
  files :: "out_name \<Rightarrow> byte list option"

type_synonym 'a io = "world \<Rightarrow> (error + 'a) \<times> world"

definition ret :: "'a \<Rightarrow> 'a io" where
  "ret a s = (Inr a, s)"

definition Error :: "error \<Rightarrow> 'a io" where
  "Error e s = (Inl e, s)"

definition bind :: "'a io \<Rightarrow> ('a \<Rightarrow> 'b io) \<Rightarrow> 'b io" where
  "bind m f s = (case m s of (Inl e, s') \<Rightarrow> (Inl e, s') | (Inr a, s') \<Rightarrow> f a s')"

text \<open>
  A C loop \<open>for (k = 0; k < n; k++) body\<close> whose body changes neither \<open>k\<close> nor \<open>n\<close>
  runs the body for \<open>k = 0, 1, ...\<close> in turn and stops at the first error.  \<open>a\<close> is
  what the body updates besides the world (an array it fills; \<open>()\<close> when there is none).
\<close>

fun for_each :: "int list \<Rightarrow> (int \<Rightarrow> 'a \<Rightarrow> 'a io) \<Rightarrow> 'a \<Rightarrow> 'a io" where
  "for_each [] body a = ret a"
| "for_each (k # ks) body a = bind (body k a) (\<lambda>a'. for_each ks body a')"

definition for_loop :: "int \<Rightarrow> (int \<Rightarrow> 'a \<Rightarrow> 'a io) \<Rightarrow> 'a \<Rightarrow> 'a io" where
  "for_loop n body a = for_each [0..n - 1] body a"

subsection \<open>cmdlib: SafeRead, malloc, SafeWrite\<close>

definition SIZE_MAX1 :: int where
  "SIZE_MAX1 = 2 ^ 64"

definition PTRDIFF_MAX :: int where
  "PTRDIFF_MAX = 2 ^ 63 - 1"

definition INT_MAX :: int where
  "INT_MAX = 2 ^ 31 - 1"

definition INT_MIN :: int where
  "INT_MIN = - (2 ^ 31)"

text \<open>Conversion of an integer value to \<open>size_t\<close>.\<close>

definition to_size_t :: "int \<Rightarrow> int" where
  "to_size_t n = n mod SIZE_MAX1"

text \<open>Conversion of an integer value to \<open>int\<close> (two's complement wrap-around).\<close>

definition to_int :: "int \<Rightarrow> int" where
  "to_int n = sint (word_of_int n :: 32 word)"

text \<open>
  \<open>SafeRead f buffer count\<close>.  \<open>cap\<close> is the size of the object \<open>buffer\<close> points to.
  \<open>fread\<close> is asked for \<open>(size_t) count\<close> bytes and delivers as many as the file still
  has; a short read is fatal, and the message carries \<open>count\<close>, the number of bytes
  delivered and \<open>ftell\<close> after the read.
\<close>

definition SafeRead :: "int \<Rightarrow> int \<Rightarrow> byte list io" where
  "SafeRead cap count s =
    (let bytes_read = min (nat (to_size_t count)) (length (unread s));
         s' = s\<lparr>unread := drop bytes_read (unread s), fpos := fpos s + bytes_read\<rparr>
     in if cap < int bytes_read then (Inl UndefinedBehaviour, s')
        else if int bytes_read \<noteq> to_size_t count
          then (Inl (FileReadFailure count bytes_read (fpos s')), s')
        else (Inr (take bytes_read (unread s)), s'))"

definition malloc :: "int \<Rightarrow> unit io" where
  "malloc n = (if PTRDIFF_MAX < n then Error AllocFailure else ret ())"

definition SafeOpenWrite :: "out_name \<Rightarrow> unit io" where
  "SafeOpenWrite filename s = (Inr (), s\<lparr>files := (files s)(filename \<mapsto> [])\<rparr>)"

definition SafeWrite :: "out_name \<Rightarrow> byte list \<Rightarrow> unit io" where
  "SafeWrite f buffer s =
     (Inr (), s\<lparr>files := (files s)(f \<mapsto> (case files s f of None \<Rightarrow> [] | Some old \<Rightarrow> old) @ buffer)\<rparr>)"

definition SaveFile :: "out_name \<Rightarrow> byte list \<Rightarrow> unit io" where
  "SaveFile filename buffer = bind (SafeOpenWrite filename) (\<lambda>_. SafeWrite filename buffer)"

subsection \<open>Byte order\<close>

text \<open>\<open>b[0] | (b[1] << 8) | (b[2] << 16) | (b[3] << 24)\<close> on a four-byte buffer.\<close>

definition little_bits :: "byte list \<Rightarrow> 32 word" where
  "little_bits b =
     ucast (b ! 0) OR push_bit 8 (ucast (b ! 1)) OR push_bit 16 (ucast (b ! 2))
       OR push_bit 24 (ucast (b ! 3))"

text \<open>\<open>b[3] | (b[2] << 8) | (b[1] << 16) | (b[0] << 24)\<close>, as in \<open>ReadBigLong\<close>.\<close>

definition big_bits :: "byte list \<Rightarrow> 32 word" where
  "big_bits b =
     ucast (b ! 3) OR push_bit 8 (ucast (b ! 2)) OR push_bit 16 (ucast (b ! 1))
       OR push_bit 24 (ucast (b ! 0))"

definition ReadBigLong :: "int io" where
  "ReadBigLong = bind (SafeRead 4 4) (\<lambda>b. ret (sint (big_bits b)))"

definition ReadLittleLong :: "int io" where
  "ReadLittleLong = bind (SafeRead 4 4) (\<lambda>b. ret (sint (little_bits b)))"

definition ReadLittleFloat :: "float32 io" where
  "ReadLittleFloat = bind (SafeRead 4 4) (\<lambda>b. ret (little_bits b))"

text \<open>
  A byte buffer that is filled through a moving pointer is the list of its bytes up to the
  last one stored; \<open>store buffer off x\<close> is \<open>buffer[off] = x\<close>.  A byte below \<open>off\<close>
  that was skipped (a length field to be patched later) holds 0 until it is stored.
\<close>

definition store :: "byte list \<Rightarrow> nat \<Rightarrow> byte \<Rightarrow> byte list" where
  "store buffer off x =
     (if off < length buffer then buffer[off := x]
      else buffer @ replicate (off - length buffer) 0 @ [x])"

text \<open>\<open>memcpy (buffer + off, src, n)\<close>, for \<open>n\<close> within \<open>src\<close>.\<close>

definition memcpy :: "byte list \<Rightarrow> nat \<Rightarrow> byte list \<Rightarrow> nat \<Rightarrow> byte list" where
  "memcpy buffer off src n = fold (\<lambda>k b. store b (off + k) (src ! k)) [0..<n] buffer"

definition WriteBigShortToBuffer :: "byte list \<Rightarrow> nat \<Rightarrow> 16 word \<Rightarrow> byte list" where
  "WriteBigShortToBuffer buffer off val =
     (let buffer = store buffer off (ucast (drop_bit 8 val AND 0xFF));
          buffer = store buffer (off + 1) (ucast (val AND 0xFF))
      in buffer)"

definition WriteBigLongToBuffer :: "byte list \<Rightarrow> nat \<Rightarrow> 32 word \<Rightarrow> byte list" where
  "WriteBigLongToBuffer buffer off val =
     (let buffer = store buffer off (ucast (drop_bit 24 val AND 0xFF));
          buffer = store buffer (off + 1) (ucast (drop_bit 16 val AND 0xFF));
          buffer = store buffer (off + 2) (ucast (drop_bit 8 val AND 0xFF));
          buffer = store buffer (off + 3) (ucast (val AND 0xFF))
      in buffer)"

text \<open>\<open>in.b\<close> is the memory image of the float on the little-endian host.\<close>

definition WriteBigFloat :: "out_name \<Rightarrow> float32 \<Rightarrow> unit io" where
  "WriteBigFloat f val =
     (let inb = [ucast val, ucast (drop_bit 8 val), ucast (drop_bit 16 val),
                 ucast (drop_bit 24 val)] :: byte list;
          b_swapped = [inb ! 3, inb ! 2, inb ! 1, inb ! 0]
      in SafeWrite f b_swapped)"

subsection \<open>Structures of modelgen.h and trilib.h\<close>

definition ALIAS_VERSION :: int where
  "ALIAS_VERSION = 6"

text \<open>\<open>('O'<<24)+('P'<<16)+('D'<<8)+'I'\<close>\<close>

definition IDPOLYHEADER :: int where
  "IDPOLYHEADER = 79 * 2 ^ 24 + 80 * 2 ^ 16 + 68 * 2 ^ 8 + 73"

definition IDTRIHEADER :: int where
  "IDTRIHEADER = 123322"

definition ALIAS_SINGLE :: int where
  "ALIAS_SINGLE = 0"

definition ALIAS_GROUP :: int where
  "ALIAS_GROUP = 1"

record mdl_header_t =
  ident :: int
  version :: int
  scale :: vec3_t
  scale_origin :: vec3_t
  boundingradius :: float32
  eyeposition :: vec3_t
  numskins :: int
  skinwidth :: int
  skinheight :: int
  numverts :: int
  numtris :: int
  numframes :: int
  synctype :: int
  flags :: int
  size_m :: float32

record stvert_t =
  onseam :: int
  s_coord :: int
  t_coord :: int

record dtriangle_t =
  facesfront :: int
  vertindex :: "int \<times> int \<times> int"

record trivertx_t =
  v :: "byte \<times> byte \<times> byte"
  lightnormalindex :: byte

text \<open>\<open>triangle_t\<close>: \<open>vec3_t verts[3]\<close>.\<close>

type_synonym triangle_t = "vec3_t \<times> vec3_t \<times> vec3_t"

text \<open>Element \<open>k\<close> of a three-element C array, for \<open>k\<close> = 0, 1, 2.\<close>

fun elem3 :: "'a \<times> 'a \<times> 'a \<Rightarrow> nat \<Rightarrow> 'a" where
  "elem3 (a, b, c) k = (if k = 0 then a else if k = 1 then b else c)"

definition sizeof_stvert_t :: int where
  "sizeof_stvert_t = 12"

definition sizeof_dtriangle_t :: int where
  "sizeof_dtriangle_t = 16"

definition sizeof_trivertx_t :: int where
  "sizeof_trivertx_t = 4"

definition sizeof_daliasframe_t :: int where
  "sizeof_daliasframe_t = 24"

definition sizeof_daliasgroup_t :: int where
  "sizeof_daliasgroup_t = 12"

definition sizeof_triangle_t :: int where
  "sizeof_triangle_t = 36"

definition sizeof_bmhd_t :: nat where
  "sizeof_bmhd_t = 20"

subsection \<open>WriteLBMfile\<close>

definition ascii :: "string \<Rightarrow> byte list" where
  "ascii = map of_char"

text \<open>The size of the block \<open>malloc\<close>ed for the whole LBM file.\<close>

definition LBM_BUFFER_SIZE :: nat where
  "LBM_BUFFER_SIZE = 8 + (8 + sizeof_bmhd_t + 1) + (8 + 768 + 1) + (8 + 512 * 512 + 1)"

text \<open>
  The buffer and the final \<open>lbmptr\<close> (as an offset from \<open>lbm_buffer\<close>) that
  \<open>WriteLBMfile\<close> builds, for \<open>npix = width * height\<close> pixels.
\<close>

definition lbm_image :: "byte list \<Rightarrow> int \<Rightarrow> int \<Rightarrow> nat \<Rightarrow> byte list \<Rightarrow> byte list \<times> nat" where
  "lbm_image data width height npix palette =
    (let lbm_buffer = []; lbmptr = 0;
         \<comment> \<open>FORM chunk header\<close>
         lbm_buffer = memcpy lbm_buffer lbmptr (ascii ''FORM'') 4; lbmptr = lbmptr + 4;
         form_len_ptr = lbmptr; lbmptr = lbmptr + 4;
         lbm_buffer = memcpy lbm_buffer lbmptr (ascii ''PBM '') 4; lbmptr = lbmptr + 4;
         \<comment> \<open>BMHD chunk\<close>
         lbm_buffer = memcpy lbm_buffer lbmptr (ascii ''BMHD'') 4; lbmptr = lbmptr + 4;
         bmhd_len_ptr = lbmptr; lbmptr = lbmptr + 4;
         w = (word_of_int width :: 16 word);
         h = (word_of_int height :: 16 word);
         x = (0 :: 16 word);
         y = (0 :: 16 word);
         nPlanes = (8 :: byte);
         masking = (0 :: byte);
         compression = (0 :: byte);
         pad1 = (0 :: byte);
         transparentColor = (0 :: 16 word);
         xAspect = (5 :: byte);
         yAspect = (6 :: byte);
         pageWidth = (word_of_int width :: 16 word);
         pageHeight = (word_of_int height :: 16 word);
         lbm_buffer = WriteBigShortToBuffer lbm_buffer lbmptr w; lbmptr = lbmptr + 2;
         lbm_buffer = WriteBigShortToBuffer lbm_buffer lbmptr h; lbmptr = lbmptr + 2;
         lbm_buffer = WriteBigShortToBuffer lbm_buffer lbmptr x; lbmptr = lbmptr + 2;
         lbm_buffer = WriteBigShortToBuffer lbm_buffer lbmptr y; lbmptr = lbmptr + 2;
         lbm_buffer = store lbm_buffer lbmptr nPlanes; lbmptr = lbmptr + 1;
         lbm_buffer = store lbm_buffer lbmptr masking; lbmptr = lbmptr + 1;
         lbm_buffer = store lbm_buffer lbmptr compression; lbmptr = lbmptr + 1;
         lbm_buffer = store lbm_buffer lbmptr pad1; lbmptr = lbmptr + 1;
         lbm_buffer = WriteBigShortToBuffer lbm_buffer lbmptr transparentColor; lbmptr = lbmptr + 2;
         lbm_buffer = store lbm_buffer lbmptr xAspect; lbmptr = lbmptr + 1;
         lbm_buffer = store lbm_buffer lbmptr yAspect; lbmptr = lbmptr + 1;
         lbm_buffer = WriteBigShortToBuffer lbm_buffer lbmptr pageWidth; lbmptr = lbmptr + 2;
         lbm_buffer = WriteBigShortToBuffer lbm_buffer lbmptr pageHeight; lbmptr = lbmptr + 2;
         bmhd_len = (word_of_nat (lbmptr - (bmhd_len_ptr + 4)) :: 32 word);
         lbm_buffer = WriteBigLongToBuffer lbm_buffer bmhd_len_ptr bmhd_len;
         (lbm_buffer, lbmptr) =
            (if bmhd_len AND 1 \<noteq> 0 then (store lbm_buffer lbmptr 0, lbmptr + 1)
             else (lbm_buffer, lbmptr));
         \<comment> \<open>CMAP chunk\<close>
         lbm_buffer = memcpy lbm_buffer lbmptr (ascii ''CMAP'') 4; lbmptr = lbmptr + 4;
         cmap_len_ptr = lbmptr; lbmptr = lbmptr + 4;
         lbm_buffer = memcpy lbm_buffer lbmptr palette 768; lbmptr = lbmptr + 768;
         cmap_len = (word_of_nat (lbmptr - (cmap_len_ptr + 4)) :: 32 word);
         lbm_buffer = WriteBigLongToBuffer lbm_buffer cmap_len_ptr cmap_len;
         (lbm_buffer, lbmptr) =
            (if cmap_len AND 1 \<noteq> 0 then (store lbm_buffer lbmptr 0, lbmptr + 1)
             else (lbm_buffer, lbmptr));
         \<comment> \<open>BODY chunk\<close>
         lbm_buffer = memcpy lbm_buffer lbmptr (ascii ''BODY'') 4; lbmptr = lbmptr + 4;
         body_len_ptr = lbmptr; lbmptr = lbmptr + 4;
         lbm_buffer = memcpy lbm_buffer lbmptr data npix; lbmptr = lbmptr + npix;
         body_len = (word_of_nat (lbmptr - (body_len_ptr + 4)) :: 32 word);
         lbm_buffer = WriteBigLongToBuffer lbm_buffer body_len_ptr body_len;
         (lbm_buffer, lbmptr) =
            (if body_len AND 1 \<noteq> 0 then (store lbm_buffer lbmptr 0, lbmptr + 1)
             else (lbm_buffer, lbmptr));
         \<comment> \<open>Finalize FORM length\<close>
         form_len = (word_of_nat (lbmptr - (form_len_ptr + 4)) :: 32 word);
         lbm_buffer = WriteBigLongToBuffer lbm_buffer form_len_ptr form_len
     in (lbm_buffer, lbmptr))"

text \<open>
  \<open>WriteLBMfile filename data width height palette\<close>.  \<open>width * height\<close> is an \<open>int\<close>
  product; \<open>memcpy\<close> takes it as a \<open>size_t\<close> (a negative product is a size above
  \<open>2 ^ 63\<close>) and must stay inside \<open>data\<close>, \<open>palette\<close> and the allocated block.  The file
  is the buffer from its start to \<open>lbmptr\<close>.
\<close>

definition WriteLBMfile :: "out_name \<Rightarrow> byte list \<Rightarrow> int \<Rightarrow> int \<Rightarrow> byte list \<Rightarrow> unit io" where
  "WriteLBMfile filename data width height palette =
    bind (malloc (int LBM_BUFFER_SIZE)) (\<lambda>_.
      if width * height < INT_MIN \<or> INT_MAX < width * height then Error UndefinedBehaviour
      else if width * height < 0 \<or> int (length data) < width * height
          \<or> length palette < 768
        then Error UndefinedBehaviour
      else (case lbm_image data width height (nat (width * height)) palette of
              (lbm_buffer, lbmptr) \<Rightarrow>
                if LBM_BUFFER_SIZE < lbmptr then Error UndefinedBehaviour
                else SaveFile filename (take lbmptr lbm_buffer)))"

subsection \<open>WriteTriFile\<close>

text \<open>The memory images of the float constants \<open>0.0f\<close>, \<open>99999.0f\<close> and \<open>-99999.0f\<close>.\<close>

definition float_zero :: float32 where
  "float_zero = 0x00000000"

definition FLOAT_START :: float32 where
  "FLOAT_START = 0x47C34F80"

definition FLOAT_END :: float32 where
  "FLOAT_END = 0xC7C34F80"

text \<open>\<open>char obj_name[] = "exported_object"\<close> and \<open>char tex_name[] = "default_skin"\<close>,
  each with its terminating NUL (\<open>sizeof\<close> counts it).\<close>

definition obj_name :: "byte list" where
  "obj_name = ascii ''exported_object'' @ [0]"

definition tex_name :: "byte list" where
  "tex_name = ascii ''default_skin'' @ [0]"

text \<open>The body of the inner loop: the \<open>aliaspoint_t\<close> of vertex \<open>j\<close> of one triangle.\<close>

definition write_point :: "out_name \<Rightarrow> triangle_t \<Rightarrow> nat \<Rightarrow> unit io" where
  "write_point f tri j =
     bind (WriteBigFloat f float_zero) (\<lambda>_.
     bind (WriteBigFloat f float_zero) (\<lambda>_.
     bind (WriteBigFloat f float_zero) (\<lambda>_.
     bind (WriteBigFloat f (elem3 (elem3 tri j) 0)) (\<lambda>_.
     bind (WriteBigFloat f (elem3 (elem3 tri j) 1)) (\<lambda>_.
     bind (WriteBigFloat f (elem3 (elem3 tri j) 2)) (\<lambda>_.
     bind (WriteBigFloat f float_zero) (\<lambda>_.
     bind (WriteBigFloat f float_zero) (\<lambda>_.
     bind (WriteBigFloat f float_zero) (\<lambda>_.
     bind (WriteBigFloat f float_zero) (\<lambda>_.
     WriteBigFloat f float_zero))))))))))"

definition WriteTriFile :: "out_name \<Rightarrow> triangle_t list \<Rightarrow> int \<Rightarrow> unit io" where
  "WriteTriFile filename triangles num_triangles =
     bind (SafeOpenWrite filename) (\<lambda>_.
     bind (SafeWrite filename (WriteBigLongToBuffer [] 0 (word_of_int IDTRIHEADER))) (\<lambda>_.
     bind (WriteBigFloat filename FLOAT_START) (\<lambda>_.
     bind (SafeWrite filename obj_name) (\<lambda>_.
     bind (SafeWrite filename (WriteBigLongToBuffer [] 0 (word_of_int num_triangles))) (\<lambda>_.
     bind (SafeWrite filename tex_name) (\<lambda>_.
     bind (for_loop num_triangles (\<lambda>i _.
             if nat i < length triangles
             then for_loop 3 (\<lambda>j _. write_point filename (triangles ! nat i) (nat j)) ()
             else Error UndefinedBehaviour) ()) (\<lambda>_.
     bind (WriteBigFloat filename FLOAT_END) (\<lambda>_.
     SafeWrite filename obj_name))))))))"

subsection \<open>main\<close>

text \<open>\<open>loaded_palette\<close>: the 256 RGB triples hardcoded in \<open>main\<close>.\<close>

definition loaded_palette :: "byte list" where
  "loaded_palette = [
      0x00, 0x00, 0x00, 0x0F, 0x0F, 0x0F, 0x1F, 0x1F, 0x1F, 0x2F, 0x2F, 0x2F, 0x3F, 0x3F, 0x3F, 0x4B, 0x4B, 0x4B, 0x5B, 0x5B, 0x5B, 0x6B, 0x6B, 0x6B,
      0x7B, 0x7B, 0x7B, 0x8B, 0x8B, 0x8B, 0x9B, 0x9B, 0x9B, 0xAB, 0xAB, 0xAB, 0xBB, 0xBB, 0xBB, 0xCB, 0xCB, 0xCB, 0xDB, 0xDB, 0xDB, 0xEB, 0xEB, 0xEB,
      0x0F, 0x0B, 0x07, 0x17, 0x0F, 0x0B, 0x1F, 0x17, 0x0B, 0x27, 0x1B, 0x0F, 0x2F, 0x23, 0x13, 0x37, 0x2B, 0x17, 0x3F, 0x2F, 0x17, 0x4B, 0x37, 0x1B,
      0x53, 0x3B, 0x1B, 0x5B, 0x43, 0x1F, 0x63, 0x4B, 0x1F, 0x6B, 0x53, 0x1F, 0x73, 0x57, 0x1F, 0x7B, 0x5F, 0x23, 0x83, 0x67, 0x23, 0x8F, 0x6F, 0x23,
      0x0B, 0x0B, 0x0F, 0x13, 0x13, 0x1B, 0x1B, 0x1B, 0x27, 0x27, 0x27, 0x33, 0x2F, 0x2F, 0x3F, 0x37, 0x37, 0x4B, 0x3F, 0x3F, 0x57, 0x47, 0x47, 0x67,
      0x4F, 0x4F, 0x73, 0x5B, 0x5B, 0x7F, 0x63, 0x63, 0x8B, 0x6B, 0x6B, 0x97, 0x73, 0x73, 0xA3, 0x7B, 0x7B, 0xAF, 0x83, 0x83, 0xBB, 0x8B, 0x8B, 0xCB,
      0x00, 0x00, 0x00, 0x07, 0x07, 0x00, 0x0B, 0x0B, 0x00, 0x13, 0x13, 0x00, 0x1B, 0x1B, 0x00, 0x23, 0x23, 0x00, 0x2B, 0x2B, 0x07, 0x2F, 0x2F, 0x07,
      0x37, 0x37, 0x07, 0x3F, 0x3F, 0x07, 0x47, 0x47, 0x07, 0x4B, 0x4B, 0x0B, 0x53, 0x53, 0x0B, 0x5B, 0x5B, 0x0B, 0x63, 0x63, 0x0B, 0x6B, 0x6B, 0x0F,
      0x07, 0x00, 0x00, 0x0F, 0x00, 0x00, 0x17, 0x00, 0x00, 0x1F, 0x00, 0x00, 0x27, 0x00, 0x00, 0x2F, 0x00, 0x00, 0x37, 0x00, 0x00, 0x3F, 0x00, 0x00,
      0x47, 0x00, 0x00, 0x4F, 0x00, 0x00, 0x57, 0x00, 0x00, 0x5F, 0x00, 0x00, 0x67, 0x00, 0x00, 0x6F, 0x00, 0x00, 0x77, 0x00, 0x00, 0x7F, 0x00, 0x00,
      0x13, 0x13, 0x00, 0x1B, 0x1B, 0x00, 0x23, 0x23, 0x00, 0x2F, 0x2B, 0x00, 0x37, 0x2F, 0x00, 0x43, 0x37, 0x00, 0x4B, 0x3B, 0x07, 0x57, 0x43, 0x07,
      0x5F, 0x47, 0x07, 0x6B, 0x4B, 0x0B, 0x77, 0x53, 0x0F, 0x83, 0x57, 0x13, 0x8B, 0x5B, 0x13, 0x97, 0x5F, 0x1B, 0xA3, 0x63, 0x1F, 0xAF, 0x67, 0x23,
      0x23, 0x13, 0x07, 0x2F, 0x17, 0x0B, 0x3B, 0x1F, 0x0F, 0x4B, 0x23, 0x13, 0x57, 0x2B, 0x17, 0x63, 0x2F, 0x1F, 0x73, 0x37, 0x23, 0x7F, 0x3B, 0x2B,
      0x8F, 0x43, 0x33, 0x9F, 0x4F, 0x33, 0xAF, 0x63, 0x2F, 0xBF, 0x77, 0x2F, 0xCF, 0x8F, 0x2B, 0xDF, 0xAB, 0x27, 0xEF, 0xCB, 0x1F, 0xFF, 0xF3, 0x1B,
      0x0B, 0x07, 0x00, 0x1B, 0x13, 0x00, 0x2B, 0x23, 0x0F, 0x37, 0x2B, 0x13, 0x47, 0x33, 0x1B, 0x53, 0x37, 0x23, 0x63, 0x3F, 0x2B, 0x6F, 0x47, 0x33,
      0x7F, 0x53, 0x3F, 0x8B, 0x5F, 0x47, 0x9B, 0x6B, 0x53, 0xA7, 0x7B, 0x5F, 0xB7, 0x87, 0x6B, 0xC3, 0x93, 0x7B, 0xD3, 0xA3, 0x8B, 0xE3, 0xB3, 0x97,
      0xAB, 0x8B, 0xA3, 0x9F, 0x7F, 0x97, 0x93, 0x73, 0x87, 0x8B, 0x67, 0x7B, 0x7F, 0x5B, 0x6F, 0x77, 0x53, 0x63, 0x6B, 0x4B, 0x57, 0x5F, 0x3F, 0x4B,
      0x57, 0x37, 0x43, 0x4B, 0x2F, 0x37, 0x43, 0x27, 0x2F, 0x37, 0x1F, 0x23, 0x2B, 0x17, 0x1B, 0x23, 0x13, 0x13, 0x17, 0x0B, 0x0B, 0x0F, 0x07, 0x07,
      0xBB, 0x73, 0x9F, 0xAF, 0x6B, 0x8F, 0xA3, 0x5F, 0x83, 0x97, 0x57, 0x77, 0x8B, 0x4F, 0x6B, 0x7F, 0x4B, 0x5F, 0x73, 0x43, 0x53, 0x6B, 0x3B, 0x4B,
      0x5F, 0x33, 0x3F, 0x53, 0x2B, 0x37, 0x47, 0x23, 0x2B, 0x3B, 0x1F, 0x23, 0x2F, 0x17, 0x1B, 0x23, 0x13, 0x13, 0x17, 0x0B, 0x0B, 0x0F, 0x07, 0x07,
      0xDB, 0xC3, 0xBB, 0xCB, 0xB3, 0xA7, 0xBF, 0xA3, 0x9B, 0xAF, 0x97, 0x8B, 0xA3, 0x87, 0x7B, 0x97, 0x7B, 0x6F, 0x87, 0x6F, 0x5F, 0x7B, 0x63, 0x53,
      0x6B, 0x57, 0x47, 0x5F, 0x4B, 0x3B, 0x53, 0x3F, 0x33, 0x43, 0x33, 0x27, 0x37, 0x2B, 0x1F, 0x27, 0x1F, 0x17, 0x1B, 0x13, 0x0F, 0x0F, 0x0B, 0x07,
      0x6F, 0x83, 0x7B, 0x67, 0x7B, 0x6F, 0x5F, 0x73, 0x67, 0x57, 0x6B, 0x5F, 0x4F, 0x63, 0x57, 0x47, 0x5B, 0x4F, 0x3F, 0x53, 0x47, 0x37, 0x4B, 0x3F,
      0x2F, 0x43, 0x37, 0x2B, 0x3B, 0x2F, 0x23, 0x33, 0x27, 0x1F, 0x2B, 0x1F, 0x17, 0x23, 0x17, 0x0F, 0x1B, 0x13, 0x0B, 0x13, 0x0B, 0x07, 0x0B, 0x07,
      0xFF, 0xF3, 0x1B, 0xEF, 0xDF, 0x17, 0xDB, 0xCB, 0x13, 0xCB, 0xB7, 0x0F, 0xBB, 0xA7, 0x0F, 0xAB, 0x97, 0x0B, 0x9B, 0x83, 0x07, 0x8B, 0x73, 0x07,
      0x7B, 0x63, 0x07, 0x6B, 0x53, 0x00, 0x5B, 0x47, 0x00, 0x4B, 0x37, 0x00, 0x3B, 0x2B, 0x00, 0x2B, 0x1F, 0x00, 0x1B, 0x0F, 0x00, 0x0B, 0x07, 0x00,
      0x00, 0x00, 0xFF, 0x0B, 0x0B, 0xEF, 0x13, 0x13, 0xDF, 0x1B, 0x1B, 0xCF, 0x23, 0x23, 0xBF, 0x2B, 0x2B, 0xAF, 0x2F, 0x2F, 0x9F, 0x2F, 0x2F, 0x8F,
      0x2F, 0x2F, 0x7F, 0x2F, 0x2F, 0x6F, 0x2F, 0x2F, 0x5F, 0x2B, 0x2B, 0x4F, 0x23, 0x23, 0x3F, 0x1B, 0x1B, 0x2F, 0x13, 0x13, 0x1F, 0x0B, 0x0B, 0x0F,
      0x2B, 0x00, 0x00, 0x3B, 0x00, 0x00, 0x4B, 0x07, 0x00, 0x5F, 0x07, 0x00, 0x6F, 0x0F, 0x00, 0x7F, 0x17, 0x07, 0x93, 0x1F, 0x07, 0xA3, 0x27, 0x0B,
      0xB7, 0x33, 0x0F, 0xC3, 0x4B, 0x1B, 0xCF, 0x63, 0x2B, 0xDB, 0x7F, 0x3B, 0xE3, 0x97, 0x4F, 0xE7, 0xAB, 0x5F, 0xEF, 0xBF, 0x77, 0xF7, 0xD3, 0x8B,
      0xA7, 0x7B, 0x3B, 0xB7, 0x9B, 0x37, 0xC7, 0xC3, 0x37, 0xE7, 0xE3, 0x57, 0x7F, 0xBF, 0xFF, 0xAB, 0xE7, 0xFF, 0xD7, 0xFF, 0xFF, 0x67, 0x00, 0x00,
      0x8B, 0x00, 0x00, 0xB3, 0x00, 0x00, 0xD7, 0x00, 0x00, 0xFF, 0x00, 0x00, 0xFF, 0xF3, 0x93, 0xFF, 0xF7, 0xC7, 0xFF, 0xFF, 0xFF, 0x9F, 0x5B, 0x53]"

definition read_vec3 :: "vec3_t io" where
  "read_vec3 =
     bind ReadLittleFloat (\<lambda>a. bind ReadLittleFloat (\<lambda>b. bind ReadLittleFloat (\<lambda>c.
     ret (a, b, c))))"

text \<open>Lines 513 to 535: the header, validated after its first two fields.\<close>

definition read_header :: "mdl_header_t io" where
  "read_header =
     bind ReadLittleLong (\<lambda>ident'.
     bind ReadLittleLong (\<lambda>version'.
     if ident' \<noteq> IDPOLYHEADER \<or> version' \<noteq> ALIAS_VERSION
     then Error (InvalidMDL ident' version')
     else
     bind read_vec3 (\<lambda>scale'.
     bind read_vec3 (\<lambda>scale_origin'.
     bind ReadLittleFloat (\<lambda>boundingradius'.
     bind read_vec3 (\<lambda>eyeposition'.
     bind ReadLittleLong (\<lambda>numskins'.
     bind ReadLittleLong (\<lambda>skinwidth'.
     bind ReadLittleLong (\<lambda>skinheight'.
     bind ReadLittleLong (\<lambda>numverts'.
     bind ReadLittleLong (\<lambda>numtris'.
     bind ReadLittleLong (\<lambda>numframes'.
     bind ReadLittleLong (\<lambda>synctype'.
     bind ReadLittleLong (\<lambda>flags'.
     bind ReadLittleFloat (\<lambda>size'.
     ret \<lparr>ident = ident', version = version', scale = scale',
          scale_origin = scale_origin', boundingradius = boundingradius',
          eyeposition = eyeposition', numskins = numskins', skinwidth = skinwidth',
          skinheight = skinheight', numverts = numverts', numtris = numtris',
          numframes = numframes', synctype = synctype', flags = flags',
          size_m = size'\<rparr>)))))))))))))))"

text \<open>Lines 549 to 567: the body of the skin loop, for skin \<open>i\<close>.\<close>

definition extract_skin :: "mdl_header_t \<Rightarrow> byte list \<Rightarrow> int \<Rightarrow> unit io" where
  "extract_skin header palette i =
     bind ReadLittleLong (\<lambda>_.
     if skinwidth header * skinheight header < INT_MIN
        \<or> INT_MAX < skinwidth header * skinheight header
     then Error UndefinedBehaviour
     else
     bind (malloc (to_size_t (skinwidth header * skinheight header))) (\<lambda>_.
     bind (SafeRead (to_size_t (skinwidth header * skinheight header))
             (skinwidth header * skinheight header)) (\<lambda>skin_data.
     WriteLBMfile (SkinLbm i) skin_data (skinwidth header) (skinheight header) palette)))"

definition extract_skins :: "mdl_header_t \<Rightarrow> byte list \<Rightarrow> unit io" where
  "extract_skins header palette =
     for_loop (numskins header) (\<lambda>i _. extract_skin header palette i) ()"

text \<open>Lines 574 to 582.\<close>

definition read_st_verts :: "mdl_header_t \<Rightarrow> stvert_t list io" where
  "read_st_verts header =
     bind (malloc (to_size_t (numverts header * sizeof_stvert_t))) (\<lambda>_.
     for_loop (numverts header) (\<lambda>i st_verts.
        bind ReadLittleLong (\<lambda>onseam'.
        bind ReadLittleLong (\<lambda>s'.
        bind ReadLittleLong (\<lambda>t'.
        ret (st_verts @ [\<lparr>onseam = onseam', s_coord = s', t_coord = t'\<rparr>]))))) [])"

text \<open>Lines 588 to 597.\<close>

definition read_triangles :: "mdl_header_t \<Rightarrow> dtriangle_t list io" where
  "read_triangles header =
     bind (malloc (to_size_t (numtris header * sizeof_dtriangle_t))) (\<lambda>_.
     for_loop (numtris header) (\<lambda>i triangles_indices.
        bind ReadLittleLong (\<lambda>facesfront'.
        bind ReadLittleLong (\<lambda>v0.
        bind ReadLittleLong (\<lambda>v1.
        bind ReadLittleLong (\<lambda>v2.
        ret (triangles_indices @ [\<lparr>facesfront = facesfront', vertindex = (v0, v1, v2)\<rparr>])))))) [])"

text \<open>
  \<open>frame_verts_raw[k]\<close>: the block read from the file, viewed as an array of
  \<open>trivertx_t\<close> (four bytes each, no padding).
\<close>

definition trivertx_at :: "byte list \<Rightarrow> nat \<Rightarrow> trivertx_t" where
  "trivertx_at frame_verts_raw k =
     \<lparr>v = (frame_verts_raw ! (4 * k), frame_verts_raw ! (4 * k + 1), frame_verts_raw ! (4 * k + 2)),
      lightnormalindex = frame_verts_raw ! (4 * k + 3)\<rparr>"

text \<open>Lines 636 to 638 (and 699 to 701): one corner, from its packed vertex.\<close>

definition unpack_vertex :: "float_arith \<Rightarrow> mdl_header_t \<Rightarrow> trivertx_t \<Rightarrow> vec3_t" where
  "unpack_vertex fa header raw_vert =
     (fadd fa (fmul fa (of_byte fa (elem3 (v raw_vert) 0)) (elem3 (scale header) 0))
        (elem3 (scale_origin header) 0),
      fadd fa (fmul fa (of_byte fa (elem3 (v raw_vert) 1)) (elem3 (scale header) 1))
        (elem3 (scale_origin header) 1),
      fadd fa (fmul fa (of_byte fa (elem3 (v raw_vert) 2)) (elem3 (scale header) 2))
        (elem3 (scale_origin header) 2))"

text \<open>
  Lines 631 to 638: corner \<open>v_idx\<close> of triangle \<open>t\<close>.  The index is not checked by
  the program; outside the block that was read, the access is undefined.
\<close>

definition reconstruct_corner ::
  "float_arith \<Rightarrow> mdl_header_t \<Rightarrow> byte list \<Rightarrow> dtriangle_t \<Rightarrow> nat \<Rightarrow> vec3_t io" where
  "reconstruct_corner fa header frame_verts_raw tri v_idx =
     (let vert_index = elem3 (vertindex tri) v_idx in
      if vert_index < 0 \<or> length frame_verts_raw < 4 * nat vert_index + 4
      then Error UndefinedBehaviour
      else ret (unpack_vertex fa header (trivertx_at frame_verts_raw (nat vert_index))))"

text \<open>Lines 629 to 640 (and 694 to 703), the inner loop over the three corners unrolled.\<close>

definition reconstruct ::
  "float_arith \<Rightarrow> mdl_header_t \<Rightarrow> byte list \<Rightarrow> dtriangle_t list \<Rightarrow> triangle_t list io" where
  "reconstruct fa header frame_verts_raw triangles_indices =
     for_loop (numtris header) (\<lambda>t current_frame_triangles.
        if length triangles_indices \<le> nat t then Error UndefinedBehaviour
        else
        bind (reconstruct_corner fa header frame_verts_raw (triangles_indices ! nat t) 0) (\<lambda>c0.
        bind (reconstruct_corner fa header frame_verts_raw (triangles_indices ! nat t) 1) (\<lambda>c1.
        bind (reconstruct_corner fa header frame_verts_raw (triangles_indices ! nat t) 2) (\<lambda>c2.
        ret (current_frame_triangles @ [(c0, c1, c2)]))))) []"

text \<open>
  Lines 610 to 648 and, word for word but for the file name, lines 677 to 712: one frame
  is read, reconstructed and written to \<open>frame_filename\<close>.
\<close>

definition extract_frame ::
  "float_arith \<Rightarrow> mdl_header_t \<Rightarrow> dtriangle_t list \<Rightarrow> out_name \<Rightarrow> unit io" where
  "extract_frame fa header triangles_indices frame_filename =
     bind (SafeRead sizeof_daliasframe_t sizeof_daliasframe_t) (\<lambda>frame_info.
     bind (malloc (to_size_t (numverts header * sizeof_trivertx_t))) (\<lambda>_.
     bind (SafeRead (to_size_t (numverts header * sizeof_trivertx_t))
             (to_int (to_size_t (numverts header * sizeof_trivertx_t)))) (\<lambda>frame_verts_raw.
     bind (malloc (to_size_t (numtris header * sizeof_triangle_t))) (\<lambda>_.
     bind (reconstruct fa header frame_verts_raw triangles_indices) (\<lambda>current_frame_triangles.
     WriteTriFile frame_filename current_frame_triangles (numtris header))))))"

text \<open>
  Lines 606 to 717: one pass of the frame loop at counter \<open>i\<close>; the result is the
  counter after the pass.
\<close>

definition frame_entry ::
  "float_arith \<Rightarrow> mdl_header_t \<Rightarrow> dtriangle_t list \<Rightarrow> int \<Rightarrow> int io" where
  "frame_entry fa header triangles_indices i =
     bind ReadLittleLong (\<lambda>frame_type_int.
     if frame_type_int = ALIAS_SINGLE then
       bind (extract_frame fa header triangles_indices (FrameTri i)) (\<lambda>_.
       if INT_MAX < i + 1 then Error UndefinedBehaviour else ret (i + 1))
     else if frame_type_int = ALIAS_GROUP then
       bind (SafeRead sizeof_daliasgroup_t sizeof_daliasgroup_t) (\<lambda>group_info_raw.
       let actual_group_numframes = sint (little_bits (take 4 group_info_raw)) in
       if actual_group_numframes \<le> 0 \<or> 10000 < actual_group_numframes
       then Error (SuspiciousSubframes actual_group_numframes)
       else
       bind (for_loop actual_group_numframes (\<lambda>j _. bind ReadLittleFloat (\<lambda>_. ret ())) ()) (\<lambda>_.
       bind (for_loop actual_group_numframes
               (\<lambda>j _. extract_frame fa header triangles_indices (SubFrameTri i j)) ()) (\<lambda>_.
       if INT_MAX < i + (1 + actual_group_numframes) then Error UndefinedBehaviour
       else ret (i + (1 + actual_group_numframes)))))
     else Error (UnknownFrameType frame_type_int))"

text \<open>Every pass that returns has moved the counter forwards, so the loop ends.\<close>

lemma bind_Inr:
  "bind m f s = (Inr b, s') \<longleftrightarrow> (\<exists>a s1. m s = (Inr a, s1) \<and> f a s1 = (Inr b, s'))"
  by (auto simp: bind_def split: prod.splits sum.splits)

lemma frame_entry_advances:
  "frame_entry fa header triangles_indices i s = (Inr i', s') \<Longrightarrow> i < i'"
  by (auto simp: frame_entry_def bind_Inr Let_def ret_def Error_def split: if_splits)

text \<open>Lines 605 to 718: \<open>for (int i = 0; i < header.numframes; )\<close>; the result is the
  value of \<open>i\<close> when the loop is left.\<close>

function frames_loop ::
  "float_arith \<Rightarrow> mdl_header_t \<Rightarrow> dtriangle_t list \<Rightarrow> int \<Rightarrow> int io" where
  "frames_loop fa header triangles_indices i s =
     (if i < numframes header
      then (case frame_entry fa header triangles_indices i s of
              (Inl e, s') \<Rightarrow> (Inl e, s')
            | (Inr i', s') \<Rightarrow> frames_loop fa header triangles_indices i' s')
      else (Inr i, s))"
  by pat_completeness auto
termination
  by (relation "measure (\<lambda>(fa, header, triangles_indices, i, s). nat (numframes header - i))")
     (auto dest: frame_entry_advances [OF sym])

declare frames_loop.simps [simp del]

text \<open>
  Lines 510 to 718 of \<open>main\<close>, from the opened input file to the end of the frame loop
  (which starts at \<open>i = 0\<close>).  The result is the header together with the value of \<open>i\<close>
  when the loop is left.
\<close>

definition main_body :: "float_arith \<Rightarrow> (mdl_header_t \<times> int) io" where
  "main_body fa =
     bind read_header (\<lambda>header.
     bind (extract_skins header loaded_palette) (\<lambda>_.
     bind (read_st_verts header) (\<lambda>st_verts.
     bind (read_triangles header) (\<lambda>triangles_indices.
     bind (frames_loop fa header triangles_indices 0) (\<lambda>i.
     ret (header, i))))))"

text \<open>\<open>main\<close>: after the loop nothing can fail, and the exit status is 0.\<close>

definition main :: "float_arith \<Rightarrow> int io" where
  "main fa = bind (main_body fa) (\<lambda>_. ret 0)"

text \<open>The world when \<open>main\<close> has opened the input file: nothing read, nothing written.\<close>

definition start :: "byte list \<Rightarrow> world" where
  "start contents = \<lparr>unread = contents, fpos = 0, files = Map.empty\<rparr>"

subsection \<open>IEEE 754 single precision on memory images\<close>

text \<open>
  The theorems below hold for every \<open>float_arith\<close>.  To run the model on a concrete file
  one is needed; \<open>ieee_single\<close> is binary32 arithmetic with rounding to nearest, ties to
  even, as an x86-64 or AArch64 host performs it.  The result of an invalid operation is
  the quiet NaN \<open>0x7FC00000\<close> (the standard leaves the payload open).
\<close>

definition f32_sign :: "float32 \<Rightarrow> bool" where
  "f32_sign w = bit w 31"

definition f32_exp :: "float32 \<Rightarrow> nat" where
  "f32_exp w = unat (drop_bit 23 w AND 0xFF)"

definition f32_man :: "float32 \<Rightarrow> nat" where
  "f32_man w = unat (w AND 0x7FFFFF)"

definition f32_is_nan :: "float32 \<Rightarrow> bool" where
  "f32_is_nan w = (f32_exp w = 255 \<and> f32_man w \<noteq> 0)"

definition f32_is_inf :: "float32 \<Rightarrow> bool" where
  "f32_is_inf w = (f32_exp w = 255 \<and> f32_man w = 0)"

definition f32_is_zero :: "float32 \<Rightarrow> bool" where
  "f32_is_zero w = (f32_exp w = 0 \<and> f32_man w = 0)"

definition f32_nan :: float32 where
  "f32_nan = 0x7FC00000"

definition f32_inf :: "bool \<Rightarrow> float32" where
  "f32_inf sg = (if sg then 0xFF800000 else 0x7F800000)"

text \<open>A finite image \<open>w\<close> stands for \<open>\<plusminus> f32_sig w * 2 ^ (f32_e w - 150)\<close>.\<close>

definition f32_sig :: "float32 \<Rightarrow> nat" where
  "f32_sig w = (if f32_exp w = 0 then f32_man w else f32_man w + 2 ^ 23)"

definition f32_e :: "float32 \<Rightarrow> nat" where
  "f32_e w = (if f32_exp w = 0 then 1 else f32_exp w)"

fun bitlen :: "nat \<Rightarrow> nat" where
  "bitlen n = (if n = 0 then 0 else Suc (bitlen (n div 2)))"

declare bitlen.simps [simp del]

text \<open>The image nearest to \<open>\<plusminus> m * 2 ^ (e - 150)\<close>, ties to even.\<close>

definition f32_round :: "bool \<Rightarrow> nat \<Rightarrow> int \<Rightarrow> float32" where
  "f32_round sg m e =
    (let sh = max (int (bitlen m) - 24) (1 - e);
         q = (if sh \<le> 0 then m * 2 ^ nat (- sh)
              else let q0 = m div 2 ^ nat sh; r = m mod 2 ^ nat sh; half = 2 ^ (nat sh - 1)
                   in if half < r \<or> (r = half \<and> odd q0) then q0 + 1 else q0);
         E = (if q = 2 ^ 24 then e + sh + 1 else e + sh);
         q = (if q = 2 ^ 24 then 2 ^ 23 else q);
         magnitude = (if q < 2 ^ 23 then word_of_nat q
                      else if 255 \<le> E then 0x7F800000
                      else push_bit 23 (word_of_int E) OR word_of_nat (q - 2 ^ 23))
     in if sg then magnitude OR 0x80000000 else magnitude)"

definition f32_of_byte :: "byte \<Rightarrow> float32" where
  "f32_of_byte b = f32_round False (unat b) 150"

definition f32_mul :: "float32 \<Rightarrow> float32 \<Rightarrow> float32" where
  "f32_mul a b =
    (if f32_is_nan a \<or> f32_is_nan b then f32_nan
     else if f32_is_inf a \<or> f32_is_inf b
       then (if f32_is_zero a \<or> f32_is_zero b then f32_nan
             else f32_inf (f32_sign a \<noteq> f32_sign b))
     else f32_round (f32_sign a \<noteq> f32_sign b) (f32_sig a * f32_sig b)
            (int (f32_e a) + int (f32_e b) - 150))"

definition f32_add :: "float32 \<Rightarrow> float32 \<Rightarrow> float32" where
  "f32_add a b =
    (if f32_is_nan a \<or> f32_is_nan b then f32_nan
     else if f32_is_inf a then (if f32_is_inf b \<and> f32_sign a \<noteq> f32_sign b then f32_nan else a)
     else if f32_is_inf b then b
     else
       let e0 = min (f32_e a) (f32_e b);
           x = (if f32_sign a then - 1 else 1) * int (f32_sig a * 2 ^ (f32_e a - e0));
           y = (if f32_sign b then - 1 else 1) * int (f32_sig b * 2 ^ (f32_e b - e0));
           t = x + y
       in if t = 0 then (if f32_sign a \<and> f32_sign b then 0x80000000 else 0)
          else f32_round (t < 0) (nat \<bar>t\<bar>) (int e0))"

definition ieee_single :: float_arith where
  "ieee_single = \<lparr>of_byte = f32_of_byte, fmul = f32_mul, fadd = f32_add\<rparr>"

subsection \<open>Classes of errors\<close>

text \<open>\<open>fails_with P c\<close>: whenever \<open>c\<close> ends in an error, the error satisfies \<open>P\<close>.\<close>

definition fails_with :: "(error \<Rightarrow> bool) \<Rightarrow> 'a io \<Rightarrow> bool" where
  "fails_with P c = (\<forall>s e s'. c s = (Inl e, s') \<longrightarrow> P e)"

definition low_level :: "error \<Rightarrow> bool" where
  "low_level e =
     (case e of FileReadFailure c g p \<Rightarrow> True | AllocFailure \<Rightarrow> True
      | UndefinedBehaviour \<Rightarrow> True | _ \<Rightarrow> False)"

definition frame_error :: "error \<Rightarrow> bool" where
  "frame_error e =
     (case e of SuspiciousSubframes n \<Rightarrow> True | UnknownFrameType t \<Rightarrow> True | _ \<Rightarrow> low_level e)"

subsection \<open>Example data\<close>

text \<open>A header that declares one frame and no skin, vertex or triangle.\<close>

definition one_frame_header :: mdl_header_t where
  "one_frame_header =
     \<lparr>ident = IDPOLYHEADER, version = ALIAS_VERSION, scale = (0x3F800000, 0x3F800000, 0x3F800000),
      scale_origin = (0, 0, 0), boundingradius = 0, eyeposition = (0, 0, 0), numskins = 0,
      skinwidth = 0, skinheight = 0, numverts = 0, numtris = 0, numframes = 1, synctype = 0,
      flags = 0, size_m = 0\<rparr>"

subsection \<open>Truncated input\<close>

text \<open>
  \<open>truncates_at c s\<close>: let the input from the cursor on be \<open>xs @ ys\<close> and let \<open>c\<close> return
  from \<open>s\<close>.  On the input cut after \<open>xs\<close>, \<open>c\<close> either returns the same result, having
  stayed inside \<open>xs\<close>, or ends in \<open>FileReadFailure\<close> at the end of the file.
\<close>

definition truncates_at :: "'a io \<Rightarrow> world \<Rightarrow> bool" where
  "truncates_at c s =
     (\<forall>xs ys r s'. unread s = xs @ ys \<longrightarrow> c s = (Inr r, s') \<longrightarrow>
        (\<exists>xs'. unread s' = xs' @ ys \<and> fpos s' + length xs' = fpos s + length xs
            \<and> c (s\<lparr>unread := xs\<rparr>) = (Inr r, s'\<lparr>unread := xs'\<rparr>))
      \<or> (\<exists>cnt got s''. c (s\<lparr>unread := xs\<rparr>) =
            (Inl (FileReadFailure cnt got (fpos s + length xs)), s'')))"

definition truncates :: "'a io \<Rightarrow> bool" where
  "truncates c = (\<forall>s. truncates_at c s)"

text \<open>An input file that is just a header, with every count 0.\<close>

definition empty_model :: "byte list" where
  "empty_model = [73, 68, 80, 79, 6, 0, 0, 0, 0, 0, 128, 63, 0, 0, 128, 63, 0, 0, 128, 63, 0, 0, 0, 0, 0, 0, 0, 0, 0, 0, 0, 0, 0, 0, 0, 0, 0, 0, 0, 0, 0, 0, 0, 0, 0, 0, 0, 0, 0, 0, 0, 0, 0, 0, 0, 0, 0, 0, 0, 0, 0, 0, 0, 0, 0, 0, 0, 0, 0, 0, 0, 0, 0, 0, 0, 0, 0, 0, 0, 0, 0, 0, 0, 0]"


subsection \<open>Fields of a file by offset\<close>

text \<open>What \<open>ReadLittleFloat\<close> and \<open>ReadLittleLong\<close> return with the cursor at offset \<open>k\<close>
  of the file \<open>bs\<close>.\<close>

definition float_at :: "byte list \<Rightarrow> nat \<Rightarrow> float32" where
  "float_at bs k = little_bits (take 4 (drop k bs))"

definition long_at :: "byte list \<Rightarrow> nat \<Rightarrow> int" where
  "long_at bs k = sint (little_bits (take 4 (drop k bs)))"


subsection \<open>Files a computation may write\<close>

text \<open>\<open>writes_only N c\<close>: \<open>c\<close> leaves every output file outside \<open>N\<close> as it was.\<close>

definition writes_only :: "out_name set \<Rightarrow> 'a io \<Rightarrow> bool" where
  "writes_only N c = (\<forall>s r s' f. c s = (r, s') \<longrightarrow> f \<notin> N \<longrightarrow> files s' f = files s f)"



text \<open>The header of that file.\<close>

definition overshoot_header :: mdl_header_t where
  "overshoot_header =
     \<lparr>ident = IDPOLYHEADER, version = ALIAS_VERSION, scale = (0x40000000, 0x40000000, 0x40000000),
      scale_origin = (0x3F800000, 0x3F800000, 0x3F800000), boundingradius = 0,
      eyeposition = (0, 0, 0), numskins = 0,
      skinwidth = 0, skinheight = 0, numverts = 1, numtris = 1, numframes = 1, synctype = 0,
      flags = 0, size_m = 0\<rparr>"


subsection \<open>The mesh container as the specification lays it out\<close>

text \<open>
  Section 4.5 of the specification, written down as a layout to compare \<open>WriteTriFile\<close>
  with.  \<open>big_endian w\<close> is the four bytes of a 32-bit value, most significant first.
\<close>

definition big_endian :: "32 word \<Rightarrow> byte list" where
  "big_endian w = [ucast (drop_bit 24 w), ucast (drop_bit 16 w), ucast (drop_bit 8 w), ucast w]"

text \<open>One vertex: a zero normal, the position, a zero colour, zero texture coordinates.\<close>

definition mesh_vertex :: "vec3_t \<Rightarrow> byte list" where
  "mesh_vertex p =
     big_endian float_zero @ big_endian float_zero @ big_endian float_zero
     @ big_endian (elem3 p 0) @ big_endian (elem3 p 1) @ big_endian (elem3 p 2)
     @ big_endian float_zero @ big_endian float_zero @ big_endian float_zero
     @ big_endian float_zero @ big_endian float_zero"

definition mesh_triangle :: "triangle_t \<Rightarrow> byte list" where
  "mesh_triangle tri = mesh_vertex (elem3 tri 0) @ mesh_vertex (elem3 tri 1) @ mesh_vertex (elem3 tri 2)"

text \<open>The whole file: magic, start sentinel, object name, count, texture name, the
  triangles, end sentinel, object name.\<close>

definition mesh_layout :: "triangle_t list \<Rightarrow> int \<Rightarrow> byte list" where
  "mesh_layout triangles count =
     big_endian (word_of_int IDTRIHEADER) @ big_endian FLOAT_START @ obj_name
     @ big_endian (word_of_int count) @ tex_name
     @ concat (map mesh_triangle triangles)
     @ big_endian FLOAT_END @ obj_name"


subsection \<open>The raster container as the specification lays it out\<close>

text \<open>
  Section 4.4 of the specification.  A chunk is a four-byte tag, the four-byte big-endian
  length of its payload, the payload, and one zero byte when that length is odd.  The
  form chunk holds the sub-tag \<open>PBM\<close> and the three chunks \<open>BMHD\<close>, \<open>CMAP\<close> and \<open>BODY\<close>.
\<close>

definition big_endian16 :: "16 word \<Rightarrow> byte list" where
  "big_endian16 w = [ucast (drop_bit 8 w), ucast w]"

definition bitmap_header :: "int \<Rightarrow> int \<Rightarrow> byte list" where
  "bitmap_header width height =
     big_endian16 (word_of_int width) @ big_endian16 (word_of_int height)
     @ big_endian16 0 @ big_endian16 0 @ [8, 0, 0, 0] @ big_endian16 0 @ [5, 6]
     @ big_endian16 (word_of_int width) @ big_endian16 (word_of_int height)"

definition raster_layout :: "byte list \<Rightarrow> int \<Rightarrow> int \<Rightarrow> byte list \<Rightarrow> byte list" where
  "raster_layout pixels width height palette =
     ascii ''FORM''
     @ big_endian (word_of_nat (4 + (8 + 20) + (8 + 768) + (8 + length pixels + length pixels mod 2)))
     @ ascii ''PBM ''
     @ ascii ''BMHD'' @ big_endian 20 @ bitmap_header width height
     @ ascii ''CMAP'' @ big_endian 768 @ palette
     @ ascii ''BODY'' @ big_endian (word_of_nat (length pixels)) @ pixels
     @ replicate (length pixels mod 2) 0"

text \<open>
  Reading a chunked file back: the tag, the payload length, the payload and the size on
  disk (tag, length field and padded payload) of the chunk that starts at offset \<open>at\<close>.
  The length field is decoded as \<open>ReadBigLong\<close> decodes.
\<close>

definition chunk_tag :: "byte list \<Rightarrow> nat \<Rightarrow> byte list" where
  "chunk_tag file at = take 4 (drop at file)"

definition chunk_length :: "byte list \<Rightarrow> nat \<Rightarrow> nat" where
  "chunk_length file at = unat (big_bits (take 4 (drop (at + 4) file)))"

definition chunk_payload :: "byte list \<Rightarrow> nat \<Rightarrow> byte list" where
  "chunk_payload file at = take (chunk_length file at) (drop (at + 8) file)"

definition chunk_size :: "byte list \<Rightarrow> nat \<Rightarrow> nat" where
  "chunk_size file at = 4 + 4 + (chunk_length file at + chunk_length file at mod 2)"

subsection \<open>A small skin\<close>

text \<open>
  The scenario of section 8 of the specification: one skin of 4 by 4 pixels, every pixel
  the palette index 7.  \<open>skin_entry\<close> is the skin as it lies in the input (the
  discriminator, then the pixels), \<open>skin_header\<close> a header that declares it.
\<close>

definition skin_pixels :: "byte list" where
  "skin_pixels = replicate 16 7"

definition skin_entry :: "byte list" where
  "skin_entry = [0, 0, 0, 0] @ skin_pixels"

definition skin_header :: mdl_header_t where
  "skin_header = one_frame_header\<lparr>numskins := 1, skinwidth := 4, skinheight := 4, numframes := 0\<rparr>"

subsection \<open>A model with a skin, a texture vertex and a frame\<close>

text \<open>
  The parts of a file with one skin of 2 by 2 pixels, one vertex, one triangle on vertex 0
  and one single frame with the packed vertex (1, 2, 3): the 84 header bytes (scale 2.0,
  origin 1.0), the header they decode to, and what follows the texture vertices (the
  triangle, the entry type 0, the frame header, the vertex).  The skin entries and the
  texture vertices go in between.
\<close>

definition painted_header_bytes :: "byte list" where
  "painted_header_bytes = [73, 68, 80, 79, 6, 0, 0, 0, 0, 0, 0, 64, 0, 0, 0, 64, 0, 0, 0, 64, 0, 0, 128, 63, 0, 0, 128, 63, 0, 0, 128, 63, 0, 0, 0, 0, 0, 0, 0, 0, 0, 0, 0, 0, 0, 0, 0, 0, 1, 0, 0, 0, 2, 0, 0, 0, 2, 0, 0, 0, 1, 0, 0, 0, 1, 0, 0, 0, 1, 0, 0, 0, 0, 0, 0, 0, 0, 0, 0, 0, 0, 0, 0, 0]"

definition painted_header :: mdl_header_t where
  "painted_header = overshoot_header\<lparr>numskins := 1, skinwidth := 2, skinheight := 2\<rparr>"

definition painted_rest :: "byte list" where
  "painted_rest = [1, 0, 0, 0, 0, 0, 0, 0, 0, 0, 0, 0, 0, 0, 0, 0, 0, 0, 0, 0, 0, 0, 0, 0, 0, 0, 0, 0, 0, 0, 0, 0, 0, 0, 0, 0, 0, 0, 0, 0, 0, 0, 0, 0, 1, 2, 3, 0]"

text \<open>
  The skin section of a file, from its entries: for each skin the bytes of the
  discriminator and the bytes of the pixels.
\<close>

definition skins_section :: "(byte list \<times> byte list) list \<Rightarrow> byte list" where
  "skins_section sk = concat (map (\<lambda>(d, p). d @ p) sk)"

subsection \<open>Inputs without frames\<close>

text \<open>
  \<open>skin_header_bytes\<close> are the 84 bytes of a header that is accepted and declares one
  skin of 4 by 4 pixels and no vertex, triangle or frame; it decodes to \<open>skin_header\<close>.
  \<open>skin_model\<close> is the whole file with its skin.  \<open>truncated_skin_model\<close> ends five
  bytes into the pixels.  \<open>negative_verts_model\<close> is just a header, which declares
  \<open>-1\<close> vertices and no skin, triangle or frame.
\<close>

definition skin_header_bytes :: "byte list" where
  "skin_header_bytes = [73, 68, 80, 79, 6, 0, 0, 0, 0, 0, 128, 63, 0, 0, 128, 63, 0, 0, 128, 63, 0, 0, 0, 0, 0, 0, 0, 0, 0, 0, 0, 0, 0, 0, 0, 0, 0, 0, 0, 0, 0, 0, 0, 0, 0, 0, 0, 0, 1, 0, 0, 0, 4, 0, 0, 0, 4, 0, 0, 0, 0, 0, 0, 0, 0, 0, 0, 0, 0, 0, 0, 0, 0, 0, 0, 0, 0, 0, 0, 0, 0, 0, 0, 0]"

definition skin_model :: "byte list" where
  "skin_model = skin_header_bytes @ skin_entry"

definition truncated_skin_model :: "byte list" where
  "truncated_skin_model = skin_header_bytes @ [0, 0, 0, 0] @ replicate 5 7"

definition negative_verts_model :: "byte list" where
  "negative_verts_model = [73, 68, 80, 79, 6, 0, 0, 0, 0, 0, 128, 63, 0, 0, 128, 63, 0, 0, 128, 63, 0, 0, 0, 0, 0, 0, 0, 0, 0, 0, 0, 0, 0, 0, 0, 0, 0, 0, 0, 0, 0, 0, 0, 0, 0, 0, 0, 0, 0, 0, 0, 0, 0, 0, 0, 0, 0, 0, 0, 0, 255, 255, 255, 255, 0, 0, 0, 0, 0, 0, 0, 0, 0, 0, 0, 0, 0, 0, 0, 0, 0, 0, 0, 0]"

section \<open>Properties\<close>

subsection \<open>The monad, the readers, the classes of errors\<close>

lemma bind_ret [simp]: "bind (ret a) f = f a"
  by (rule ext) (simp add: bind_def ret_def)

lemma bind_Error [simp]: "bind (Error e) f = Error e"
  by (rule ext) (simp add: bind_def Error_def)

lemma bind_Inl_iff:
  "bind m f s = (Inl e, s') \<longleftrightarrow>
     m s = (Inl e, s') \<or> (\<exists>a s1. m s = (Inr a, s1) \<and> f a s1 = (Inl e, s'))"
  by (auto simp: bind_def split: prod.splits sum.splits)

lemma fails_withD: "fails_with P c \<Longrightarrow> c s = (Inl e, s') \<Longrightarrow> P e"
  by (auto simp: fails_with_def)

lemma fails_with_ret [simp]: "fails_with P (ret a)"
  by (simp add: fails_with_def ret_def)

lemma fails_with_Error [simp]: "fails_with P (Error e) = P e"
  by (simp add: fails_with_def Error_def)

lemma fails_with_bind:
  "fails_with P m \<Longrightarrow> (\<And>a. fails_with P (f a)) \<Longrightarrow> fails_with P (bind m f)"
  unfolding fails_with_def bind_Inl_iff by blast

lemma fails_with_if:
  "(b \<Longrightarrow> fails_with P c) \<Longrightarrow> (\<not> b \<Longrightarrow> fails_with P d) \<Longrightarrow> fails_with P (if b then c else d)"
  by simp

lemma fails_with_for_each:
  "(\<And>k a. fails_with P (body k a)) \<Longrightarrow> fails_with P (for_each ks body a)"
  by (induction ks arbitrary: a) (auto intro!: fails_with_bind)

lemma fails_with_for_loop:
  "(\<And>k a. fails_with P (body k a)) \<Longrightarrow> fails_with P (for_loop n body a)"
  unfolding for_loop_def by (rule fails_with_for_each)

lemma fails_with_mono:
  "fails_with P c \<Longrightarrow> (\<And>e. P e \<Longrightarrow> Q e) \<Longrightarrow> fails_with Q c"
  unfolding fails_with_def by blast

lemma fails_with_SafeRead: "fails_with low_level (SafeRead cap count)"
  by (auto simp: fails_with_def SafeRead_def Let_def low_level_def split: if_splits)

lemma fails_with_malloc: "fails_with low_level (malloc n)"
  by (simp add: malloc_def low_level_def)

lemma fails_with_SafeWrite: "fails_with P (SafeWrite f b)"
  by (simp add: fails_with_def SafeWrite_def)

lemma fails_with_SafeOpenWrite: "fails_with P (SafeOpenWrite f)"
  by (simp add: fails_with_def SafeOpenWrite_def)

lemma fails_with_WriteBigFloat: "fails_with P (WriteBigFloat f x)"
  by (simp add: WriteBigFloat_def Let_def fails_with_SafeWrite)

lemma fails_with_ReadLittleLong: "fails_with low_level ReadLittleLong"
  unfolding ReadLittleLong_def by (intro fails_with_bind fails_with_SafeRead fails_with_ret)

lemma fails_with_ReadLittleFloat: "fails_with low_level ReadLittleFloat"
  unfolding ReadLittleFloat_def by (intro fails_with_bind fails_with_SafeRead fails_with_ret)

lemmas fails_with_intros =
  fails_with_bind fails_with_if fails_with_for_loop fails_with_SafeRead fails_with_malloc
  fails_with_SafeWrite fails_with_SafeOpenWrite fails_with_WriteBigFloat
  fails_with_ReadLittleLong fails_with_ReadLittleFloat fails_with_ret

lemma low_level_UB [simp]: "low_level UndefinedBehaviour"
  by (simp add: low_level_def)

lemma fails_with_WriteTriFile: "fails_with low_level (WriteTriFile f tris n)"
  unfolding WriteTriFile_def write_point_def
  by (intro fails_with_intros) simp_all

lemma fails_with_WriteLBMfile: "fails_with low_level (WriteLBMfile f d w h p)"
  unfolding WriteLBMfile_def SaveFile_def
  by (intro fails_with_intros) (simp_all split: prod.splits add: fails_with_intros)

lemma fails_with_reconstruct: "fails_with low_level (reconstruct fa h raw tris)"
  unfolding reconstruct_def reconstruct_corner_def Let_def
  by (intro fails_with_intros) simp_all

lemma fails_with_extract_frame: "fails_with low_level (extract_frame fa h tris f)"
  unfolding extract_frame_def
  by (intro fails_with_intros fails_with_reconstruct fails_with_WriteTriFile)

lemma fails_with_extract_skins: "fails_with low_level (extract_skins h pal)"
  unfolding extract_skins_def extract_skin_def
  by (intro fails_with_intros fails_with_WriteLBMfile) simp_all

lemma fails_with_read_st_verts: "fails_with low_level (read_st_verts h)"
  unfolding read_st_verts_def
  by (intro fails_with_intros)

lemma fails_with_read_triangles: "fails_with low_level (read_triangles h)"
  unfolding read_triangles_def
  by (intro fails_with_intros)


lemma SafeRead_ok:
  assumes "0 \<le> count" "count \<le> cap" "count < SIZE_MAX1" "nat count \<le> length (unread s)"
  shows "SafeRead cap count s =
    (Inr (take (nat count) (unread s)),
     s\<lparr>unread := drop (nat count) (unread s), fpos := fpos s + nat count\<rparr>)"
  using assms by (auto simp add: SafeRead_def to_size_t_def Let_def min_def)

lemma SafeRead_append:
  assumes "int (length bs) = count" "count \<le> cap" "count < SIZE_MAX1" "unread s = bs @ rest"
  shows "SafeRead cap count s = (Inr bs, s\<lparr>unread := rest, fpos := fpos s + length bs\<rparr>)"
  using assms by (subst SafeRead_ok) auto

lemma ReadLittleLong_append:
  assumes "unread s = b @ rest" "length b = 4"
  shows "ReadLittleLong s = (Inr (sint (little_bits b)), s\<lparr>unread := rest, fpos := fpos s + 4\<rparr>)"
  using assms
  by (simp add: ReadLittleLong_def bind_def ret_def SafeRead_append [where bs = b and rest = rest] SIZE_MAX1_def)

lemma ReadLittleFloat_append:
  assumes "unread s = b @ rest" "length b = 4"
  shows "ReadLittleFloat s = (Inr (little_bits b), s\<lparr>unread := rest, fpos := fpos s + 4\<rparr>)"
  using assms
  by (simp add: ReadLittleFloat_def bind_def ret_def SafeRead_append [where bs = b and rest = rest] SIZE_MAX1_def)

lemma group_header_read:
  assumes "unread s = ty @ grp @ rest" "length ty = 4" "length grp = 12"
    and "sint (little_bits ty) = ALIAS_GROUP"
  shows "frame_entry fa header tris i s =
     (let n = sint (little_bits (take 4 grp)) in
      if n \<le> 0 \<or> 10000 < n then Error (SuspiciousSubframes n)
      else
       bind (for_loop n (\<lambda>j _. bind ReadLittleFloat (\<lambda>_. ret ())) ()) (\<lambda>_.
       bind (for_loop n (\<lambda>j _. extract_frame fa header tris (SubFrameTri i j)) ()) (\<lambda>_.
       if INT_MAX < i + (1 + n) then Error UndefinedBehaviour else ret (i + (1 + n)))))
     (s\<lparr>unread := rest, fpos := fpos s + 16\<rparr>)"
proof -
  define s1 where "s1 = s\<lparr>unread := grp @ rest, fpos := fpos s + 4\<rparr>"
  define s2 where "s2 = s\<lparr>unread := rest, fpos := fpos s + 16\<rparr>"
  have r1: "ReadLittleLong s = (Inr ALIAS_GROUP, s1)"
    using ReadLittleLong_append [of s ty "grp @ rest"] assms by (simp add: s1_def)
  have "SafeRead sizeof_daliasgroup_t sizeof_daliasgroup_t s1 =
      (Inr grp, s1\<lparr>unread := rest, fpos := fpos s1 + length grp\<rparr>)"
    by (rule SafeRead_append)
      (use assms in \<open>simp_all add: sizeof_daliasgroup_t_def SIZE_MAX1_def s1_def\<close>)
  then have r2: "SafeRead sizeof_daliasgroup_t sizeof_daliasgroup_t s1 = (Inr grp, s2)"
    using assms(3) by (simp add: s1_def s2_def)
  show ?thesis
    unfolding frame_entry_def s2_def [symmetric]
    by (simp add: bind_def r1 r2 ALIAS_GROUP_def ALIAS_SINGLE_def Let_def)
qed

lemma group_rest_not_suspicious:
  "fails_with low_level
     (bind (for_loop n (\<lambda>j _. bind ReadLittleFloat (\<lambda>_. ret ())) ()) (\<lambda>_.
      bind (for_loop n (\<lambda>j _. extract_frame fa header tris (SubFrameTri i j)) ()) (\<lambda>_.
      if INT_MAX < i + (1 + n) then Error UndefinedBehaviour else ret (i + (1 + n)))))"
  by (intro fails_with_intros fails_with_extract_frame) simp_all

lemma fails_with_frame_entry: "fails_with frame_error (frame_entry fa h tris i)"
  unfolding frame_entry_def Let_def
  by (intro fails_with_intros fails_with_mono [OF fails_with_extract_frame]
        fails_with_mono [OF fails_with_ReadLittleLong] fails_with_mono [OF fails_with_ReadLittleFloat]
        fails_with_mono [OF fails_with_SafeRead])
     (simp_all add: frame_error_def low_level_def split: error.splits)

lemma fails_with_frames_loop: "fails_with frame_error (frames_loop fa h tris i)"
proof -
  have "frames_loop fa h tris i s = (Inl e, s') \<Longrightarrow> frame_error e" for s e s'
  proof (induction fa h tris i s rule: frames_loop.induct)
    case (1 fa header tris i s)
    show ?case
    proof (cases "i < numframes header")
      case False
      with "1.prems" show ?thesis by (simp add: frames_loop.simps)
    next
      case True
      obtain r s1 where fe: "frame_entry fa header tris i s = (r, s1)"
        by (cases "frame_entry fa header tris i s")
      show ?thesis
      proof (cases r)
        case (Inl e')
        with fe True "1.prems" have "e' = e" by (simp add: frames_loop.simps)
        with fe Inl fails_with_frame_entry [of fa header tris i] show ?thesis
          by (auto simp: fails_with_def)
      next
        case (Inr i')
        with fe True "1.prems" have "frames_loop fa header tris i' s1 = (Inl e, s')"
          by (simp add: frames_loop.simps)
        with "1.IH" [OF True fe [symmetric] Inr] show ?thesis by simp
      qed
    qed
  qed
  then show ?thesis by (auto simp: fails_with_def)
qed

subsection \<open>The bound on a group's sub-frame count\<close>

text \<open>
  Claim C8.  At a frame entry of type \<open>ALIAS_GROUP\<close> (the four bytes \<open>ty\<close>) with the
  twelve-byte group header \<open>grp\<close>, let \<open>n\<close> be the declared number of sub-frames.  If
  \<open>n \<le> 0\<close> or \<open>n > 10000\<close> the frame loop ends in \<open>SuspiciousSubframes n\<close> with the
  cursor directly behind the group header and the output untouched, whatever follows
  (even nothing): no interval was read and no sub-frame was begun.  If \<open>1 \<le> n \<le> 10000\<close>
  the entry never ends in that error.
\<close>

theorem suspicious_subframe_count:
  assumes "unread s = ty @ grp @ rest" "length ty = 4" "length grp = 12"
    and "sint (little_bits ty) = ALIAS_GROUP" "i < numframes header"
    and "n = sint (little_bits (take 4 grp))"
  shows "(n \<le> 0 \<or> 10000 < n \<longrightarrow>
            frames_loop fa header tris i s =
              (Inl (SuspiciousSubframes n), s\<lparr>unread := rest, fpos := fpos s + 16\<rparr>))
       \<and> (1 \<le> n \<and> n \<le> 10000 \<longrightarrow>
            (\<forall>m s'. frame_entry fa header tris i s \<noteq> (Inl (SuspiciousSubframes m), s')))"
proof (intro conjI impI)
  assume bad: "n \<le> 0 \<or> 10000 < n"
  have "frame_entry fa header tris i s =
      (Inl (SuspiciousSubframes n), s\<lparr>unread := rest, fpos := fpos s + 16\<rparr>)"
    using bad assms(6) by (simp add: group_header_read [OF assms(1-4)] Let_def Error_def)
  then show "frames_loop fa header tris i s =
      (Inl (SuspiciousSubframes n), s\<lparr>unread := rest, fpos := fpos s + 16\<rparr>)"
    using assms(5) by (simp add: frames_loop.simps)
next
  assume ok: "1 \<le> n \<and> n \<le> 10000"
  show "\<forall>m s'. frame_entry fa header tris i s \<noteq> (Inl (SuspiciousSubframes m), s')"
  proof (intro allI notI)
    fix m s'
    assume "frame_entry fa header tris i s = (Inl (SuspiciousSubframes m), s')"
    then have "bind (for_loop n (\<lambda>j _. bind ReadLittleFloat (\<lambda>_. ret ())) ()) (\<lambda>_.
        bind (for_loop n (\<lambda>j _. extract_frame fa header tris (SubFrameTri i j)) ()) (\<lambda>_.
        if INT_MAX < i + (1 + n) then Error UndefinedBehaviour else ret (i + (1 + n))))
          (s\<lparr>unread := rest, fpos := fpos s + 16\<rparr>) = (Inl (SuspiciousSubframes m), s')"
      using ok unfolding assms(6) group_header_read [OF assms(1-4)] Let_def
      by (simp split del: if_split cong: if_cong)
    then have "low_level (SuspiciousSubframes m)"
      by (rule fails_withD [OF group_rest_not_suspicious])
    then show False by (simp add: low_level_def)
  qed
qed


theorem suspicious_subframe_count_witness:
  "frames_loop ieee_single one_frame_header [] 0
       \<lparr>unread = [1, 0, 0, 0] @ [0x11, 0x27, 0, 0, 0, 0, 0, 0, 0, 0, 0, 0] @ [9, 9], fpos = 84,
        files = Map.empty\<rparr> =
     (Inl (SuspiciousSubframes 10001), \<lparr>unread = [9, 9], fpos = 100, files = Map.empty\<rparr>)
   \<and> (\<forall>m s'. frame_entry ieee_single one_frame_header [] 0
       \<lparr>unread = [1, 0, 0, 0] @ [0x10, 0x27, 0, 0, 0, 0, 0, 0, 0, 0, 0, 0] @ [9, 9], fpos = 84,
        files = Map.empty\<rparr> \<noteq> (Inl (SuspiciousSubframes m), s'))"
proof -
  have a: "sint (little_bits [1, 0, 0, 0]) = ALIAS_GROUP"
    by (simp add: little_bits_def ALIAS_GROUP_def)
  have b: "sint (little_bits (take 4 [0x11, 0x27, 0, 0, 0, 0, 0, 0, 0, 0, 0, 0])) = 10001"
    by (simp add: little_bits_def)
  have c: "sint (little_bits (take 4 [0x10, 0x27, 0, 0, 0, 0, 0, 0, 0, 0, 0, 0])) = 10000"
    by (simp add: little_bits_def)
  have d: "0 < numframes one_frame_header"
    by (simp add: one_frame_header_def)
  show ?thesis
    using suspicious_subframe_count [OF _ _ _ a d b [symmetric], of
        "\<lparr>unread = [1, 0, 0, 0] @ [0x11, 0x27, 0, 0, 0, 0, 0, 0, 0, 0, 0, 0] @ [9, 9], fpos = 84,
          files = Map.empty\<rparr>" "[9, 9]" ieee_single "[]"]
      suspicious_subframe_count [OF _ _ _ a d c [symmetric], of
        "\<lparr>unread = [1, 0, 0, 0] @ [0x10, 0x27, 0, 0, 0, 0, 0, 0, 0, 0, 0, 0] @ [9, 9], fpos = 84,
          files = Map.empty\<rparr>" "[9, 9]" ieee_single "[]"]
    by simp
qed

subsection \<open>Truncated input is fatal\<close>

lemma truncates_ret [simp]: "truncates (ret a)"
  by (auto simp: truncates_def truncates_at_def ret_def)

lemma truncates_Error [simp]: "truncates (Error e)"
  by (auto simp: truncates_def truncates_at_def Error_def)

lemma truncates_at_bind:
  assumes m: "truncates_at m s" and f: "\<And>a s1. m s = (Inr a, s1) \<Longrightarrow> truncates_at (f a) s1"
  shows "truncates_at (bind m f) s"
  unfolding truncates_at_def
proof (intro allI impI)
  fix xs ys r s'
  assume u: "unread s = xs @ ys" and b: "bind m f s = (Inr r, s')"
  from b obtain a s1 where ms: "m s = (Inr a, s1)" and fs: "f a s1 = (Inr r, s')"
    by (auto simp: bind_Inr)
  from m u ms consider
    (ok) xs1 where "unread s1 = xs1 @ ys" "fpos s1 + length xs1 = fpos s + length xs"
      "m (s\<lparr>unread := xs\<rparr>) = (Inr a, s1\<lparr>unread := xs1\<rparr>)"
    | (short) cnt got s'' where
      "m (s\<lparr>unread := xs\<rparr>) = (Inl (FileReadFailure cnt got (fpos s + length xs)), s'')"
    unfolding truncates_at_def by blast
  then show "(\<exists>xs'. unread s' = xs' @ ys \<and> fpos s' + length xs' = fpos s + length xs
            \<and> bind m f (s\<lparr>unread := xs\<rparr>) = (Inr r, s'\<lparr>unread := xs'\<rparr>))
      \<or> (\<exists>cnt got s''. bind m f (s\<lparr>unread := xs\<rparr>) =
            (Inl (FileReadFailure cnt got (fpos s + length xs)), s''))"
  proof cases
    case ok
    from f [OF ms] ok(1) fs consider
      (ok2) xs' where "unread s' = xs' @ ys" "fpos s' + length xs' = fpos s1 + length xs1"
        "f a (s1\<lparr>unread := xs1\<rparr>) = (Inr r, s'\<lparr>unread := xs'\<rparr>)"
      | (short2) cnt got s'' where
        "f a (s1\<lparr>unread := xs1\<rparr>) = (Inl (FileReadFailure cnt got (fpos s1 + length xs1)), s'')"
      unfolding truncates_at_def by blast
    then show ?thesis
    proof cases
      case ok2
      with ok show ?thesis by (auto simp: bind_def)
    next
      case short2
      with ok show ?thesis by (auto simp: bind_def)
    qed
  next
    case short
    then show ?thesis by (auto simp: bind_def)
  qed
qed

lemma truncates_bind:
  "truncates m \<Longrightarrow> (\<And>a. truncates (f a)) \<Longrightarrow> truncates (bind m f)"
  unfolding truncates_def by (auto intro: truncates_at_bind)

lemma truncates_if:
  "(b \<Longrightarrow> truncates c) \<Longrightarrow> (\<not> b \<Longrightarrow> truncates d) \<Longrightarrow> truncates (if b then c else d)"
  by simp

lemma truncates_for_each:
  "(\<And>k a. truncates (body k a)) \<Longrightarrow> truncates (for_each ks body a)"
  by (induction ks arbitrary: a) (auto intro!: truncates_bind)

lemma truncates_for_loop:
  "(\<And>k a. truncates (body k a)) \<Longrightarrow> truncates (for_loop n body a)"
  unfolding for_loop_def by (rule truncates_for_each)

lemma truncates_SafeRead: "truncates (SafeRead cap count)"
  unfolding truncates_def truncates_at_def
proof (intro allI impI)
  fix s :: world and xs ys r s'
  assume u: "unread s = xs @ ys" and ok: "SafeRead cap count s = (Inr r, s')"
  define k where "k = nat (to_size_t count)"
  have nn: "0 \<le> to_size_t count" by (simp add: to_size_t_def SIZE_MAX1_def)
  from ok have k: "k \<le> length (xs @ ys)" "int k \<le> cap"
    and s': "s' = s\<lparr>unread := drop k (xs @ ys), fpos := fpos s + k\<rparr>"
    and r: "r = take k (xs @ ys)"
    using nn unfolding SafeRead_def Let_def k_def u
    by (auto simp: min_def split: if_splits)
  show "(\<exists>xs'. unread s' = xs' @ ys \<and> fpos s' + length xs' = fpos s + length xs
            \<and> SafeRead cap count (s\<lparr>unread := xs\<rparr>) = (Inr r, s'\<lparr>unread := xs'\<rparr>))
      \<or> (\<exists>cnt got s''. SafeRead cap count (s\<lparr>unread := xs\<rparr>) =
            (Inl (FileReadFailure cnt got (fpos s + length xs)), s''))"
  proof (cases "k \<le> length xs")
    case True
    then have "SafeRead cap count (s\<lparr>unread := xs\<rparr>) = (Inr r, s'\<lparr>unread := drop k xs\<rparr>)"
      using k nn unfolding SafeRead_def Let_def k_def [symmetric] s' r
      by (simp add: min_def k_def)
    moreover have "unread s' = drop k xs @ ys" using True by (simp add: s')
    moreover have "fpos s' + length (drop k xs) = fpos s + length xs" using True by (simp add: s')
    ultimately show ?thesis by blast
  next
    case False
    then have "SafeRead cap count (s\<lparr>unread := xs\<rparr>) =
        (Inl (FileReadFailure count (length xs) (fpos s + length xs)),
         s\<lparr>unread := [], fpos := fpos s + length xs\<rparr>)"
      using k nn unfolding SafeRead_def Let_def k_def [symmetric]
      by (auto simp add: min_def k_def)
    then show ?thesis by blast
  qed
qed

lemma truncates_pure:
  fixes c :: "'a io"
  assumes "\<And>s :: world. \<exists>r g. c s = (r, s\<lparr>files := g\<rparr>)"
    and "\<And>(s :: world) xs. fst (c (s\<lparr>unread := xs\<rparr>)) = fst (c s)"
    and "\<And>(s :: world) xs. files (snd (c (s\<lparr>unread := xs\<rparr>))) = files (snd (c s))"
  shows "truncates c"
  unfolding truncates_def truncates_at_def
proof (intro allI impI)
  fix s :: world and xs ys r s'
  assume u: "unread s = xs @ ys" and ok: "c s = (Inr r, s')"
  from assms(1) [of s] ok obtain g where s': "s' = s\<lparr>files := g\<rparr>" by auto
  from assms(1) [of "s\<lparr>unread := xs\<rparr>"] obtain r2 g2
    where c2: "c (s\<lparr>unread := xs\<rparr>) = (r2, s\<lparr>unread := xs, files := g2\<rparr>)" by auto
  from assms(2) [where s = s and xs = xs] ok c2 have "r2 = Inr r" by simp
  moreover from assms(3) [where s = s and xs = xs] ok c2 s' have "g2 = g" by simp
  ultimately have "c (s\<lparr>unread := xs\<rparr>) = (Inr r, s'\<lparr>unread := xs\<rparr>)"
    using c2 s' by simp
  moreover have "unread s' = xs @ ys" "fpos s' + length xs = fpos s + length xs"
    using u s' by simp_all
  ultimately show "(\<exists>xs'. unread s' = xs' @ ys \<and> fpos s' + length xs' = fpos s + length xs
            \<and> c (s\<lparr>unread := xs\<rparr>) = (Inr r, s'\<lparr>unread := xs'\<rparr>))
      \<or> (\<exists>cnt got s''. c (s\<lparr>unread := xs\<rparr>) =
            (Inl (FileReadFailure cnt got (fpos s + length xs)), s''))"
    by blast
qed

lemma truncates_malloc: "truncates (malloc n)"
  by (simp add: malloc_def)

lemma truncates_SafeWrite: "truncates (SafeWrite f b)"
  by (rule truncates_pure) (auto simp: SafeWrite_def)

lemma truncates_SafeOpenWrite: "truncates (SafeOpenWrite f)"
  by (rule truncates_pure) (auto simp: SafeOpenWrite_def)

lemma truncates_WriteBigFloat: "truncates (WriteBigFloat f x)"
  by (simp add: WriteBigFloat_def Let_def truncates_SafeWrite)

lemma truncates_ReadLittleLong: "truncates ReadLittleLong"
  unfolding ReadLittleLong_def by (intro truncates_bind truncates_SafeRead truncates_ret)

lemma truncates_ReadLittleFloat: "truncates ReadLittleFloat"
  unfolding ReadLittleFloat_def by (intro truncates_bind truncates_SafeRead truncates_ret)

lemmas truncates_intros =
  truncates_bind truncates_if truncates_for_loop truncates_SafeRead truncates_malloc
  truncates_SafeWrite truncates_SafeOpenWrite truncates_WriteBigFloat
  truncates_ReadLittleLong truncates_ReadLittleFloat truncates_ret

lemma truncates_WriteTriFile: "truncates (WriteTriFile f tris n)"
  unfolding WriteTriFile_def write_point_def
  by (intro truncates_intros) simp_all

lemma truncates_WriteLBMfile: "truncates (WriteLBMfile f d w h p)"
  unfolding WriteLBMfile_def SaveFile_def
  by (intro truncates_intros) (simp_all split: prod.splits add: truncates_intros)

lemma truncates_reconstruct: "truncates (reconstruct fa h raw tris)"
  unfolding reconstruct_def reconstruct_corner_def Let_def
  by (intro truncates_intros) simp_all

lemma truncates_extract_frame: "truncates (extract_frame fa h tris f)"
  unfolding extract_frame_def
  by (intro truncates_intros truncates_reconstruct truncates_WriteTriFile)

lemma truncates_extract_skins: "truncates (extract_skins h pal)"
  unfolding extract_skins_def extract_skin_def
  by (intro truncates_intros truncates_WriteLBMfile) simp_all

lemma truncates_read_st_verts: "truncates (read_st_verts h)"
  unfolding read_st_verts_def
  by (intro truncates_intros)

lemma truncates_read_triangles: "truncates (read_triangles h)"
  unfolding read_triangles_def
  by (intro truncates_intros)

lemma truncates_read_header: "truncates read_header"
  unfolding read_header_def read_vec3_def
  by (intro truncates_intros) simp_all

lemma truncates_frame_entry: "truncates (frame_entry fa h tris i)"
  unfolding frame_entry_def Let_def
  by (intro truncates_intros truncates_extract_frame) simp_all

lemma truncates_at_frames_loop: "truncates_at (frames_loop fa h tris i) s"
proof (induction fa h tris i s rule: frames_loop.induct)
  case (1 fa header tris i s)
  show ?case
  proof (cases "i < numframes header")
    case False
    then have "frames_loop fa header tris i = ret i"
      by (rule_tac ext) (simp add: frames_loop.simps ret_def)
    then show ?thesis using truncates_ret [of i] by (simp add: truncates_def)
  next
    case True
    then have eq: "frames_loop fa header tris i =
        bind (frame_entry fa header tris i) (frames_loop fa header tris)"
      by (rule_tac ext) (simp add: frames_loop.simps [of fa header tris i] bind_def)
    have "truncates_at (bind (frame_entry fa header tris i) (frames_loop fa header tris)) s"
    proof (rule truncates_at_bind)
      show "truncates_at (frame_entry fa header tris i) s"
        using truncates_frame_entry by (simp add: truncates_def)
      show "truncates_at (frames_loop fa header tris a) s1"
        if "frame_entry fa header tris i s = (Inr a, s1)" for a s1
        using "1.IH" [OF True that [symmetric]] by simp
    qed
    then show ?thesis by (simp only: eq)
  qed
qed

lemma truncates_main: "truncates (main fa)"
  unfolding main_def main_body_def
  by (intro truncates_intros truncates_read_header truncates_extract_skins
      truncates_read_st_verts truncates_read_triangles)
     (simp add: truncates_def truncates_at_frames_loop)


lemma bind_assoc: "bind (bind m f) g = bind m (\<lambda>a. bind (f a) g)"
  by (rule ext) (simp add: bind_def split: prod.splits sum.splits)

lemma bind_Inr_step: "m s = (Inr a, s') \<Longrightarrow> bind m f s = f a s'"
  by (simp add: bind_def)

lemma SafeRead_short:
  assumes "0 \<le> count" "count \<le> cap" "count < SIZE_MAX1" "int (length (unread s)) < count"
  shows "SafeRead cap count s =
    (Inl (FileReadFailure count (length (unread s)) (fpos s + length (unread s))),
     s\<lparr>unread := [], fpos := fpos s + length (unread s)\<rparr>)"
  using assms by (auto simp add: SafeRead_def to_size_t_def Let_def min_def)

lemma main_truncated:
  assumes ok: "main fa (start bs) = (Inr r, s')" and n: "n < fpos s'"
  shows "\<exists>cnt got s''. main fa (start (take n bs)) = (Inl (FileReadFailure cnt got n), s'')"
proof -
  have t: "truncates_at (main fa) (start bs)"
    using truncates_main by (simp add: truncates_def)
  have whole: "start bs\<lparr>unread := bs\<rparr> = start bs"
    by (simp add: start_def)
  have "fpos s' \<le> length bs"
    using t [unfolded truncates_at_def, rule_format, of bs "[]" r s'] ok
    by (auto simp: start_def)
  with n have len: "length (take n bs) = n" by simp
  have cut: "start bs\<lparr>unread := take n bs\<rparr> = start (take n bs)"
    by (simp add: start_def)
  have split: "unread (start bs) = take n bs @ drop n bs"
    by (simp add: start_def)
  have pos: "fpos (start bs) + length (take n bs) = n"
    using len by (simp add: start_def)
  from t ok split
  have "(\<exists>xs'. unread s' = xs' @ drop n bs
            \<and> fpos s' + length xs' = fpos (start bs) + length (take n bs)
            \<and> main fa (start bs\<lparr>unread := take n bs\<rparr>) = (Inr r, s'\<lparr>unread := xs'\<rparr>))
      \<or> (\<exists>cnt got s''. main fa (start bs\<lparr>unread := take n bs\<rparr>) =
            (Inl (FileReadFailure cnt got (fpos (start bs) + length (take n bs))), s''))"
    unfolding truncates_at_def by blast
  then have "fpos s' \<le> n
      \<or> (\<exists>cnt got s''. main fa (start (take n bs)) = (Inl (FileReadFailure cnt got n), s''))"
    unfolding cut pos by auto
  with n show ?thesis by auto
qed

lemmas run_simps = bind_def ret_def Error_def ReadLittleLong_def ReadLittleFloat_def SafeRead_def
  Let_def to_size_t_def SIZE_MAX1_def little_bits_def malloc_def PTRDIFF_MAX_def
  INT_MAX_def INT_MIN_def IDPOLYHEADER_def ALIAS_VERSION_def read_vec3_def

lemma header_empty_model:
  "read_header (start empty_model) =
     (Inr \<lparr>ident = IDPOLYHEADER, version = ALIAS_VERSION, scale = (0x3F800000, 0x3F800000, 0x3F800000),
      scale_origin = (0, 0, 0), boundingradius = 0, eyeposition = (0, 0, 0), numskins = 0,
      skinwidth = 0, skinheight = 0, numverts = 0, numtris = 0, numframes = 0, synctype = 0,
      flags = 0, size_m = 0\<rparr>, \<lparr>unread = [], fpos = 84, files = Map.empty\<rparr>)"
  by (simp add: read_header_def start_def empty_model_def run_simps)

lemma main_empty_model:
  "main fa (start empty_model) = (Inr 0, \<lparr>unread = [], fpos = 84, files = Map.empty\<rparr>)"
  unfolding main_def main_body_def bind_assoc
  by (simp add: bind_Inr_step [where m = read_header, OF header_empty_model])
     (simp add: extract_skins_def read_st_verts_def read_triangles_def for_loop_def
       frames_loop.simps run_simps sizeof_stvert_t_def sizeof_dtriangle_t_def)


text \<open>
  Claim C7.  A read of \<open>count\<close> bytes (at most the size of its buffer) from an input that
  has fewer left ends in \<open>FileReadFailure\<close>, which carries \<open>count\<close>, the number of bytes that
  were left and the position of the cursor after them; whatever was to follow the read
  (\<open>f\<close>) does not run.  The same holds for the four-byte integer and float readers.
  For the whole program: if \<open>main\<close> returns on a file having read \<open>fpos s'\<close> bytes of it,
  then on the file cut to fewer bytes it ends in \<open>FileReadFailure\<close> at the end of the
  cut file; it never returns.
\<close>

theorem truncated_input_is_fatal:
  "(0 \<le> count \<and> count \<le> INT_MAX \<and> count \<le> cap \<and> int (length (unread s)) < count \<longrightarrow>
      (\<forall>f. bind (SafeRead cap count) f s =
         (Inl (FileReadFailure count (length (unread s)) (fpos s + length (unread s))),
          s\<lparr>unread := [], fpos := fpos s + length (unread s)\<rparr>)))
   \<and> (length (unread s) < 4 \<longrightarrow>
      (\<forall>f. bind ReadLittleLong f s =
         (Inl (FileReadFailure 4 (length (unread s)) (fpos s + length (unread s))),
          s\<lparr>unread := [], fpos := fpos s + length (unread s)\<rparr>))
    \<and> (\<forall>f. bind ReadLittleFloat f s =
         (Inl (FileReadFailure 4 (length (unread s)) (fpos s + length (unread s))),
          s\<lparr>unread := [], fpos := fpos s + length (unread s)\<rparr>)))
   \<and> (main fa (start bs) = (Inr r, s') \<and> n < fpos s' \<longrightarrow>
      (\<exists>cnt got s''. main fa (start (take n bs)) = (Inl (FileReadFailure cnt got n), s'')))"
proof (intro conjI impI allI)
  fix f :: "byte list \<Rightarrow> 'a io"
  assume "0 \<le> count \<and> count \<le> INT_MAX \<and> count \<le> cap \<and> int (length (unread s)) < count"
  then show "bind (SafeRead cap count) f s =
         (Inl (FileReadFailure count (length (unread s)) (fpos s + length (unread s))),
          s\<lparr>unread := [], fpos := fpos s + length (unread s)\<rparr>)"
    by (simp add: bind_def SafeRead_short INT_MAX_def SIZE_MAX1_def)
next
  fix f :: "int \<Rightarrow> 'b io"
  assume "length (unread s) < 4"
  then show "bind ReadLittleLong f s =
         (Inl (FileReadFailure 4 (length (unread s)) (fpos s + length (unread s))),
          s\<lparr>unread := [], fpos := fpos s + length (unread s)\<rparr>)"
    by (simp add: ReadLittleLong_def bind_def SafeRead_short SIZE_MAX1_def)
next
  fix f :: "float32 \<Rightarrow> 'c io"
  assume "length (unread s) < 4"
  then show "bind ReadLittleFloat f s =
         (Inl (FileReadFailure 4 (length (unread s)) (fpos s + length (unread s))),
          s\<lparr>unread := [], fpos := fpos s + length (unread s)\<rparr>)"
    by (simp add: ReadLittleFloat_def bind_def SafeRead_short SIZE_MAX1_def)
next
  assume "main fa (start bs) = (Inr r, s') \<and> n < fpos s'"
  then show "\<exists>cnt got s''. main fa (start (take n bs)) = (Inl (FileReadFailure cnt got n), s'')"
    using main_truncated by blast
qed


theorem truncated_input_is_fatal_witness:
  "bind (SafeRead 24 24) ret \<lparr>unread = [1, 2, 3], fpos = 7, files = Map.empty\<rparr> =
     (Inl (FileReadFailure 24 3 10), \<lparr>unread = [], fpos = 10, files = Map.empty\<rparr>)
   \<and> bind ReadLittleLong ret \<lparr>unread = [1, 2, 3], fpos = 7, files = Map.empty\<rparr> =
     (Inl (FileReadFailure 4 3 10), \<lparr>unread = [], fpos = 10, files = Map.empty\<rparr>)
   \<and> (\<exists>cnt got s''. main ieee_single (start (take 83 empty_model)) =
        (Inl (FileReadFailure cnt got 83), s''))"
  using truncated_input_is_fatal [where ?'a = "byte list" and ?'b = int and ?'c = float32, of 24 24 "\<lparr>unread = [1, 2, 3], fpos = 7, files = Map.empty\<rparr>"
      ieee_single empty_model 0 "\<lparr>unread = [], fpos = 84, files = Map.empty\<rparr>" 83]
    main_empty_model [of ieee_single]
  by (simp add: INT_MAX_def numeral_3_eq_3)

subsection \<open>Header validation\<close>

lemma ReadLittleLong_at:
  assumes "k + 4 \<le> length bs"
  shows "ReadLittleLong \<lparr>unread = drop k bs, fpos = k, files = F\<rparr> =
     (Inr (sint (little_bits (take 4 (drop k bs)))),
      \<lparr>unread = drop (k + 4) bs, fpos = k + 4, files = F\<rparr>)"
proof -
  have "unread \<lparr>unread = drop k bs, fpos = k, files = F\<rparr> = take 4 (drop k bs) @ drop (k + 4) bs"
    using append_take_drop_id [of 4 "drop k bs"] by (simp add: add.commute)
  moreover have "length (take 4 (drop k bs)) = 4" using assms by simp
  ultimately show ?thesis
    by (simp add: ReadLittleLong_append [where b = "take 4 (drop k bs)" and rest = "drop (k + 4) bs"]
        del: drop_drop)
qed

lemma ReadLittleFloat_at:
  assumes "k + 4 \<le> length bs"
  shows "ReadLittleFloat \<lparr>unread = drop k bs, fpos = k, files = F\<rparr> =
     (Inr (little_bits (take 4 (drop k bs))),
      \<lparr>unread = drop (k + 4) bs, fpos = k + 4, files = F\<rparr>)"
proof -
  have "unread \<lparr>unread = drop k bs, fpos = k, files = F\<rparr> = take 4 (drop k bs) @ drop (k + 4) bs"
    using append_take_drop_id [of 4 "drop k bs"] by (simp add: add.commute)
  moreover have "length (take 4 (drop k bs)) = 4" using assms by simp
  ultimately show ?thesis
    by (simp add: ReadLittleFloat_append [where b = "take 4 (drop k bs)" and rest = "drop (k + 4) bs"]
        del: drop_drop)
qed

lemma read_header_start:
  assumes "8 \<le> length bs"
  shows "read_header (start bs) =
    (if sint (little_bits (take 4 bs)) \<noteq> IDPOLYHEADER
        \<or> sint (little_bits (take 4 (drop 4 bs))) \<noteq> ALIAS_VERSION
     then (Inl (InvalidMDL (sint (little_bits (take 4 bs))) (sint (little_bits (take 4 (drop 4 bs))))),
           \<lparr>unread = drop 8 bs, fpos = 8, files = Map.empty\<rparr>)
     else read_header (start bs))"
proof -
  have s0: "start bs = \<lparr>unread = drop 0 bs, fpos = 0, files = Map.empty\<rparr>"
    by (simp add: start_def)
  have r1: "ReadLittleLong (start bs) = (Inr (sint (little_bits (take 4 bs))),
      \<lparr>unread = drop 4 bs, fpos = 4, files = Map.empty\<rparr>)"
    unfolding s0 using ReadLittleLong_at [of 0 bs Map.empty] assms by simp
  have r2: "ReadLittleLong \<lparr>unread = drop 4 bs, fpos = 4, files = Map.empty\<rparr> =
      (Inr (sint (little_bits (take 4 (drop 4 bs)))),
      \<lparr>unread = drop 8 bs, fpos = 8, files = Map.empty\<rparr>)"
    using ReadLittleLong_at [of 4 bs Map.empty] assms by simp
  show ?thesis
  proof (cases "sint (little_bits (take 4 bs)) \<noteq> IDPOLYHEADER
        \<or> sint (little_bits (take 4 (drop 4 bs))) \<noteq> ALIAS_VERSION")
    case True
    then show ?thesis
      unfolding read_header_def
      by (simp add: bind_Inr_step [where m = ReadLittleLong, OF r1]
          bind_Inr_step [where m = ReadLittleLong, OF r2] Error_def)
  next
    case False
    then show ?thesis by simp
  qed
qed

lemma read_header_invalid:
  assumes "read_header s = (Inl (InvalidMDL a b), s')"
  shows "\<exists>s1. ReadLittleLong s = (Inr a, s1) \<and> ReadLittleLong s1 = (Inr b, s')
      \<and> (a \<noteq> IDPOLYHEADER \<or> b \<noteq> ALIAS_VERSION)"
proof -
  have no: "\<not> low_level (InvalidMDL a b)" by (simp add: low_level_def)
  from assms obtain x s1 where r1: "ReadLittleLong s = (Inr x, s1)"
    using fails_withD [OF fails_with_ReadLittleLong, of s "InvalidMDL a b" s'] no
    unfolding read_header_def bind_Inl_iff by blast
  with assms obtain y s2 where r2: "ReadLittleLong s1 = (Inr y, s2)"
    using fails_withD [OF fails_with_ReadLittleLong, of s1 "InvalidMDL a b" s'] no
    unfolding read_header_def by (auto simp: bind_def split: sum.splits prod.splits)
  show ?thesis
  proof (cases "x \<noteq> IDPOLYHEADER \<or> y \<noteq> ALIAS_VERSION")
    case True
    with assms r1 r2 show ?thesis
      unfolding read_header_def
      by (simp add: bind_Inr_step [where m = ReadLittleLong, OF r1]
          bind_Inr_step [where m = ReadLittleLong, OF r2] Error_def)
  next
    case False
    with assms have "bind read_vec3 (\<lambda>scale'.
     bind read_vec3 (\<lambda>scale_origin'.
     bind ReadLittleFloat (\<lambda>boundingradius'.
     bind read_vec3 (\<lambda>eyeposition'.
     bind ReadLittleLong (\<lambda>numskins'.
     bind ReadLittleLong (\<lambda>skinwidth'.
     bind ReadLittleLong (\<lambda>skinheight'.
     bind ReadLittleLong (\<lambda>numverts'.
     bind ReadLittleLong (\<lambda>numtris'.
     bind ReadLittleLong (\<lambda>numframes'.
     bind ReadLittleLong (\<lambda>synctype'.
     bind ReadLittleLong (\<lambda>flags'.
     bind ReadLittleFloat (\<lambda>size'.
     ret \<lparr>ident = x, version = y, scale = scale',
          scale_origin = scale_origin', boundingradius = boundingradius',
          eyeposition = eyeposition', numskins = numskins', skinwidth = skinwidth',
          skinheight = skinheight', numverts = numverts', numtris = numtris',
          numframes = numframes', synctype = synctype', flags = flags',
          size_m = size'\<rparr>))))))))))))) s2 = (Inl (InvalidMDL a b), s')"
      unfolding read_header_def
      by (simp add: bind_Inr_step [where m = ReadLittleLong, OF r1]
          bind_Inr_step [where m = ReadLittleLong, OF r2])
    then have "low_level (InvalidMDL a b)"
      by (rule fails_withD [rotated]) (unfold read_vec3_def, intro fails_with_intros)
    with no show ?thesis by simp
  qed
qed

lemma fails_with_after_header:
  "fails_with frame_error
     (bind (extract_skins header loaded_palette) (\<lambda>_.
      bind (read_st_verts header) (\<lambda>st_verts.
      bind (read_triangles header) (\<lambda>triangles_indices.
      bind (frames_loop fa header triangles_indices 0) (\<lambda>i.
      bind (ret (header, i)) (\<lambda>_. ret (0 :: int)))))))"
  by (intro fails_with_bind fails_with_ret fails_with_frames_loop
      fails_with_mono [OF fails_with_extract_skins] fails_with_mono [OF fails_with_read_st_verts]
      fails_with_mono [OF fails_with_read_triangles])
    (simp_all add: frame_error_def low_level_def split: error.splits)

lemma main_invalid:
  assumes "main fa s = (Inl (InvalidMDL a b), s')"
  shows "read_header s = (Inl (InvalidMDL a b), s')"
proof -
  have no: "\<not> frame_error (InvalidMDL a b)" by (simp add: frame_error_def low_level_def)
  from assms have "bind read_header (\<lambda>header.
      bind (extract_skins header loaded_palette) (\<lambda>_.
      bind (read_st_verts header) (\<lambda>st_verts.
      bind (read_triangles header) (\<lambda>triangles_indices.
      bind (frames_loop fa header triangles_indices 0) (\<lambda>i.
      bind (ret (header, i)) (\<lambda>_. ret (0 :: int))))))) s = (Inl (InvalidMDL a b), s')"
    by (simp add: main_def main_body_def bind_assoc)
  then show ?thesis
    unfolding bind_Inl_iff [of read_header]
    using fails_withD [OF fails_with_after_header] no by blast
qed


lemma read_header_ok:
  assumes len: "84 \<le> length bs"
    and magic: "long_at bs 0 = IDPOLYHEADER" and ver: "long_at bs 4 = ALIAS_VERSION"
  shows "read_header (start bs) =
    (Inr \<lparr>ident = IDPOLYHEADER, version = ALIAS_VERSION,
          scale = (float_at bs 8, float_at bs 12, float_at bs 16),
          scale_origin = (float_at bs 20, float_at bs 24, float_at bs 28),
          boundingradius = float_at bs 32,
          eyeposition = (float_at bs 36, float_at bs 40, float_at bs 44),
          numskins = long_at bs 48, skinwidth = long_at bs 52, skinheight = long_at bs 56,
          numverts = long_at bs 60, numtris = long_at bs 64, numframes = long_at bs 68,
          synctype = long_at bs 72, flags = long_at bs 76, size_m = float_at bs 80\<rparr>,
     \<lparr>unread = drop 84 bs, fpos = 84, files = Map.empty\<rparr>)"
proof -
  have s0: "start bs = \<lparr>unread = drop 0 bs, fpos = 0, files = Map.empty\<rparr>"
    by (simp add: start_def)
  have L: "ReadLittleLong \<lparr>unread = drop k bs, fpos = k, files = Map.empty\<rparr> =
      (Inr (long_at bs k), \<lparr>unread = drop (k + 4) bs, fpos = k + 4, files = Map.empty\<rparr>)"
    if "k \<le> 80" for k
    using ReadLittleLong_at [of k bs Map.empty] that len by (simp add: long_at_def)
  have F: "ReadLittleFloat \<lparr>unread = drop k bs, fpos = k, files = Map.empty\<rparr> =
      (Inr (float_at bs k), \<lparr>unread = drop (k + 4) bs, fpos = k + 4, files = Map.empty\<rparr>)"
    if "k \<le> 80" for k
    using ReadLittleFloat_at [of k bs Map.empty] that len by (simp add: float_at_def)
  have L0: "ReadLittleLong \<lparr>unread = bs, fpos = 0, files = Map.empty\<rparr> =
      (Inr (long_at bs 0), \<lparr>unread = drop 4 bs, fpos = 4, files = Map.empty\<rparr>)"
    using L [of 0] by simp
  show ?thesis
    unfolding read_header_def read_vec3_def start_def
    using magic ver
    by (simp add: bind_def L0 L F ret_def)
qed


lemma main_header_fails:
  assumes "read_header s = (Inl e, s')"
  shows "main fa s = (Inl e, s')"
  using assms by (simp add: main_def main_body_def bind_assoc bind_def)

text \<open>
  Claim C6.  On a file of at least eight bytes, \<open>main\<close> ends in \<open>InvalidMDL\<close> exactly when
  the first little-endian integer is not \<open>IDPOLYHEADER\<close> or the second is not
  \<open>ALIAS_VERSION\<close> (6).  It then stops with the cursor at offset 8, having read those two
  fields only and written nothing.  When both match and the 84 header bytes are there,
  the header is accepted with every other field as it stands in the file: no count is
  checked.
\<close>

theorem header_validation:
  assumes "8 \<le> length bs"
  shows "((\<exists>a b s'. main fa (start bs) = (Inl (InvalidMDL a b), s'))
            \<longleftrightarrow> (long_at bs 0 \<noteq> IDPOLYHEADER \<or> long_at bs 4 \<noteq> ALIAS_VERSION))
    \<and> (long_at bs 0 \<noteq> IDPOLYHEADER \<or> long_at bs 4 \<noteq> ALIAS_VERSION \<longrightarrow>
          main fa (start bs) =
            (Inl (InvalidMDL (long_at bs 0) (long_at bs 4)),
             \<lparr>unread = drop 8 bs, fpos = 8, files = Map.empty\<rparr>))
    \<and> (long_at bs 0 = IDPOLYHEADER \<and> long_at bs 4 = ALIAS_VERSION \<and> 84 \<le> length bs \<longrightarrow>
          read_header (start bs) =
            (Inr \<lparr>ident = IDPOLYHEADER, version = ALIAS_VERSION,
                  scale = (float_at bs 8, float_at bs 12, float_at bs 16),
                  scale_origin = (float_at bs 20, float_at bs 24, float_at bs 28),
                  boundingradius = float_at bs 32,
                  eyeposition = (float_at bs 36, float_at bs 40, float_at bs 44),
                  numskins = long_at bs 48, skinwidth = long_at bs 52,
                  skinheight = long_at bs 56, numverts = long_at bs 60,
                  numtris = long_at bs 64, numframes = long_at bs 68,
                  synctype = long_at bs 72, flags = long_at bs 76, size_m = float_at bs 80\<rparr>,
             \<lparr>unread = drop 84 bs, fpos = 84, files = Map.empty\<rparr>))"
proof -
  have bad: "main fa (start bs) =
      (Inl (InvalidMDL (long_at bs 0) (long_at bs 4)),
       \<lparr>unread = drop 8 bs, fpos = 8, files = Map.empty\<rparr>)"
    if "long_at bs 0 \<noteq> IDPOLYHEADER \<or> long_at bs 4 \<noteq> ALIAS_VERSION"
  proof (rule main_header_fails)
    show "read_header (start bs) =
      (Inl (InvalidMDL (long_at bs 0) (long_at bs 4)),
       \<lparr>unread = drop 8 bs, fpos = 8, files = Map.empty\<rparr>)"
      using read_header_start [OF assms] that by (simp add: long_at_def)
  qed
  have only: "long_at bs 0 \<noteq> IDPOLYHEADER \<or> long_at bs 4 \<noteq> ALIAS_VERSION"
    if "main fa (start bs) = (Inl (InvalidMDL a b), s')" for a b s'
  proof -
    have r1: "ReadLittleLong (start bs) =
        (Inr (long_at bs 0), \<lparr>unread = drop 4 bs, fpos = 4, files = Map.empty\<rparr>)"
      using ReadLittleLong_at [of 0 bs Map.empty] assms by (simp add: start_def long_at_def)
    have r2: "ReadLittleLong \<lparr>unread = drop 4 bs, fpos = 4, files = Map.empty\<rparr> =
        (Inr (long_at bs 4), \<lparr>unread = drop 8 bs, fpos = 8, files = Map.empty\<rparr>)"
      using ReadLittleLong_at [of 4 bs Map.empty] assms by (simp add: long_at_def)
    from read_header_invalid [OF main_invalid [OF that]] r1 r2 show ?thesis by auto
  qed
  show ?thesis
  proof (intro conjI impI iffI)
    assume "\<exists>a b s'. main fa (start bs) = (Inl (InvalidMDL a b), s')"
    then show "long_at bs 0 \<noteq> IDPOLYHEADER \<or> long_at bs 4 \<noteq> ALIAS_VERSION"
      using only by blast
  next
    assume "long_at bs 0 \<noteq> IDPOLYHEADER \<or> long_at bs 4 \<noteq> ALIAS_VERSION"
    then show "\<exists>a b s'. main fa (start bs) = (Inl (InvalidMDL a b), s')"
      using bad by blast
  next
    assume "long_at bs 0 \<noteq> IDPOLYHEADER \<or> long_at bs 4 \<noteq> ALIAS_VERSION"
    then show "main fa (start bs) =
      (Inl (InvalidMDL (long_at bs 0) (long_at bs 4)),
       \<lparr>unread = drop 8 bs, fpos = 8, files = Map.empty\<rparr>)"
      by (rule bad)
  next
    assume "long_at bs 0 = IDPOLYHEADER \<and> long_at bs 4 = ALIAS_VERSION \<and> 84 \<le> length bs"
    then show "read_header (start bs) =
            (Inr \<lparr>ident = IDPOLYHEADER, version = ALIAS_VERSION,
                  scale = (float_at bs 8, float_at bs 12, float_at bs 16),
                  scale_origin = (float_at bs 20, float_at bs 24, float_at bs 28),
                  boundingradius = float_at bs 32,
                  eyeposition = (float_at bs 36, float_at bs 40, float_at bs 44),
                  numskins = long_at bs 48, skinwidth = long_at bs 52,
                  skinheight = long_at bs 56, numverts = long_at bs 60,
                  numtris = long_at bs 64, numframes = long_at bs 68,
                  synctype = long_at bs 72, flags = long_at bs 76, size_m = float_at bs 80\<rparr>,
             \<lparr>unread = drop 84 bs, fpos = 84, files = Map.empty\<rparr>)"
      using read_header_ok by blast
  qed
qed

theorem header_validation_witness:
  "main ieee_single (start [0x49, 0x44, 0x50, 0x32, 6, 0, 0, 0, 0xFF]) =
     (Inl (InvalidMDL 844121161 6), \<lparr>unread = [0xFF], fpos = 8, files = Map.empty\<rparr>)
   \<and> main ieee_single (start [0x49, 0x44, 0x50, 0x4F, 7, 0, 0, 0]) =
     (Inl (InvalidMDL 1330660425 7), \<lparr>unread = [], fpos = 8, files = Map.empty\<rparr>)
   \<and> \<not> (\<exists>a b s'. main ieee_single (start empty_model) = (Inl (InvalidMDL a b), s'))"
  using header_validation [of "[0x49, 0x44, 0x50, 0x32, 6, 0, 0, 0, 0xFF]" ieee_single]
    header_validation [of "[0x49, 0x44, 0x50, 0x4F, 7, 0, 0, 0]" ieee_single]
    header_validation [of empty_model ieee_single]
  by (simp add: long_at_def little_bits_def IDPOLYHEADER_def ALIAS_VERSION_def empty_model_def)

subsection \<open>A header that declares no frame\<close>

lemma writes_onlyD: "writes_only N c \<Longrightarrow> c s = (r, s') \<Longrightarrow> f \<notin> N \<Longrightarrow> files s' f = files s f"
  by (auto simp: writes_only_def)

lemma writes_only_ret [simp]: "writes_only N (ret a)"
  by (simp add: writes_only_def ret_def)

lemma writes_only_Error [simp]: "writes_only N (Error e)"
  by (simp add: writes_only_def Error_def)

lemma writes_only_bind:
  "writes_only N m \<Longrightarrow> (\<And>a. writes_only N (f a)) \<Longrightarrow> writes_only N (bind m f)"
  unfolding writes_only_def bind_def
  by (auto split: prod.splits sum.splits)

lemma writes_only_if:
  "(b \<Longrightarrow> writes_only N c) \<Longrightarrow> (\<not> b \<Longrightarrow> writes_only N d) \<Longrightarrow> writes_only N (if b then c else d)"
  by simp

lemma writes_only_for_each:
  "(\<And>k a. writes_only N (body k a)) \<Longrightarrow> writes_only N (for_each ks body a)"
  by (induction ks arbitrary: a) (auto intro!: writes_only_bind)

lemma writes_only_for_loop:
  "(\<And>k a. writes_only N (body k a)) \<Longrightarrow> writes_only N (for_loop n body a)"
  unfolding for_loop_def by (rule writes_only_for_each)

lemma writes_only_SafeRead: "writes_only N (SafeRead cap count)"
  by (auto simp: writes_only_def SafeRead_def Let_def split: if_splits)

lemma writes_only_malloc: "writes_only N (malloc n)"
  by (simp add: malloc_def)

lemma writes_only_SafeWrite: "f \<in> N \<Longrightarrow> writes_only N (SafeWrite f b)"
  by (auto simp: writes_only_def SafeWrite_def)

lemma writes_only_SafeOpenWrite: "f \<in> N \<Longrightarrow> writes_only N (SafeOpenWrite f)"
  by (auto simp: writes_only_def SafeOpenWrite_def)

lemma writes_only_ReadLittleLong: "writes_only N ReadLittleLong"
  unfolding ReadLittleLong_def by (intro writes_only_bind writes_only_SafeRead writes_only_ret)

lemma writes_only_ReadLittleFloat: "writes_only N ReadLittleFloat"
  unfolding ReadLittleFloat_def by (intro writes_only_bind writes_only_SafeRead writes_only_ret)

lemmas writes_only_intros =
  writes_only_bind writes_only_if writes_only_for_loop writes_only_SafeRead writes_only_malloc
  writes_only_ReadLittleLong writes_only_ReadLittleFloat writes_only_ret

lemma writes_only_WriteLBMfile: "f \<in> N \<Longrightarrow> writes_only N (WriteLBMfile f d w h p)"
  unfolding WriteLBMfile_def SaveFile_def
  by (intro writes_only_intros)
     (simp_all split: prod.splits add: writes_only_intros writes_only_SafeWrite writes_only_SafeOpenWrite)

lemma writes_only_read_header: "writes_only N read_header"
  unfolding read_header_def read_vec3_def
  by (intro writes_only_intros) simp_all

lemma writes_only_extract_skins: "writes_only (range SkinLbm) (extract_skins h pal)"
  unfolding extract_skins_def extract_skin_def
  by (intro writes_only_intros writes_only_WriteLBMfile) simp_all

lemma writes_only_read_st_verts: "writes_only N (read_st_verts h)"
  unfolding read_st_verts_def
  by (intro writes_only_intros)

lemma writes_only_read_triangles: "writes_only N (read_triangles h)"
  unfolding read_triangles_def
  by (intro writes_only_intros)

lemma frames_loop_none:
  "numframes header \<le> 0 \<Longrightarrow> frames_loop fa header tris 0 = ret 0"
  by (rule ext) (simp add: frames_loop.simps ret_def)

text \<open>
  Claim C10, as the code has it.  Let the header be accepted and declare
  \<open>numframes \<le> 0\<close>.  Then the frame loop returns at once, without a pass, wherever it
  is started.  \<open>main\<close> is exactly the skin loop and the two topology loops followed by
  exit status 0: the frame count adds no error, no read and no file.  However \<open>main\<close>
  ends, no mesh file (of a frame or of a sub-frame) has been touched.  When the skins and
  the topology decode, it returns 0; when they do not, their error ends the run as it
  does with any other frame count.
\<close>

theorem no_frames_no_meshes:
  assumes hd: "read_header s = (Inr header, s1)" and nf: "numframes header \<le> 0"
  shows "(\<forall>tris s2. frames_loop fa header tris 0 s2 = (Inr 0, s2))
    \<and> main fa s =
        bind (extract_skins header loaded_palette) (\<lambda>_.
        bind (read_st_verts header) (\<lambda>_.
        bind (read_triangles header) (\<lambda>_. ret 0))) s1
    \<and> (\<forall>r s'. main fa s = (r, s') \<longrightarrow>
          (\<forall>i. files s' (FrameTri i) = files s (FrameTri i))
        \<and> (\<forall>i j. files s' (SubFrameTri i j) = files s (SubFrameTri i j)))
    \<and> (\<forall>s2 st s3 tris s4.
          extract_skins header loaded_palette s1 = (Inr (), s2)
        \<and> read_st_verts header s2 = (Inr st, s3)
        \<and> read_triangles header s3 = (Inr tris, s4) \<longrightarrow> main fa s = (Inr 0, s4))"
proof -
  have loop: "frames_loop fa header tris 0 = ret 0" for tris
    using nf by (rule frames_loop_none)
  have m: "main fa s =
        bind (extract_skins header loaded_palette) (\<lambda>_.
        bind (read_st_verts header) (\<lambda>_.
        bind (read_triangles header) (\<lambda>_. ret 0))) s1"
    unfolding main_def main_body_def bind_assoc
    by (simp add: bind_Inr_step [where m = read_header, OF hd] loop)
  have w: "writes_only (range SkinLbm)
       (bind (extract_skins header loaded_palette) (\<lambda>_.
        bind (read_st_verts header) (\<lambda>_.
        bind (read_triangles header) (\<lambda>_. ret (0 :: int)))))"
    by (intro writes_only_bind writes_only_extract_skins writes_only_read_st_verts
        writes_only_read_triangles writes_only_ret)
  have keep: "files s' f = files s f" if "main fa s = (r, s')" "f \<notin> range SkinLbm" for r s' f
  proof -
    have "files s' f = files s1 f"
      using writes_onlyD [OF w _ that(2)] that(1) unfolding m by blast
    also have "files s1 f = files s f"
      using writes_onlyD [OF writes_only_read_header hd that(2)] .
    finally show ?thesis .
  qed
  show ?thesis
  proof (intro conjI allI impI)
    show "frames_loop fa header tris 0 s2 = (Inr 0, s2)" for tris s2
      by (simp add: loop ret_def)
    show "main fa s =
        bind (extract_skins header loaded_palette) (\<lambda>_.
        bind (read_st_verts header) (\<lambda>_.
        bind (read_triangles header) (\<lambda>_. ret 0))) s1"
      by (rule m)
    show "files s' (FrameTri i) = files s (FrameTri i)" if "main fa s = (r, s')" for r s' i
      using keep [OF that] by auto
    show "files s' (SubFrameTri i j) = files s (SubFrameTri i j)"
      if "main fa s = (r, s')" for r s' i j
      using keep [OF that] by auto
    show "main fa s = (Inr 0, s4)"
      if "extract_skins header loaded_palette s1 = (Inr (), s2)
        \<and> read_st_verts header s2 = (Inr st, s3)
        \<and> read_triangles header s3 = (Inr tris, s4)" for s2 st s3 tris s4
      using that unfolding m by (simp add: bind_def ret_def)
  qed
qed

subsection \<open>The frame counter\<close>





lemmas ieee_simps = ieee_single_def f32_add_def f32_mul_def f32_of_byte_def f32_round_def
  f32_is_nan_def f32_is_inf_def f32_is_zero_def f32_exp_def f32_man_def f32_sig_def f32_e_def
  f32_sign_def f32_nan_def f32_inf_def bitlen.simps

lemmas frame_simps = frame_entry_def extract_frame_def reconstruct_def reconstruct_corner_def
  unpack_vertex_def trivertx_at_def WriteTriFile_def write_point_def WriteBigFloat_def
  WriteBigLongToBuffer_def store_def SafeWrite_def SafeOpenWrite_def for_loop_def
  sizeof_daliasframe_t_def sizeof_daliasgroup_t_def sizeof_trivertx_t_def sizeof_triangle_t_def
  sizeof_stvert_t_def sizeof_dtriangle_t_def ALIAS_SINGLE_def ALIAS_GROUP_def to_int_def
  obj_name_def tex_name_def ascii_def float_zero_def FLOAT_START_def FLOAT_END_def IDTRIHEADER_def
  upto.simps













subsection \<open>The mesh file\<close>

lemma ucast_mask_byte: "(ucast (w AND 0xFF :: 32 word) :: byte) = ucast w"
proof -
  have m: "(0xFF :: 32 word) = mask 8" by (simp add: mask_eq_exp_minus_1)
  show ?thesis unfolding m by (rule bit_word_eqI) (auto simp: bit_simps)
qed

lemma WriteBigLongToBuffer_empty: "WriteBigLongToBuffer [] 0 w = big_endian w"
  by (simp add: WriteBigLongToBuffer_def store_def big_endian_def ucast_mask_byte Let_def)

lemma WriteBigFloat_eq: "WriteBigFloat f x = SafeWrite f (big_endian x)"
  by (simp add: WriteBigFloat_def big_endian_def Let_def)

lemma SafeWrite_Some:
  "files s f = Some old \<Longrightarrow>
     SafeWrite f b s = (Inr (), s\<lparr>files := (files s)(f \<mapsto> old @ b)\<rparr>)"
  by (simp add: SafeWrite_def)

lemma bind_SafeWrite:
  "files s f = Some old \<Longrightarrow>
     bind (SafeWrite f b) k s = k () (s\<lparr>files := (files s)(f \<mapsto> old @ b)\<rparr>)"
  by (simp add: bind_def SafeWrite_Some)

lemma put_twice:
  "s\<lparr>files := (files s)(f \<mapsto> a)\<rparr>\<lparr>files := (files (s\<lparr>files := (files s)(f \<mapsto> a)\<rparr>))(f \<mapsto> b)\<rparr> =
     s\<lparr>files := (files s)(f \<mapsto> b)\<rparr>"
  by (cases s) simp

lemma for_each_appends:
  assumes body: "\<And>k s old. k \<in> set ks \<Longrightarrow> files s f = Some old \<Longrightarrow>
      body k () s = (Inr (), s\<lparr>files := (files s)(f \<mapsto> old @ g k)\<rparr>)"
    and old: "files s f = Some old"
  shows "for_each ks body () s = (Inr (), s\<lparr>files := (files s)(f \<mapsto> old @ concat (map g ks))\<rparr>)"
  using assms
proof (induction ks arbitrary: s old)
  case Nil
  then have "(files s)(f \<mapsto> old) = files s" by (simp add: map_upd_triv)
  then show ?case by (simp add: ret_def)
next
  case (Cons k ks)
  let ?s1 = "s\<lparr>files := (files s)(f \<mapsto> old @ g k)\<rparr>"
  have b: "body k () s = (Inr (), ?s1)"
    by (rule Cons.prems(1)) (simp_all add: Cons.prems(2))
  have "for_each ks body () ?s1 =
      (Inr (), ?s1\<lparr>files := (files ?s1)(f \<mapsto> (old @ g k) @ concat (map g ks))\<rparr>)"
    by (rule Cons.IH) (use Cons.prems in simp_all)
  then have "for_each ks body () ?s1 =
      (Inr (), s\<lparr>files := (files s)(f \<mapsto> (old @ g k) @ concat (map g ks))\<rparr>)"
    by (simp only: put_twice)
  moreover have "concat (map g (k # ks)) = g k @ concat (map g ks)" by simp
  ultimately show ?case
    by (simp only: for_each.simps bind_def b prod.case sum.case append_assoc)
qed

lemma write_point_appends:
  assumes "files s f = Some old"
  shows "write_point f tri j s =
     (Inr (), s\<lparr>files := (files s)(f \<mapsto> old @ mesh_vertex (elem3 tri j))\<rparr>)"
  using assms
  by (simp add: write_point_def WriteBigFloat_eq bind_SafeWrite SafeWrite_Some mesh_vertex_def)

lemma upto_3: "[0..3 - 1] = [0, 1, 2 :: int]"
  by (simp add: upto.simps)

lemma triangle_appends:
  assumes "files s f = Some old"
  shows "for_loop 3 (\<lambda>j _. write_point f tri (nat j)) () s =
     (Inr (), s\<lparr>files := (files s)(f \<mapsto> old @ mesh_triangle tri)\<rparr>)"
  unfolding for_loop_def upto_3
  using assms by (simp add: bind_def write_point_appends mesh_triangle_def ret_def)

lemma map_nth_upto: "map (\<lambda>i. xs ! nat i) [0..int (length xs) - 1] = xs"
proof (induction xs rule: rev_induct)
  case Nil
  then show ?case by simp
next
  case (snoc x xs)
  have "[0..int (length (xs @ [x])) - 1] = [0..int (length xs) - 1] @ [int (length xs)]"
    using upto_rec2 [of 0 "int (length xs)"] by simp
  moreover have "map (\<lambda>i. (xs @ [x]) ! nat i) [0..int (length xs) - 1] =
      map (\<lambda>i. xs ! nat i) [0..int (length xs) - 1]"
    by (rule map_cong) (auto simp: nth_append)
  ultimately show ?case using snoc by simp
qed

lemma WriteTriFile_layout:
  assumes len: "int (length triangles) = num_triangles"
  shows "WriteTriFile filename triangles num_triangles s =
     (Inr (), s\<lparr>files := (files s)(filename \<mapsto> mesh_layout triangles num_triangles)\<rparr>)"
proof -
  define body where "body = (\<lambda>(i :: int) (_ :: unit).
             if nat i < length triangles
             then for_loop 3 (\<lambda>j _. write_point filename (triangles ! nat i) (nat j)) ()
             else Error UndefinedBehaviour)"
  have loop: "for_loop num_triangles body () s1 =
      (Inr (), s1\<lparr>files := (files s1)(filename \<mapsto> old @ concat (map mesh_triangle triangles))\<rparr>)"
    if "files s1 filename = Some old" for s1 old
  proof -
    have "for_each [0..num_triangles - 1] body () s1 =
      (Inr (), s1\<lparr>files := (files s1)(filename \<mapsto>
         old @ concat (map (\<lambda>i. mesh_triangle (triangles ! nat i)) [0..num_triangles - 1]))\<rparr>)"
    proof (rule for_each_appends [OF _ that])
      fix k and s2 :: world and old2
      assume "k \<in> set [0..num_triangles - 1]" and "files s2 filename = Some old2"
      then show "body k () s2 =
        (Inr (), s2\<lparr>files := (files s2)(filename \<mapsto> old2 @ mesh_triangle (triangles ! nat k))\<rparr>)"
        using len by (auto simp: body_def triangle_appends)
    qed
    moreover have "map (\<lambda>i. mesh_triangle (triangles ! nat i)) [0..num_triangles - 1] =
        map mesh_triangle triangles"
      using map_nth_upto [of triangles] len
      by (metis (no_types, lifting) map_map o_def map_eq_conv)
    ultimately show ?thesis by (simp add: for_loop_def)
  qed
  show ?thesis
    unfolding WriteTriFile_def body_def [symmetric]
    by (simp add: bind_def [of "SafeOpenWrite filename"] SafeOpenWrite_def bind_SafeWrite
        WriteBigFloat_eq WriteBigLongToBuffer_empty bind_def [of "for_loop num_triangles body ()"]
        loop SafeWrite_Some mesh_layout_def)
qed

lemma big_bits_big_endian: "big_bits (big_endian w @ rest) = w"
  unfolding big_bits_def big_endian_def
proof (rule bit_word_eqI)
  fix n
  assume "n < LENGTH(32)"
  then have n: "n < 32" by simp
  consider "n < 8" | "8 \<le> n" "n < 16" | "16 \<le> n" "n < 24" | "24 \<le> n"
    by linarith
  then show "bit (ucast (([ucast (drop_bit 24 w), ucast (drop_bit 16 w), ucast (drop_bit 8 w), ucast w] @ rest) ! 3)
           OR push_bit 8 (ucast (([ucast (drop_bit 24 w), ucast (drop_bit 16 w), ucast (drop_bit 8 w), ucast w] @ rest) ! 2))
           OR push_bit 16 (ucast (([ucast (drop_bit 24 w), ucast (drop_bit 16 w), ucast (drop_bit 8 w), ucast w] @ rest) ! 1))
           OR push_bit 24 (ucast (([ucast (drop_bit 24 w), ucast (drop_bit 16 w), ucast (drop_bit 8 w), ucast w] @ rest) ! 0)) :: 32 word) n
        = bit w n"
    using n by cases (auto simp: bit_simps)
qed

text \<open>
  Claim C4.  For a triangle list of length \<open>count\<close>, \<open>WriteTriFile\<close> returns and leaves in
  the named file exactly \<open>mesh_layout triangles count\<close> (whatever the file held
  before): the magic, the start sentinel, the object name with its NUL, the count, the
  texture name with its NUL, three eleven-float records per triangle, the end sentinel
  and the object name again.  The file is \<open>61 + 132 * count\<close> bytes long, and read back
  with \<open>ReadBigLong\<close>'s byte order its first field is the magic and the field at offset
  24 is the count.
\<close>

theorem mesh_file_layout:
  assumes "int (length triangles) = count"
  shows "WriteTriFile filename triangles count s =
       (Inr (), s\<lparr>files := (files s)(filename \<mapsto> mesh_layout triangles count)\<rparr>)
     \<and> length (mesh_layout triangles count) = 61 + 132 * length triangles
     \<and> big_bits (take 4 (mesh_layout triangles count)) = word_of_int IDTRIHEADER
     \<and> big_bits (take 4 (drop 24 (mesh_layout triangles count))) = word_of_int count"
proof -
  have rec_len: "length (mesh_triangle t) = 132" for t
    by (simp add: mesh_triangle_def mesh_vertex_def big_endian_def)
  have "length (concat (map mesh_triangle triangles)) = 132 * length triangles"
    by (induction triangles) (simp_all add: rec_len)
  then have len: "length (mesh_layout triangles count) = 61 + 132 * length triangles"
    by (simp add: mesh_layout_def big_endian_def obj_name_def tex_name_def ascii_def)
  note rt = big_bits_big_endian
  have magic: "big_bits (take 4 (mesh_layout triangles count)) = word_of_int IDTRIHEADER"
    using rt [of "word_of_int IDTRIHEADER" "[]"]
    by (simp add: mesh_layout_def big_endian_def)
  have "drop 24 (mesh_layout triangles count) =
      big_endian (word_of_int count) @ tex_name @ concat (map mesh_triangle triangles)
        @ big_endian FLOAT_END @ obj_name"
    by (simp add: mesh_layout_def big_endian_def obj_name_def ascii_def)
  then have cnt: "big_bits (take 4 (drop 24 (mesh_layout triangles count))) = word_of_int count"
    using rt [of "word_of_int count" "[]"] by (simp add: big_endian_def)
  show ?thesis
    using WriteTriFile_layout [OF assms] len magic cnt by simp
qed

theorem mesh_file_layout_witness:
  "files (snd (WriteTriFile (FrameTri 7)
       [((0x3FC00000, 0xC0000000, 0x40500000), (0x00000000, 0x40800000, 0x40A00000), (0x40C00000, 0x40E00000, 0x41000000))] 1 (start [])))
     (FrameTri 7) =
     Some [
        0, 1, 225, 186, 71, 195, 79, 128, 101, 120, 112, 111, 114, 116, 101, 100, 95, 111, 98, 106,
        101, 99, 116, 0, 0, 0, 0, 1, 100, 101, 102, 97, 117, 108, 116, 95, 115, 107, 105, 110,
        0, 0, 0, 0, 0, 0, 0, 0, 0, 0, 0, 0, 0, 63, 192, 0, 0, 192, 0, 0,
        0, 64, 80, 0, 0, 0, 0, 0, 0, 0, 0, 0, 0, 0, 0, 0, 0, 0, 0, 0,
        0, 0, 0, 0, 0, 0, 0, 0, 0, 0, 0, 0, 0, 0, 0, 0, 0, 0, 0, 0,
        0, 64, 128, 0, 0, 64, 160, 0, 0, 0, 0, 0, 0, 0, 0, 0, 0, 0, 0, 0,
        0, 0, 0, 0, 0, 0, 0, 0, 0, 0, 0, 0, 0, 0, 0, 0, 0, 0, 0, 0,
        0, 64, 192, 0, 0, 64, 224, 0, 0, 65, 0, 0, 0, 0, 0, 0, 0, 0, 0, 0,
        0, 0, 0, 0, 0, 0, 0, 0, 0, 0, 0, 0, 0, 199, 195, 79, 128, 101, 120, 112,
        111, 114, 116, 101, 100, 95, 111, 98, 106, 101, 99, 116, 0]"
  using mesh_file_layout [of "[((0x3FC00000, 0xC0000000, 0x40500000), (0x00000000, 0x40800000, 0x40A00000), (0x40C00000, 0x40E00000, 0x41000000))]" 1 "FrameTri 7" "start []"]
  by (simp add: mesh_layout_def mesh_triangle_def mesh_vertex_def big_endian_def obj_name_def
      tex_name_def ascii_def IDTRIHEADER_def FLOAT_START_def FLOAT_END_def float_zero_def)

subsection \<open>The raster file\<close>

lemma store_end: "off = length buffer \<Longrightarrow> store buffer off x = buffer @ [x]"
  by (simp add: store_def)

lemma store_gap:
  "length buffer \<le> off \<Longrightarrow> store buffer off x = buffer @ replicate (off - length buffer) 0 @ [x]"
  by (simp add: store_def)

lemma store_in: "off < length buffer \<Longrightarrow> store buffer off x = buffer[off := x]"
  by (simp add: store_def)

lemma memcpy_0 [simp]: "memcpy buffer off src 0 = buffer"
  by (simp add: memcpy_def)

lemma memcpy_Suc:
  "memcpy buffer off src (Suc n) = store (memcpy buffer off src n) (off + n) (src ! n)"
  by (simp add: memcpy_def)

lemma memcpy_gap:
  assumes "length buffer \<le> off" "n \<le> length src" "0 < n"
  shows "memcpy buffer off src n = buffer @ replicate (off - length buffer) 0 @ take n src"
  using assms
proof (induction n)
  case 0
  then show ?case by simp
next
  case (Suc n)
  show ?case
  proof (cases "n = 0")
    case True
    moreover from Suc.prems obtain x xs where "src = x # xs" by (cases src) auto
    ultimately show ?thesis using Suc.prems
      by (simp add: memcpy_Suc store_gap)
  next
    case False
    with Suc have "memcpy buffer off src n = buffer @ replicate (off - length buffer) 0 @ take n src"
      by simp
    with Suc.prems show ?thesis
      by (simp add: memcpy_Suc store_end take_Suc_conv_app_nth)
  qed
qed

lemma memcpy_end:
  assumes "off = length buffer" "n \<le> length src"
  shows "memcpy buffer off src n = buffer @ take n src"
proof (cases "n = 0")
  case True
  then show ?thesis by simp
next
  case False
  with memcpy_gap [of buffer off n src] assms show ?thesis by simp
qed

lemma ucast_mask_byte16: "(ucast (w AND 0xFF :: 16 word) :: byte) = ucast w"
proof -
  have m: "(0xFF :: 16 word) = mask 8" by (simp add: mask_eq_exp_minus_1)
  show ?thesis unfolding m by (rule bit_word_eqI) (auto simp: bit_simps)
qed

lemma WriteBigShortToBuffer_gap:
  "length buffer \<le> off \<Longrightarrow>
     WriteBigShortToBuffer buffer off w = buffer @ replicate (off - length buffer) 0 @ big_endian16 w"
  by (simp add: WriteBigShortToBuffer_def Let_def store_gap store_end big_endian16_def ucast_mask_byte16)

lemma WriteBigLongToBuffer_gap:
  "length buffer \<le> off \<Longrightarrow>
     WriteBigLongToBuffer buffer off w = buffer @ replicate (off - length buffer) 0 @ big_endian w"
  by (simp add: WriteBigLongToBuffer_def Let_def store_gap store_end big_endian_def ucast_mask_byte)

lemma WriteBigLongToBuffer_patch:
  assumes "length pre = off" "length gap = 4"
  shows "WriteBigLongToBuffer (pre @ gap @ post) off w = pre @ big_endian w @ post"
proof -
  obtain a b c d where g: "gap = [a, b, c, d]"
    using assms(2) by (auto simp: length_Suc_conv numeral_eq_Suc)
  show ?thesis
    using assms(1)
    by (simp add: WriteBigLongToBuffer_def Let_def store_in g big_endian_def ucast_mask_byte
        list_update_append)
qed


lemma odd_word_of_nat: "(word_of_nat n :: 32 word) AND 1 \<noteq> 0 \<longleftrightarrow> odd n"
  by (simp add: and_one_eq word_of_nat_eq_0_iff mod_2_eq_odd)

lemma list_update_Cons_numeral:
  "(x # xs)[numeral k := y] = x # xs[numeral k - 1 := y]"
  by (simp add: numeral_eq_Suc)

lemma length_big_endian16 [simp]: "length (big_endian16 w) = 2"
  by (simp add: big_endian16_def)

lemma length_big_endian [simp]: "length (big_endian w) = 4"
  by (simp add: big_endian_def)

lemma length_ascii [simp]: "length (ascii xs) = length xs"
  by (simp add: ascii_def)

lemma WriteBigLongToBuffer_at:
  assumes "off + 4 \<le> length buffer"
  shows "WriteBigLongToBuffer buffer off w = take off buffer @ big_endian w @ drop (off + 4) buffer"
proof -
  have "buffer = take off buffer @ take 4 (drop off buffer) @ drop (off + 4) buffer"
    by (metis append_take_drop_id drop_drop add.commute)
  moreover have "length (take off buffer) = off" "length (take 4 (drop off buffer)) = 4"
    using assms by simp_all
  ultimately show ?thesis
    using WriteBigLongToBuffer_patch [of "take off buffer" off "take 4 (drop off buffer)"
        "drop (off + 4) buffer" w]
    by simp
qed

lemma lbm_image_layout:
  assumes pal: "length palette = 768" and pix: "npix \<le> length data"
  shows "lbm_image data width height npix palette =
     (raster_layout (take npix data) width height palette, 824 + npix + npix mod 2)"
proof (cases "npix = 0")
  case True
  show ?thesis
    unfolding lbm_image_def
    using True pal
    apply (simp add: Let_def memcpy_gap memcpy_end WriteBigShortToBuffer_gap
        WriteBigLongToBuffer_gap WriteBigLongToBuffer_at store_gap sizeof_bmhd_t_def
        odd_word_of_nat cong: let_weak_cong)
    apply (simp add: raster_layout_def bitmap_header_def)
    done
next
  case False
  show ?thesis
    unfolding lbm_image_def
    using False pal pix
    apply (simp add: Let_def memcpy_gap memcpy_end WriteBigShortToBuffer_gap
        WriteBigLongToBuffer_gap WriteBigLongToBuffer_at store_gap sizeof_bmhd_t_def
        odd_word_of_nat cong: let_weak_cong)
    apply (auto simp add: raster_layout_def bitmap_header_def odd_iff_mod_2_eq_one)
    done
qed

lemma length_bitmap_header [simp]: "length (bitmap_header w h) = 20"
  by (simp add: bitmap_header_def)

lemma length_raster_layout:
  "length palette = 768 \<Longrightarrow>
     length (raster_layout pixels w h palette) = 824 + length pixels + length pixels mod 2"
  by (simp add: raster_layout_def)

lemma length_loaded_palette: "length loaded_palette = 768"
  by (simp add: loaded_palette_def)

lemma pad_big: "262142 < n \<Longrightarrow> 262967 < 824 + n + n mod 2" for n :: nat
  by presburger

lemma pad_small: "n \<le> 262142 \<Longrightarrow> 824 + n + n mod 2 \<le> 262967" for n :: nat
  by presburger

lemma WriteLBMfile_eq:
  assumes pal: "length palette = 768"
  shows "WriteLBMfile filename data width height palette s =
    (if width * height < 0 \<or> int (length data) < width * height \<or> 262142 < width * height
     then (Inl UndefinedBehaviour, s)
     else (Inr (), s\<lparr>files := (files s)(filename \<mapsto>
             raster_layout (take (nat (width * height)) data) width height palette)\<rparr>))"
proof (cases "width * height < 0 \<or> int (length data) < width * height \<or> 262142 < width * height")
  case True
  then consider "width * height < 0 \<or> int (length data) < width * height \<or> INT_MAX < width * height"
    | "0 \<le> width * height" "width * height \<le> int (length data)" "width * height \<le> INT_MAX"
      "262142 < width * height"
    by linarith
  then show ?thesis
  proof cases
    case 1
    then show ?thesis
      using True
      by (auto simp: WriteLBMfile_def malloc_def PTRDIFF_MAX_def LBM_BUFFER_SIZE_def
          sizeof_bmhd_t_def bind_def ret_def Error_def INT_MIN_def INT_MAX_def)
  next
    case 2
    then have n: "nat (width * height) \<le> length data" by linarith
    have "262142 < nat (width * height)" using 2 by linarith
    then have "262967 < 824 + nat (width * height) + nat (width * height) mod 2"
      by (rule pad_big)
    then show ?thesis
      using True 2
      by (simp add: WriteLBMfile_def malloc_def PTRDIFF_MAX_def LBM_BUFFER_SIZE_def
          sizeof_bmhd_t_def bind_def ret_def Error_def INT_MIN_def INT_MAX_def
          lbm_image_layout [OF pal n])
  qed
next
  case False
  then have n: "nat (width * height) \<le> length data" by linarith
  have "nat (width * height) \<le> 262142" using False by linarith
  then have fit: "824 + nat (width * height) + nat (width * height) mod 2 \<le> 262967"
    by (rule pad_small)
  have whole: "take (824 + nat (width * height) + nat (width * height) mod 2)
      (raster_layout (take (nat (width * height)) data) width height palette) =
      raster_layout (take (nat (width * height)) data) width height palette"
    using n by (simp add: length_raster_layout [OF pal])
  show ?thesis
    using False fit pal
    by (simp add: WriteLBMfile_def malloc_def PTRDIFF_MAX_def LBM_BUFFER_SIZE_def
        sizeof_bmhd_t_def bind_def ret_def Error_def INT_MIN_def INT_MAX_def
        lbm_image_layout [OF pal n] whole SaveFile_def SafeOpenWrite_def SafeWrite_def)
qed

lemma big_bits_big_endian_only: "big_bits (big_endian w) = w"
  using big_bits_big_endian [of w "[]"] by simp

lemma unat_length32: "n < 4294967296 \<Longrightarrow> unat (word_of_nat n :: 32 word) = n"
  by (simp add: unsigned_of_nat take_bit_nat_eq_self)

lemma raster_form:
  assumes pal: "length palette = 768" and n: "length pixels \<le> 262142"
  shows "chunk_tag (raster_layout pixels w h palette) 0 = ascii ''FORM''"
    and "chunk_length (raster_layout pixels w h palette) 0
           = 816 + length pixels + length pixels mod 2"
    and "take 4 (drop 8 (raster_layout pixels w h palette)) = ascii ''PBM ''"
proof -
  show "chunk_tag (raster_layout pixels w h palette) 0 = ascii ''FORM''"
    by (simp add: raster_layout_def chunk_tag_def)
  show "take 4 (drop 8 (raster_layout pixels w h palette)) = ascii ''PBM ''"
    by (simp add: raster_layout_def)
  have "chunk_length (raster_layout pixels w h palette) 0
      = unat (word_of_nat (816 + length pixels + length pixels mod 2) :: 32 word)"
    by (simp add: raster_layout_def chunk_tag_def chunk_length_def
      big_bits_big_endian_only ac_simps)
  also have "\<dots> = 816 + length pixels + length pixels mod 2"
    using n by (intro unat_length32) linarith
  finally show "chunk_length (raster_layout pixels w h palette) 0
           = 816 + length pixels + length pixels mod 2" .
qed

lemma raster_bmhd:
  shows "chunk_tag (raster_layout pixels w h palette) 12 = ascii ''BMHD''"
    and "chunk_length (raster_layout pixels w h palette) 12 = 20"
    and "chunk_payload (raster_layout pixels w h palette) 12 = bitmap_header w h"
  by (simp_all add: raster_layout_def chunk_tag_def chunk_length_def chunk_payload_def
      big_bits_big_endian_only)

lemma raster_cmap:
  assumes pal: "length palette = 768"
  shows "chunk_tag (raster_layout pixels w h palette) 40 = ascii ''CMAP''"
    and "chunk_length (raster_layout pixels w h palette) 40 = 768"
    and "chunk_payload (raster_layout pixels w h palette) 40 = palette"
  using pal
  by (simp_all add: raster_layout_def chunk_tag_def chunk_length_def chunk_payload_def
      big_bits_big_endian_only)

lemma raster_body:
  assumes pal: "length palette = 768" and n: "length pixels \<le> 262142"
  shows "chunk_tag (raster_layout pixels w h palette) 816 = ascii ''BODY''"
    and "chunk_length (raster_layout pixels w h palette) 816 = length pixels"
    and "chunk_payload (raster_layout pixels w h palette) 816 = pixels"
  using pal n
  by (simp_all add: raster_layout_def chunk_tag_def chunk_length_def chunk_payload_def
      big_bits_big_endian_only unat_length32)

lemma ReadLittleLong_eq:
  "ReadLittleLong s =
    (if 4 \<le> length (unread s)
     then (Inr (long_at (unread s) 0), s\<lparr>unread := drop 4 (unread s), fpos := fpos s + 4\<rparr>)
     else (Inl (FileReadFailure 4 (length (unread s)) (fpos s + length (unread s))),
           s\<lparr>unread := [], fpos := fpos s + length (unread s)\<rparr>))"
  by (auto simp: ReadLittleLong_def bind_def ret_def SafeRead_def Let_def to_size_t_def
      SIZE_MAX1_def long_at_def min_def)

lemma extract_skin_Inr:
  assumes pal: "length palette = 768"
  shows "extract_skin header palette i s = (Inr u, s') \<longleftrightarrow>
     0 \<le> skinwidth header * skinheight header
     \<and> skinwidth header * skinheight header \<le> 262142
     \<and> 4 + nat (skinwidth header * skinheight header) \<le> length (unread s)
     \<and> s' = s\<lparr>unread := drop (4 + nat (skinwidth header * skinheight header)) (unread s),
               fpos := fpos s + (4 + nat (skinwidth header * skinheight header)),
               files := (files s)(SkinLbm i \<mapsto>
                  raster_layout
                    (take (nat (skinwidth header * skinheight header)) (drop 4 (unread s)))
                    (skinwidth header) (skinheight header) palette)\<rparr>"
proof -
  define n where "n = skinwidth header * skinheight header"
  define s1 where "s1 = s\<lparr>unread := drop 4 (unread s), fpos := fpos s + 4\<rparr>"
  consider (short) "length (unread s) < 4"
    | (range) "4 \<le> length (unread s)" "n < INT_MIN \<or> INT_MAX < n"
    | (neg) "4 \<le> length (unread s)" "INT_MIN \<le> n" "n < 0"
    | (ok) "4 \<le> length (unread s)" "0 \<le> n" "n \<le> INT_MAX"
    by linarith
  then show ?thesis
  proof cases
    case short
    then show ?thesis
      by (simp add: extract_skin_def bind_def ReadLittleLong_eq)
  next
    case range
    then show ?thesis
      unfolding n_def [symmetric]
      by (auto simp add: extract_skin_def n_def [symmetric] bind_def ReadLittleLong_eq
          malloc_def Error_def ret_def INT_MIN_def INT_MAX_def PTRDIFF_MAX_def to_size_t_def
          SIZE_MAX1_def)
  next
    case neg
    have "(n + 18446744073709551616) mod 18446744073709551616 = n + 18446744073709551616"
      using neg by (intro mod_pos_pos_trivial) (simp_all add: INT_MIN_def)
    then have "to_size_t n = n + 18446744073709551616"
      by (simp add: to_size_t_def SIZE_MAX1_def)
    then have "PTRDIFF_MAX < to_size_t n"
      using neg by (simp add: INT_MIN_def PTRDIFF_MAX_def)
    then show ?thesis
      unfolding n_def [symmetric]
      using neg
      by (auto simp add: extract_skin_def n_def [symmetric] bind_def ReadLittleLong_eq
          malloc_def Error_def)
  next
    case ok
    have r: "ReadLittleLong s = (Inr (long_at (unread s) 0), s1)"
      using ok by (simp add: ReadLittleLong_eq s1_def)
    have m: "malloc (to_size_t n) s1 = (Inr (), s1)"
      using ok by (simp add: malloc_def ret_def INT_MAX_def PTRDIFF_MAX_def to_size_t_def
          SIZE_MAX1_def)
    have t: "to_size_t n = n"
      using ok by (simp add: INT_MAX_def to_size_t_def SIZE_MAX1_def)
    have lt: "n < SIZE_MAX1" using ok by (simp add: INT_MAX_def SIZE_MAX1_def)
    have rng: "\<not> (n < INT_MIN \<or> INT_MAX < n)" using ok by (simp add: INT_MIN_def)
    have body: "extract_skin header palette i s =
        bind (SafeRead n n) (\<lambda>skin_data.
          WriteLBMfile (SkinLbm i) skin_data (skinwidth header) (skinheight header) palette) s1"
      using rng by (simp add: extract_skin_def n_def [symmetric] bind_def r m [unfolded t] t)
    show ?thesis
    proof (cases "nat n \<le> length (unread s1)")
      case True
      have rd: "SafeRead n n s1 = (Inr (take (nat n) (unread s1)),
          s1\<lparr>unread := drop (nat n) (unread s1), fpos := fpos s1 + nat n\<rparr>)"
        using ok lt True by (intro SafeRead_ok) auto
      have len: "int (length (take (nat n) (unread s1))) = n"
        using True ok by simp
      define s2 where "s2 = s1\<lparr>unread := drop (nat n) (unread s1), fpos := fpos s1 + nat n\<rparr>"
      have e: "extract_skin header palette i s =
          WriteLBMfile (SkinLbm i) (take (nat n) (unread s1)) (skinwidth header)
            (skinheight header) palette s2"
        by (simp add: body bind_def rd s2_def)
      have w: "WriteLBMfile (SkinLbm i) (take (nat n) (unread s1)) (skinwidth header)
            (skinheight header) palette s2 =
          (if 262142 < n then (Inl UndefinedBehaviour, s2)
           else (Inr (), s2\<lparr>files := (files s2)(SkinLbm i \<mapsto>
               raster_layout (take (nat n) (unread s1)) (skinwidth header) (skinheight header)
                 palette)\<rparr>))"
        using ok(2) len by (simp add: WriteLBMfile_eq [OF pal] n_def [symmetric])
      have u: "4 + nat n \<le> length (unread s)" using True ok by (simp add: s1_def)
      show ?thesis
        unfolding n_def [symmetric] e w
        using u by (auto simp add: s2_def s1_def add.commute ok(2))
    next
      case False
      have rd: "fst (SafeRead n n s1) = Inl (FileReadFailure n (length (unread s1))
           (fpos s1 + length (unread s1)))"
        using ok lt False by (subst SafeRead_short) auto
      show ?thesis
        unfolding n_def [symmetric] body
        using False rd
        by (cases "SafeRead n n s1") (auto simp add: bind_def s1_def)
    qed
  qed
qed

text \<open>
  Claim C3, amended.  In every file that \<open>WriteLBMfile\<close> leaves behind the form chunk
  starts the file, its sub-tag is \<open>PBM\<close>, and the chunks \<open>BMHD\<close>, \<open>CMAP\<close> and \<open>BODY\<close>
  follow one another from offset 12 to the end of the file, each as long as its own
  length field says.  The length field of the form chunk is the number of bytes behind
  it: the four bytes of the sub-tag plus the sizes on disk of the three chunks.
\<close>

theorem form_length:
  assumes pal: "length palette = 768"
    and run: "WriteLBMfile filename data width height palette s = (Inr (), s')"
  shows "\<exists>file. files s' filename = Some file
      \<and> chunk_tag file 0 = ascii ''FORM'' \<and> take 4 (drop 8 file) = ascii ''PBM ''
      \<and> chunk_tag file 12 = ascii ''BMHD'' \<and> 12 + chunk_size file 12 = 40
      \<and> chunk_tag file 40 = ascii ''CMAP'' \<and> 40 + chunk_size file 40 = 816
      \<and> chunk_tag file 816 = ascii ''BODY'' \<and> 816 + chunk_size file 816 = length file
      \<and> chunk_length file 0
          = 4 + (chunk_size file 12 + chunk_size file 40 + chunk_size file 816)
      \<and> length file = 8 + chunk_length file 0"
proof -
  define pixels where "pixels = take (nat (width * height)) data"
  define img where "img = raster_layout pixels width height palette"
  from run have guard: "\<not> (width * height < 0 \<or> int (length data) < width * height
      \<or> 262142 < width * height)"
    and s': "s' = s\<lparr>files := (files s)(filename \<mapsto> img)\<rparr>"
    by (auto simp: WriteLBMfile_eq [OF pal] img_def pixels_def split: if_splits)
  from guard have "nat (width * height) \<le> 262142" by linarith
  then have n: "length pixels \<le> 262142" by (simp add: pixels_def)
  note form = raster_form [OF pal n, of width height, folded img_def]
  note bmhd = raster_bmhd [of pixels width height palette, folded img_def]
  note cmap = raster_cmap [OF pal, of pixels width height, folded img_def]
  note body = raster_body [OF pal n, of width height, folded img_def]
  have len: "length img = 824 + length pixels + length pixels mod 2"
    by (simp add: img_def length_raster_layout [OF pal])
  have "files s' filename = Some img" by (simp add: s')
  then show ?thesis
    using form bmhd(1,2) cmap(1,2) body(1,2) len
    by (intro exI [of _ img]) (simp add: chunk_size_def)
qed

lemma skin_pixels_length: "length skin_pixels = 16"
  by (simp add: skin_pixels_def)

theorem form_length_witness:
  "\<exists>file. files (snd (WriteLBMfile (SkinLbm 0) skin_pixels 4 4 loaded_palette (start [])))
        (SkinLbm 0) = Some file
     \<and> chunk_tag file 0 = ascii ''FORM''
     \<and> chunk_length file 0
          = 4 + (chunk_size file 12 + chunk_size file 40 + chunk_size file 816)
     \<and> length file = 8 + chunk_length file 0"
proof -
  have "WriteLBMfile (SkinLbm 0) skin_pixels 4 4 loaded_palette (start []) =
      (Inr (), snd (WriteLBMfile (SkinLbm 0) skin_pixels 4 4 loaded_palette (start [])))"
    by (simp add: WriteLBMfile_eq [OF length_loaded_palette] skin_pixels_length)
  from form_length [OF length_loaded_palette this]
  show ?thesis by blast
qed

text \<open>
  The claim as stated fails.  For the skin of 4 by 4 pixels the length field of the form
  chunk holds 832, and the three chunks take 28, 776 and 24 bytes on disk, 828 together.
\<close>

theorem form_length_counterexample:
  "files (snd (WriteLBMfile (SkinLbm 0) skin_pixels 4 4 loaded_palette (start []))) (SkinLbm 0)
      = Some (raster_layout skin_pixels 4 4 loaded_palette)
   \<and> take 12 (raster_layout skin_pixels 4 4 loaded_palette)
      = [0x46, 0x4F, 0x52, 0x4D, 0x00, 0x00, 0x03, 0x40, 0x50, 0x42, 0x4D, 0x20]
   \<and> chunk_length (raster_layout skin_pixels 4 4 loaded_palette) 0 = 832
   \<and> chunk_size (raster_layout skin_pixels 4 4 loaded_palette) 12 = 28
   \<and> chunk_size (raster_layout skin_pixels 4 4 loaded_palette) 40 = 776
   \<and> chunk_size (raster_layout skin_pixels 4 4 loaded_palette) 816 = 24"
proof -
  have n: "length skin_pixels \<le> 262142" by (simp add: skin_pixels_length)
  note pal = length_loaded_palette
  have "take 12 (raster_layout skin_pixels 4 4 loaded_palette)
      = [0x46, 0x4F, 0x52, 0x4D, 0x00, 0x00, 0x03, 0x40, 0x50, 0x42, 0x4D, 0x20]"
    by (simp add: raster_layout_def ascii_def big_endian_def skin_pixels_length)
  then show ?thesis
    using raster_form(2) [OF pal n, of 4 4] raster_bmhd(2) [of skin_pixels 4 4 loaded_palette]
      raster_cmap(2) [OF pal, of skin_pixels 4 4] raster_body(2) [OF pal n, of 4 4]
    by (simp add: WriteLBMfile_eq [OF pal] skin_pixels_length chunk_size_def start_def)
qed

text \<open>
  Claim C5.  Whenever a pass of the skin loop returns, the file it leaves for skin \<open>i\<close>
  has the chunk \<open>CMAP\<close> at offset 40 and the chunk \<open>BODY\<close> at offset 816; the payload of
  \<open>CMAP\<close> is the palette that was handed in, byte for byte, and the payload of \<open>BODY\<close> is
  the \<open>skinwidth * skinheight\<close> bytes that follow the four-byte discriminator in the
  input, in the order of the input.
\<close>

theorem skin_chunks:
  assumes pal: "length palette = 768"
    and run: "extract_skin header palette i s = (Inr (), s')"
  shows "\<exists>file. files s' (SkinLbm i) = Some file
      \<and> chunk_tag file 40 = ascii ''CMAP'' \<and> chunk_length file 40 = 768
      \<and> chunk_payload file 40 = palette
      \<and> chunk_tag file 816 = ascii ''BODY''
      \<and> int (chunk_length file 816) = skinwidth header * skinheight header
      \<and> chunk_payload file 816
           = take (nat (skinwidth header * skinheight header)) (drop 4 (unread s))
      \<and> int (length (chunk_payload file 816)) = skinwidth header * skinheight header"
proof -
  define n where "n = skinwidth header * skinheight header"
  define pixels where "pixels = take (nat n) (drop 4 (unread s))"
  define img where "img = raster_layout pixels (skinwidth header) (skinheight header) palette"
  from run have n0: "0 \<le> n" and n1: "n \<le> 262142" and fit: "4 + nat n \<le> length (unread s)"
    and "files s' (SkinLbm i) = Some img"
    by (simp_all add: extract_skin_Inr [OF pal] n_def pixels_def img_def)
  moreover from fit have len: "length pixels = nat n" by (simp add: pixels_def)
  moreover from len n1 have n: "length pixels \<le> 262142" by linarith
  moreover note raster_cmap [OF pal, of pixels "skinwidth header" "skinheight header",
      folded img_def]
    raster_body [OF pal n, of "skinwidth header" "skinheight header", folded img_def]
  ultimately show ?thesis
    unfolding n_def [symmetric] pixels_def [symmetric]
    by (intro exI [of _ img]) simp
qed

theorem skin_chunks_witness:
  "\<exists>file. files (snd (extract_skin skin_header loaded_palette 0 (start skin_entry))) (SkinLbm 0)
        = Some file
     \<and> chunk_payload file 40 = loaded_palette
     \<and> chunk_payload file 816 = replicate 16 7"
proof -
  have "extract_skin skin_header loaded_palette 0 (start skin_entry) =
      (Inr (), \<lparr>unread = [], fpos = 20,
         files = [SkinLbm 0 \<mapsto> raster_layout skin_pixels 4 4 loaded_palette]\<rparr>)"
    by (simp add: extract_skin_Inr [OF length_loaded_palette] skin_header_def skin_entry_def
        skin_pixels_def start_def)
  from skin_chunks [OF length_loaded_palette this] this
  show ?thesis
    by (auto simp: skin_header_def skin_entry_def skin_pixels_def start_def)
qed

subsection \<open>Vertex reconstruction\<close>

lemma reconstruct_corner_Inr:
  assumes "reconstruct_corner fa header frame_verts_raw tri c s = (Inr p, s1)"
  shows "s1 = s \<and> 0 \<le> elem3 (vertindex tri) c
     \<and> 4 * nat (elem3 (vertindex tri) c) + 4 \<le> length frame_verts_raw
     \<and> p = unpack_vertex fa header (trivertx_at frame_verts_raw (nat (elem3 (vertindex tri) c)))"
  using assms
  by (auto simp: reconstruct_corner_def Let_def Error_def ret_def split: if_splits)

lemma elem3_unpack_vertex:
  assumes "k < 3"
  shows "elem3 (unpack_vertex fa header (trivertx_at raw j)) k =
     fadd fa (fmul fa (of_byte fa (raw ! (4 * j + k))) (elem3 (scale header) k))
       (elem3 (scale_origin header) k)"
proof -
  from assms have "k = 0 \<or> k = 1 \<or> k = 2" by linarith
  then show ?thesis
    by (elim disjE) (simp_all add: unpack_vertex_def trivertx_at_def)
qed

lemma reconstruct_loop:
  assumes "for_each ks (\<lambda>t current_frame_triangles.
        if length triangles_indices \<le> nat t then Error UndefinedBehaviour
        else
        bind (reconstruct_corner fa header frame_verts_raw (triangles_indices ! nat t) 0) (\<lambda>c0.
        bind (reconstruct_corner fa header frame_verts_raw (triangles_indices ! nat t) 1) (\<lambda>c1.
        bind (reconstruct_corner fa header frame_verts_raw (triangles_indices ! nat t) 2) (\<lambda>c2.
        ret (current_frame_triangles @ [(c0, c1, c2)]))))) acc s = (Inr out, s')"
  shows "s' = s \<and> (\<exists>new. out = acc @ new \<and> length new = length ks
     \<and> (\<forall>j<length ks. nat (ks ! j) < length triangles_indices
          \<and> (\<forall>c<3. 0 \<le> elem3 (vertindex (triangles_indices ! nat (ks ! j))) c
               \<and> 4 * nat (elem3 (vertindex (triangles_indices ! nat (ks ! j))) c) + 4
                    \<le> length frame_verts_raw
               \<and> elem3 (new ! j) c = unpack_vertex fa header (trivertx_at frame_verts_raw
                    (nat (elem3 (vertindex (triangles_indices ! nat (ks ! j))) c))))))"
  using assms
proof (induction ks arbitrary: acc s)
  case Nil
  then show ?case by (simp add: ret_def)
next
  case (Cons t ks)
  let ?tri = "triangles_indices ! nat t"
  from Cons.prems have inside: "nat t < length triangles_indices"
    by (auto simp: bind_def Error_def split: if_splits)
  with Cons.prems obtain c0 c1 c2 s0 s1 s2 where
    r0: "reconstruct_corner fa header frame_verts_raw ?tri 0 s = (Inr c0, s0)" and
    r1: "reconstruct_corner fa header frame_verts_raw ?tri 1 s0 = (Inr c1, s1)" and
    r2: "reconstruct_corner fa header frame_verts_raw ?tri 2 s1 = (Inr c2, s2)" and
    rest: "for_each ks (\<lambda>t current_frame_triangles.
        if length triangles_indices \<le> nat t then Error UndefinedBehaviour
        else
        bind (reconstruct_corner fa header frame_verts_raw (triangles_indices ! nat t) 0) (\<lambda>c0.
        bind (reconstruct_corner fa header frame_verts_raw (triangles_indices ! nat t) 1) (\<lambda>c1.
        bind (reconstruct_corner fa header frame_verts_raw (triangles_indices ! nat t) 2) (\<lambda>c2.
        ret (current_frame_triangles @ [(c0, c1, c2)]))))) (acc @ [(c0, c1, c2)]) s2
          = (Inr out, s')"
    by (auto simp: bind_Inr ret_def)
  note k0 = reconstruct_corner_Inr [OF r0] and k1 = reconstruct_corner_Inr [OF r1]
    and k2 = reconstruct_corner_Inr [OF r2]
  from Cons.IH [OF rest] obtain new where s': "s' = s2"
    and out: "out = (acc @ [(c0, c1, c2)]) @ new" and len: "length new = length ks"
    and IH: "\<forall>j<length ks. nat (ks ! j) < length triangles_indices
          \<and> (\<forall>c<3. 0 \<le> elem3 (vertindex (triangles_indices ! nat (ks ! j))) c
               \<and> 4 * nat (elem3 (vertindex (triangles_indices ! nat (ks ! j))) c) + 4
                    \<le> length frame_verts_raw
               \<and> elem3 (new ! j) c = unpack_vertex fa header (trivertx_at frame_verts_raw
                    (nat (elem3 (vertindex (triangles_indices ! nat (ks ! j))) c))))"
    by blast
  have first: "\<forall>c<3. 0 \<le> elem3 (vertindex ?tri) c
       \<and> 4 * nat (elem3 (vertindex ?tri) c) + 4 \<le> length frame_verts_raw
       \<and> elem3 (c0, c1, c2) c = unpack_vertex fa header (trivertx_at frame_verts_raw
            (nat (elem3 (vertindex ?tri) c)))"
  proof (intro allI impI)
    fix c :: nat assume "c < 3"
    then have "c = 0 \<or> c = 1 \<or> c = 2" by linarith
    then show "0 \<le> elem3 (vertindex ?tri) c
       \<and> 4 * nat (elem3 (vertindex ?tri) c) + 4 \<le> length frame_verts_raw
       \<and> elem3 (c0, c1, c2) c = unpack_vertex fa header (trivertx_at frame_verts_raw
            (nat (elem3 (vertindex ?tri) c)))"
      using k0 k1 k2 by (elim disjE) simp_all
  qed
  show ?case
  proof (intro conjI exI [of _ "(c0, c1, c2) # new"] allI impI)
    show "s' = s" using s' k0 k1 k2 by simp
    show "out = acc @ (c0, c1, c2) # new" using out by simp
    show "length ((c0, c1, c2) # new) = length (t # ks)" using len by simp
  next
    fix j assume "j < length (t # ks)"
    then show "nat ((t # ks) ! j) < length triangles_indices"
      using inside IH by (cases j) auto
  next
    fix j c :: nat assume j: "j < length (t # ks)" and c: "c < 3"
    show "0 \<le> elem3 (vertindex (triangles_indices ! nat ((t # ks) ! j))) c"
      using j c first IH by (cases j) auto
    show "4 * nat (elem3 (vertindex (triangles_indices ! nat ((t # ks) ! j))) c) + 4
        \<le> length frame_verts_raw"
      using j c first IH by (cases j) auto
    show "elem3 (((c0, c1, c2) # new) ! j) c = unpack_vertex fa header (trivertx_at frame_verts_raw
        (nat (elem3 (vertindex (triangles_indices ! nat ((t # ks) ! j))) c)))"
      using j c first IH by (cases j) auto
  qed
qed

text \<open>
  Claim C1.  Whenever the reconstruction of a frame returns, it has produced one triangle
  for each of the \<open>numtris\<close> entries of the index table, and for triangle \<open>t\<close>, corner
  \<open>c\<close> and axis \<open>k\<close> the index \<open>vertindex[c]\<close> of entry \<open>t\<close> lies inside the frame's
  vertex block and the coordinate is
  \<open>frame_verts_raw[index].v[k] * scale[k] + scale_origin[k]\<close>, the byte at offset
  \<open>4 * index + k\<close> of the block converted to \<open>float\<close>, multiplied and added in \<open>float\<close>:
  the very value, for any behaviour of the three floating-point operations.
\<close>

theorem vertex_reconstruction:
  assumes run: "reconstruct fa header frame_verts_raw triangles_indices s = (Inr out, s')"
  shows "length out = nat (numtris header)
     \<and> (\<forall>t c k. t < nat (numtris header) \<longrightarrow> c < 3 \<longrightarrow> k < 3 \<longrightarrow>
          t < length triangles_indices
          \<and> 0 \<le> elem3 (vertindex (triangles_indices ! t)) c
          \<and> 4 * nat (elem3 (vertindex (triangles_indices ! t)) c) + k < length frame_verts_raw
          \<and> elem3 (elem3 (out ! t) c) k =
              fadd fa
                (fmul fa
                  (of_byte fa
                    (frame_verts_raw ! (4 * nat (elem3 (vertindex (triangles_indices ! t)) c) + k)))
                  (elem3 (scale header) k))
                (elem3 (scale_origin header) k))"
proof -
  let ?ks = "[0..numtris header - 1]"
  have len: "length ?ks = nat (numtris header)" by simp
  have nth: "nat (?ks ! t) = t" if "t < nat (numtris header)" for t
    using that by (subst nth_upto) auto
  from reconstruct_loop [OF run [unfolded reconstruct_def for_loop_def]]
  obtain new where out: "out = new" and n: "length new = length ?ks"
    and each: "\<forall>j<length ?ks. nat (?ks ! j) < length triangles_indices
          \<and> (\<forall>c<3. 0 \<le> elem3 (vertindex (triangles_indices ! nat (?ks ! j))) c
               \<and> 4 * nat (elem3 (vertindex (triangles_indices ! nat (?ks ! j))) c) + 4
                    \<le> length frame_verts_raw
               \<and> elem3 (new ! j) c = unpack_vertex fa header (trivertx_at frame_verts_raw
                    (nat (elem3 (vertindex (triangles_indices ! nat (?ks ! j))) c))))"
    by auto
  show ?thesis
  proof (intro conjI allI impI)
    show "length out = nat (numtris header)" using out n len by simp
  next
    fix t c k :: nat
    assume t: "t < nat (numtris header)" and c: "c < 3" and k: "k < 3"
    from each t len nth [OF t] c
    have a: "t < length triangles_indices"
      and b: "0 \<le> elem3 (vertindex (triangles_indices ! t)) c"
      and d: "4 * nat (elem3 (vertindex (triangles_indices ! t)) c) + 4 \<le> length frame_verts_raw"
      and e: "elem3 (out ! t) c = unpack_vertex fa header (trivertx_at frame_verts_raw
                    (nat (elem3 (vertindex (triangles_indices ! t)) c)))"
      unfolding out by (metis (no_types, lifting))+
    show "t < length triangles_indices" by (rule a)
    show "0 \<le> elem3 (vertindex (triangles_indices ! t)) c" by (rule b)
    show "4 * nat (elem3 (vertindex (triangles_indices ! t)) c) + k < length frame_verts_raw"
      using d k by linarith
    show "elem3 (elem3 (out ! t) c) k =
        fadd fa
          (fmul fa
            (of_byte fa
              (frame_verts_raw ! (4 * nat (elem3 (vertindex (triangles_indices ! t)) c) + k)))
            (elem3 (scale header) k))
          (elem3 (scale_origin header) k)"
      unfolding e by (rule elem3_unpack_vertex [OF k])
  qed
qed

theorem vertex_reconstruction_witness:
  "\<exists>out. fst (reconstruct ieee_single (overshoot_header\<lparr>numverts := 2\<rparr>)
          [1, 2, 3, 0, 10, 20, 30, 0] [\<lparr>facesfront = 1, vertindex = (1, 0, 1)\<rparr>] (start []))
        = Inr out
     \<and> length out = 1
     \<and> elem3 (elem3 (out ! 0) 0) 2 = 0x42740000
     \<and> elem3 (elem3 (out ! 0) 1) 0 = 0x40400000"
proof -
  obtain out s' where run: "reconstruct ieee_single (overshoot_header\<lparr>numverts := 2\<rparr>)
          [1, 2, 3, 0, 10, 20, 30, 0] [\<lparr>facesfront = 1, vertindex = (1, 0, 1)\<rparr>] (start [])
        = (Inr out, s')"
    by (simp add: reconstruct_def reconstruct_corner_def for_loop_def overshoot_header_def
        bind_def ret_def Error_def Let_def upto.simps)
  note r = vertex_reconstruction [OF run]
  from r have "length out = 1" by (simp add: overshoot_header_def)
  moreover from r [THEN conjunct2, rule_format, of 0 0 2]
  have "elem3 (elem3 (out ! 0) 0) 2 = 0x42740000"
    by (simp add: overshoot_header_def ieee_simps)
  moreover from r [THEN conjunct2, rule_format, of 0 1 0]
  have "elem3 (elem3 (out ! 0) 1) 0 = 0x40400000"
    by (simp add: overshoot_header_def ieee_simps)
  ultimately show ?thesis using run by simp
qed

subsection \<open>Fields that are read and not used\<close>

lemma skins_section_Cons: "skins_section ((d, p) # sk) = d @ p @ skins_section sk"
  by (simp add: skins_section_def)

lemma length_skins_section:
  assumes "\<forall>x\<in>set sk. length (fst x) = 4 \<and> length (snd x) = n"
  shows "length (skins_section sk) = length sk * (4 + n)"
  using assms by (induction sk) (auto simp: skins_section_def)

lemma skins_loop_relational:
  assumes pal: "length palette = 768"
    and run: "for_each ks (\<lambda>i _. extract_skin header palette i) () s = (Inr (), s')"
    and l1: "length sk1 = length ks" and l2: "length sk2 = length ks"
    and same: "map snd sk1 = map snd sk2"
    and e1: "\<forall>x\<in>set sk1. length (fst x) = 4
         \<and> int (length (snd x)) = skinwidth header * skinheight header"
    and e2: "\<forall>x\<in>set sk2. length (fst x) = 4
         \<and> int (length (snd x)) = skinwidth header * skinheight header"
    and u1: "unread s = skins_section sk1 @ tl1"
    and u2: "unread t = skins_section sk2 @ tl2"
    and fp: "fpos t = fpos s" and fl: "files t = files s"
  shows "\<exists>t'. for_each ks (\<lambda>i _. extract_skin header palette i) () t = (Inr (), t')
     \<and> unread s' = tl1 \<and> unread t' = tl2
     \<and> fpos s' = fpos s + length ks * (4 + nat (skinwidth header * skinheight header))
     \<and> fpos t' = fpos s' \<and> files t' = files s'"
  using run l1 l2 same e1 e2 u1 u2 fp fl
proof (induction ks arbitrary: sk1 sk2 s t)
  case Nil
  then show ?case by (simp add: ret_def skins_section_def)
next
  case (Cons k ks)
  define n where "n = skinwidth header * skinheight header"
  from Cons.prems(2) obtain d1 p1 r1 where sk1: "sk1 = (d1, p1) # r1"
    by (cases sk1) auto
  from Cons.prems(3) obtain d2 p2 r2 where sk2: "sk2 = (d2, p2) # r2"
    by (cases sk2) auto
  from Cons.prems(4) have p: "p2 = p1" and rs: "map snd r1 = map snd r2"
    by (simp_all add: sk1 sk2)
  from Cons.prems(5) have d1: "length d1 = 4" and p1: "int (length p1) = n"
    by (simp_all add: sk1 n_def)
  from Cons.prems(6) have d2: "length d2 = 4"
    by (simp add: sk2)
  from p1 have np: "nat n = length p1" by simp
  have us: "unread s = d1 @ p1 @ skins_section r1 @ tl1"
    using Cons.prems(7) by (simp add: sk1 skins_section_Cons)
  have ut: "unread t = d2 @ p1 @ skins_section r2 @ tl2"
    using Cons.prems(8) by (simp add: sk2 p skins_section_Cons)
  from Cons.prems(1) obtain sm where
    first: "extract_skin header palette k s = (Inr (), sm)" and
    rest: "for_each ks (\<lambda>i _. extract_skin header palette i) () sm = (Inr (), s')"
    by (auto simp: bind_Inr)
  from first have b0: "0 \<le> n" and b1: "n \<le> 262142"
    and sm: "sm = s\<lparr>unread := drop (4 + nat n) (unread s), fpos := fpos s + (4 + nat n),
       files := (files s)(SkinLbm k \<mapsto>
          raster_layout (take (nat n) (drop 4 (unread s)))
            (skinwidth header) (skinheight header) palette)\<rparr>"
    unfolding n_def by (simp_all add: extract_skin_Inr [OF pal])
  define tm where "tm = t\<lparr>unread := drop (4 + nat n) (unread t), fpos := fpos t + (4 + nat n),
       files := (files t)(SkinLbm k \<mapsto>
          raster_layout (take (nat n) (drop 4 (unread t)))
            (skinwidth header) (skinheight header) palette)\<rparr>"
  have second: "extract_skin header palette k t = (Inr (), tm)"
    using b0 b1 by (simp add: extract_skin_Inr [OF pal] n_def [symmetric] tm_def ut d2 np)
  have usm: "unread sm = skins_section r1 @ tl1"
    by (simp add: sm us d1 np)
  have utm: "unread tm = skins_section r2 @ tl2"
    by (simp add: tm_def ut d2 np)
  have fpm: "fpos tm = fpos sm"
    by (simp add: sm tm_def Cons.prems(9))
  have flm: "files tm = files sm"
    by (simp add: sm tm_def Cons.prems(10) us ut d1 d2 np)
  from Cons.IH [OF rest _ _ rs _ _ usm utm fpm flm] Cons.prems(2,3,5,6)
  obtain t' where "for_each ks (\<lambda>i _. extract_skin header palette i) () tm = (Inr (), t')"
    and "unread s' = tl1" and "unread t' = tl2"
    and "fpos s' = fpos sm + length ks * (4 + nat n)"
    and "fpos t' = fpos s'" and "files t' = files s'"
    unfolding n_def by (auto simp: sk1 sk2)
  then show ?case
    unfolding n_def [symmetric]
    by (intro exI [of _ t']) (simp add: bind_def second sm)
qed

lemma records_loop:
  assumes body: "\<And>k acc s. n \<le> length (unread s) \<Longrightarrow>
      \<exists>x. body k acc s = (Inr (acc @ [x]), s\<lparr>unread := drop n (unread s), fpos := fpos s + n\<rparr>)"
    and "length st = n * length ks" and "unread s = st @ rest"
  shows "\<exists>out. for_each ks body acc s
      = (Inr out, s\<lparr>unread := rest, fpos := fpos s + n * length ks\<rparr>)"
  using assms(2,3)
proof (induction ks arbitrary: st s acc)
  case Nil
  then show ?case by (simp add: ret_def)
next
  case (Cons k ks)
  define s3 where "s3 = s\<lparr>unread := drop n (unread s), fpos := fpos s + n\<rparr>"
  have len: "n \<le> length (unread s)" using Cons.prems by simp
  from body [OF len, of k acc] obtain x where
    step: "body k acc s = (Inr (acc @ [x]), s3)" unfolding s3_def by blast
  have u3: "unread s3 = drop n st @ rest" using Cons.prems by (simp add: s3_def)
  have l3: "length (drop n st) = n * length ks" using Cons.prems by simp
  from Cons.IH [OF l3 u3, of "acc @ [x]"] obtain out where
    "for_each ks body (acc @ [x]) s3
      = (Inr out, s3\<lparr>unread := rest, fpos := fpos s3 + n * length ks\<rparr>)"
    by blast
  then show ?case
    by (intro exI [of _ out]) (simp add: bind_def step s3_def add.assoc)
qed

lemma read_st_verts_layout:
  assumes fits: "\<not> PTRDIFF_MAX < to_size_t (numverts header * sizeof_stvert_t)"
    and len: "length st = 12 * nat (numverts header)" and u: "unread s = st @ rest"
  shows "\<exists>st_verts. read_st_verts header s
      = (Inr st_verts, s\<lparr>unread := rest, fpos := fpos s + 12 * nat (numverts header)\<rparr>)"
proof -
  have ks: "length [0..numverts header - 1] = nat (numverts header)" by simp
  have "\<exists>x. bind ReadLittleLong (\<lambda>onseam'.
        bind ReadLittleLong (\<lambda>s'.
        bind ReadLittleLong (\<lambda>t'.
        ret (acc @ [\<lparr>onseam = onseam', s_coord = s', t_coord = t'\<rparr>])))) s
      = (Inr (acc @ [x]), s\<lparr>unread := drop 12 (unread s), fpos := fpos s + 12\<rparr>)"
    if "12 \<le> length (unread s)" for acc s
    using that by (auto simp add: bind_def ReadLittleLong_eq ret_def add.commute)
  from records_loop [where body = "\<lambda>i st_verts.
        bind ReadLittleLong (\<lambda>onseam'.
        bind ReadLittleLong (\<lambda>s'.
        bind ReadLittleLong (\<lambda>t'.
        ret (st_verts @ [\<lparr>onseam = onseam', s_coord = s', t_coord = t'\<rparr>]))))"
      and n = 12 and ks = "[0..numverts header - 1]" and st = st and s = s and rest = rest
      and acc = "[]", OF this _ u]
  show ?thesis
    using fits len
    by (simp add: read_st_verts_def for_loop_def malloc_def bind_def ret_def)
qed

lemma read_header_prefix:
  assumes len: "length hdr = 84"
    and run: "read_header (start (hdr @ xs)) = (Inr header, s0)"
  shows "s0 = \<lparr>unread = xs, fpos = 84, files = Map.empty\<rparr>
     \<and> read_header (start (hdr @ ys))
        = (Inr header, \<lparr>unread = ys, fpos = 84, files = Map.empty\<rparr>)"
proof -
  have l8: "8 \<le> length (hdr @ zs)" and l84: "84 \<le> length (hdr @ zs)" for zs
    using len by simp_all
  have la: "long_at (hdr @ zs) k = long_at hdr k" if "k \<le> 80" for k zs
    using that len by (simp add: long_at_def)
  have fa: "float_at (hdr @ zs) k = float_at hdr k" if "k \<le> 80" for k zs
    using that len by (simp add: float_at_def)
  from run read_header_start [OF l8 [of xs]]
  have "long_at (hdr @ xs) 0 = IDPOLYHEADER" and "long_at (hdr @ xs) 4 = ALIAS_VERSION"
    by (auto simp: long_at_def split: if_splits)
  then have magic: "long_at (hdr @ zs) 0 = IDPOLYHEADER"
    and ver: "long_at (hdr @ zs) 4 = ALIAS_VERSION" for zs
    by (simp_all add: la)
  from run show ?thesis
    unfolding read_header_ok [OF l84 magic ver]
    using len by (auto simp: la fa)
qed

text \<open>
  Claim C9.  Take an input on which the program runs to the end: its header, then one
  entry per skin (a four-byte discriminator and \<open>skinwidth * skinheight\<close> pixel bytes),
  then \<open>numverts\<close> texture-coordinate records of twelve bytes, then the rest.  Replace the
  discriminators and the texture-coordinate records by any bytes of the same lengths.
  The program runs to the end on the second input too, with the same header and frame
  counter and in the very same world: the same output files with the same bytes, the same
  cursor.  In both runs the skin loop moves the cursor from 84 by
  \<open>4 + skinwidth * skinheight\<close> for each skin, leaving the same files, and the
  texture-coordinate loop moves it on by \<open>12 * numverts\<close>, after which the two runs are
  in one and the same state.
\<close>

theorem discriminators_and_st_verts_unobserved:
  assumes hdr: "length hdr = 84"
    and run: "main_body fa (start (hdr @ skins_section sk1 @ st1 @ rest)) = (Inr (header, i), s')"
    and n1: "length sk1 = nat (numskins header)"
    and n2: "length sk2 = nat (numskins header)"
    and same: "map snd sk1 = map snd sk2"
    and e1: "\<forall>x\<in>set sk1. length (fst x) = 4
         \<and> int (length (snd x)) = skinwidth header * skinheight header"
    and e2: "\<forall>x\<in>set sk2. length (fst x) = 4
         \<and> int (length (snd x)) = skinwidth header * skinheight header"
    and t1: "length st1 = 12 * nat (numverts header)"
    and t2: "length st2 = 12 * nat (numverts header)"
  shows "main_body fa (start (hdr @ skins_section sk2 @ st2 @ rest)) = (Inr (header, i), s')
     \<and> (\<exists>a1 a2 v1 v2 b.
          bind read_header (\<lambda>h. extract_skins h loaded_palette)
              (start (hdr @ skins_section sk1 @ st1 @ rest)) = (Inr (), a1)
        \<and> bind read_header (\<lambda>h. extract_skins h loaded_palette)
              (start (hdr @ skins_section sk2 @ st2 @ rest)) = (Inr (), a2)
        \<and> unread a1 = st1 @ rest \<and> unread a2 = st2 @ rest
        \<and> fpos a1 = 84 + nat (numskins header)
                           * (4 + nat (skinwidth header * skinheight header))
        \<and> fpos a2 = fpos a1 \<and> files a2 = files a1
        \<and> read_st_verts header a1 = (Inr v1, b)
        \<and> read_st_verts header a2 = (Inr v2, b)
        \<and> unread b = rest \<and> fpos b = fpos a1 + 12 * nat (numverts header)
        \<and> files b = files a1)"
proof -
  let ?in1 = "hdr @ skins_section sk1 @ st1 @ rest"
  let ?in2 = "hdr @ skins_section sk2 @ st2 @ rest"
  let ?tail = "bind (read_triangles header) (\<lambda>triangles_indices.
     bind (frames_loop fa header triangles_indices 0) (\<lambda>i. ret (header, i)))"
  from run obtain s0 a1 v1 b where
    rh: "read_header (start ?in1) = (Inr header, s0)" and
    sk: "extract_skins header loaded_palette s0 = (Inr (), a1)" and
    st: "read_st_verts header a1 = (Inr v1, b)" and
    tl: "?tail b = (Inr (header, i), s')"
    by (auto simp: main_body_def bind_Inr ret_def)
  from read_header_prefix [OF hdr rh, of "skins_section sk2 @ st2 @ rest"]
  have s0: "s0 = \<lparr>unread = skins_section sk1 @ st1 @ rest, fpos = 84, files = Map.empty\<rparr>"
    and rh2: "read_header (start ?in2)
        = (Inr header, \<lparr>unread = skins_section sk2 @ st2 @ rest, fpos = 84, files = Map.empty\<rparr>)"
    by simp_all
  define t0 where
    "t0 = \<lparr>unread = skins_section sk2 @ st2 @ rest, fpos = 84, files = Map.empty\<rparr>"
  have ks: "length [0..numskins header - 1] = nat (numskins header)" by simp
  from skins_loop_relational [OF length_loaded_palette
      sk [unfolded extract_skins_def for_loop_def] _ _ same e1 e2,
      where t = t0 and ?tl1.0 = "st1 @ rest" and ?tl2.0 = "st2 @ rest"]
  obtain a2 where
    sk2: "extract_skins header loaded_palette t0 = (Inr (), a2)" and
    u1: "unread a1 = st1 @ rest" and u2: "unread a2 = st2 @ rest" and
    f1: "fpos a1 = 84 + nat (numskins header)
                           * (4 + nat (skinwidth header * skinheight header))" and
    f2: "fpos a2 = fpos a1" and fl: "files a2 = files a1"
    unfolding extract_skins_def for_loop_def
    by (auto simp: n1 n2 s0 t0_def)
  from st have fits: "\<not> PTRDIFF_MAX < to_size_t (numverts header * sizeof_stvert_t)"
    by (auto simp: read_st_verts_def bind_def malloc_def Error_def split: if_splits)
  from read_st_verts_layout [OF fits t1 u1] st
  have b: "b = a1\<lparr>unread := rest, fpos := fpos a1 + 12 * nat (numverts header)\<rparr>"
    by auto
  from read_st_verts_layout [OF fits t2 u2] obtain v2 where
    st2: "read_st_verts header a2
        = (Inr v2, a2\<lparr>unread := rest, fpos := fpos a2 + 12 * nat (numverts header)\<rparr>)"
    by blast
  have "a2\<lparr>unread := rest, fpos := fpos a2 + 12 * nat (numverts header)\<rparr> = b"
    unfolding b using f2 fl by (cases a1, cases a2) simp
  with st2 have st2: "read_st_verts header a2 = (Inr v2, b)" by simp
  have second: "main_body fa (start ?in2) = (Inr (header, i), s')"
    using tl by (simp add: main_body_def bind_def rh2 sk2 [unfolded t0_def] st2)
  have p1: "bind read_header (\<lambda>h. extract_skins h loaded_palette) (start ?in1) = (Inr (), a1)"
    by (simp add: bind_def rh sk)
  have p2: "bind read_header (\<lambda>h. extract_skins h loaded_palette) (start ?in2) = (Inr (), a2)"
    by (simp add: bind_def rh2 sk2 [unfolded t0_def])
  have "unread b = rest" "fpos b = fpos a1 + 12 * nat (numverts header)" "files b = files a1"
    by (simp_all add: b)
  with second p1 p2 u1 u2 f1 f2 fl st st2 show ?thesis by blast
qed

lemma header_painted:
  "read_header (start (painted_header_bytes @ [])) =
     (Inr painted_header, \<lparr>unread = [], fpos = 84, files = Map.empty\<rparr>)"
  by (simp add: read_header_def start_def painted_header_bytes_def painted_header_def
      overshoot_header_def run_simps)

lemma frames_painted:
  "fst (bind (read_triangles painted_header) (\<lambda>triangles_indices.
     bind (frames_loop ieee_single painted_header triangles_indices 0) (\<lambda>i.
     ret (painted_header, i)))
      \<lparr>unread = painted_rest, fpos = 104, files = F\<rparr>) = Inr (painted_header, 1)"
  by (simp add: read_triangles_def frames_loop.simps painted_rest_def painted_header_def
      overshoot_header_def run_simps frame_simps ieee_simps)

lemma main_body_painted:
  assumes d: "length d = 4" and st: "length st = 12"
  shows "fst (main_body ieee_single
      (start (painted_header_bytes @ skins_section [(d, [7, 7, 7, 7])] @ st @ painted_rest)))
    = Inr (painted_header, 1)"
proof -
  let ?X = "skins_section [(d, [7, 7, 7, 7])] @ st @ painted_rest"
  let ?s0 = "\<lparr>unread = ?X, fpos = 84, files = Map.empty\<rparr>"
  let ?a = "\<lparr>unread = st @ painted_rest, fpos = 92,
     files = [SkinLbm 0 \<mapsto> raster_layout [7, 7, 7, 7] 2 2 loaded_palette]\<rparr>"
  let ?b = "\<lparr>unread = painted_rest, fpos = 104,
     files = [SkinLbm 0 \<mapsto> raster_layout [7, 7, 7, 7] 2 2 loaded_palette]\<rparr>"
  have len: "length painted_header_bytes = 84" by (simp add: painted_header_bytes_def)
  have rh: "read_header (start (painted_header_bytes @ ?X)) = (Inr painted_header, ?s0)"
    using read_header_prefix [OF len header_painted, of ?X] by simp
  have "extract_skin painted_header loaded_palette 0 ?s0 = (Inr (), ?a)"
    using d
    by (simp add: extract_skin_Inr [OF length_loaded_palette] painted_header_def
        overshoot_header_def skins_section_def)
  then have sk: "extract_skins painted_header loaded_palette ?s0 = (Inr (), ?a)"
    by (simp add: extract_skins_def for_loop_def painted_header_def overshoot_header_def
        upto.simps bind_def ret_def)
  have fits: "\<not> PTRDIFF_MAX < to_size_t (numverts painted_header * sizeof_stvert_t)"
    by (simp add: painted_header_def overshoot_header_def sizeof_stvert_t_def to_size_t_def
        SIZE_MAX1_def PTRDIFF_MAX_def)
  have "length st = 12 * nat (numverts painted_header)"
    using st by (simp add: painted_header_def overshoot_header_def)
  from read_st_verts_layout [OF fits this, of ?a painted_rest]
  obtain st_verts where tv: "read_st_verts painted_header ?a = (Inr st_verts, ?b)"
    by (auto simp: painted_header_def overshoot_header_def)
  show ?thesis
    using frames_painted [of "[SkinLbm 0 \<mapsto> raster_layout [7, 7, 7, 7] 2 2 loaded_palette]"]
    by (simp add: main_body_def bind_def rh sk tv)
qed

theorem discriminators_and_st_verts_unobserved_witness:
  "main_body ieee_single
     (start (painted_header_bytes @ skins_section [([1, 0, 0, 0], [7, 7, 7, 7])]
        @ [1, 0, 0, 0, 9, 0, 0, 0, 8, 0, 0, 0] @ painted_rest))
   = main_body ieee_single
     (start (painted_header_bytes @ skins_section [([0, 0, 0, 0], [7, 7, 7, 7])]
        @ [0, 0, 0, 0, 3, 0, 0, 0, 4, 0, 0, 0] @ painted_rest))
   \<and> fst (main_body ieee_single
     (start (painted_header_bytes @ skins_section [([0, 0, 0, 0], [7, 7, 7, 7])]
        @ [0, 0, 0, 0, 3, 0, 0, 0, 4, 0, 0, 0] @ painted_rest)))
     = Inr (painted_header, 1)"
proof -
  have len: "length painted_header_bytes = 84" by (simp add: painted_header_bytes_def)
  have fst1: "fst (main_body ieee_single
     (start (painted_header_bytes @ skins_section [([0, 0, 0, 0], [7, 7, 7, 7])]
        @ [0, 0, 0, 0, 3, 0, 0, 0, 4, 0, 0, 0] @ painted_rest)))
     = Inr (painted_header, 1)"
    by (rule main_body_painted) simp_all
  then obtain s' where run: "main_body ieee_single
     (start (painted_header_bytes @ skins_section [([0, 0, 0, 0], [7, 7, 7, 7])]
        @ [0, 0, 0, 0, 3, 0, 0, 0, 4, 0, 0, 0] @ painted_rest))
     = (Inr (painted_header, 1), s')"
    by (cases "main_body ieee_single
     (start (painted_header_bytes @ skins_section [([0, 0, 0, 0], [7, 7, 7, 7])]
        @ [0, 0, 0, 0, 3, 0, 0, 0, 4, 0, 0, 0] @ painted_rest))") simp
  from discriminators_and_st_verts_unobserved [OF len run,
      where ?sk2.0 = "[([1, 0, 0, 0], [7, 7, 7, 7])]"
        and ?st2.0 = "[1, 0, 0, 0, 9, 0, 0, 0, 8, 0, 0, 0]"]
  have "main_body ieee_single
     (start (painted_header_bytes @ skins_section [([1, 0, 0, 0], [7, 7, 7, 7])]
        @ [1, 0, 0, 0, 9, 0, 0, 0, 8, 0, 0, 0] @ painted_rest))
     = (Inr (painted_header, 1), s')"
    by (simp add: painted_header_def overshoot_header_def)
  with run fst1 show ?thesis by simp
qed

subsection \<open>Inputs without frames\<close>

theorem no_frames_no_meshes_witness:
  "main ieee_single (start skin_model) =
     (Inr 0, \<lparr>unread = [], fpos = 104,
        files = [SkinLbm 0 \<mapsto> raster_layout skin_pixels 4 4 loaded_palette]\<rparr>)"
proof -
  let ?s1 = "\<lparr>unread = skin_entry, fpos = 84, files = Map.empty\<rparr>"
  let ?s2 = "\<lparr>unread = [], fpos = 104,
        files = [SkinLbm 0 \<mapsto> raster_layout skin_pixels 4 4 loaded_palette]\<rparr>"
  have hd: "read_header (start skin_model) = (Inr skin_header, ?s1)"
    by (simp add: read_header_def start_def skin_model_def skin_header_bytes_def skin_header_def
      one_frame_header_def run_simps)
  have a: "numframes skin_header \<le> 0" by (simp add: skin_header_def)
  have "extract_skin skin_header loaded_palette 0 ?s1 = (Inr (), ?s2)"
    by (simp add: extract_skin_Inr [OF length_loaded_palette] skin_header_def skin_entry_def
        skin_pixels_def)
  then have b: "extract_skins skin_header loaded_palette ?s1 = (Inr (), ?s2)"
    by (simp add: extract_skins_def for_loop_def skin_header_def upto.simps bind_def ret_def)
  have c: "read_st_verts skin_header ?s2 = (Inr [], ?s2)"
    by (simp add: read_st_verts_def for_loop_def run_simps sizeof_stvert_t_def skin_header_def
        one_frame_header_def)
  have d: "read_triangles skin_header ?s2 = (Inr [], ?s2)"
    by (simp add: read_triangles_def for_loop_def run_simps sizeof_dtriangle_t_def
        skin_header_def one_frame_header_def)
  show ?thesis
    by (rule no_frames_no_meshes [OF hd a, of ieee_single,
          THEN conjunct2, THEN conjunct2, THEN conjunct2, rule_format, of ?s2 "[]" ?s2 "[]" ?s2])
       (simp add: b c d)
qed

lemma header_truncated_skin_model:
  "read_header (start truncated_skin_model) =
     (Inr skin_header, \<lparr>unread = drop 84 truncated_skin_model, fpos = 84, files = Map.empty\<rparr>)"
  by (simp add: read_header_def start_def truncated_skin_model_def skin_header_bytes_def skin_header_def
      one_frame_header_def run_simps)

lemma header_negative_verts_model:
  "read_header (start negative_verts_model) =
     (Inr (skin_header\<lparr>numskins := 0, skinwidth := 0, skinheight := 0, numverts := - 1\<rparr>),
      \<lparr>unread = [], fpos = 84, files = Map.empty\<rparr>)"
  by (simp add: read_header_def start_def negative_verts_model_def skin_header_def
      one_frame_header_def run_simps)

text \<open>
  The claim as stated fails: a header that is accepted and declares no frame does not
  make the run succeed.  On \<open>truncated_skin_model\<close> the program stops in the skin loop
  with \<open>FileReadFailure\<close> (16 bytes asked, 5 delivered, cursor at 93), and on
  \<open>negative_verts_model\<close> it stops at the allocation of the texture vertices.
\<close>

theorem no_frames_no_meshes_counterexample:
  "fst (read_header (start truncated_skin_model)) = Inr skin_header
   \<and> numframes skin_header = 0
   \<and> main ieee_single (start truncated_skin_model) =
       (Inl (FileReadFailure 16 5 93), \<lparr>unread = [], fpos = 93, files = Map.empty\<rparr>)
   \<and> fst (read_header (start negative_verts_model)) =
       Inr (skin_header\<lparr>numskins := 0, skinwidth := 0, skinheight := 0, numverts := - 1\<rparr>)
   \<and> main ieee_single (start negative_verts_model) =
       (Inl AllocFailure, \<lparr>unread = [], fpos = 84, files = Map.empty\<rparr>)"
proof -
  have a: "main ieee_single (start truncated_skin_model) =
       (Inl (FileReadFailure 16 5 93), \<lparr>unread = [], fpos = 93, files = Map.empty\<rparr>)"
    unfolding main_def main_body_def bind_assoc
    by (simp add: bind_Inr_step [where m = read_header, OF header_truncated_skin_model])
       (simp add: extract_skins_def extract_skin_def for_loop_def upto.simps skin_header_def
         one_frame_header_def truncated_skin_model_def skin_header_bytes_def run_simps)
  have b: "main ieee_single (start negative_verts_model) =
       (Inl AllocFailure, \<lparr>unread = [], fpos = 84, files = Map.empty\<rparr>)"
    unfolding main_def main_body_def bind_assoc
    by (simp add: bind_Inr_step [where m = read_header, OF header_negative_verts_model])
       (simp add: extract_skins_def read_st_verts_def for_loop_def upto.simps skin_header_def
         one_frame_header_def sizeof_stvert_t_def run_simps)
  show ?thesis
    using a b
    by (simp add: header_truncated_skin_model header_negative_verts_model)
       (simp add: skin_header_def)
qed

end
